(* ===== verification/Prelude.thy ===== *)
theory Prelude
  imports Main "HOL-Library.Word"
begin

text \<open>
  Shared vocabulary of the development: the machine types of the XVC server
  (bytes, 32-bit control words, 8-bit transaction ids), the error kinds the C++
  code throws, byte buffers with the effect of \<open>memcpy\<close>/\<open>memset\<close>, the
  little-endian 32-bit codec of \<open>getw32\<close>/\<open>setw32\<close>, and the generic lemmas
  on bits and lists that the component theories share.
\<close>

unbundle bit_operations_syntax

type_synonym byte = "8 word"
type_synonym header = "32 word"
type_synonym xid = "8 word"

named_theorems field_bits "bit characterisations of the control-word layout constants"
named_theorems buf_simps "length and content of byte buffers after memcpy/memset"

subsection \<open>Errors\<close>

text \<open>
  The exception classes of \<open>xvcSrv.cc\<close>: \<open>SysErr\<close> (an I/O failure, prefix
  message), \<open>ProtoErr\<close> (a malformed or rejected reply), \<open>TimeoutErr\<close> (no
  usable reply; only this one is caught by the retry loop) and
  \<open>std::runtime_error\<close> (configuration errors).
\<close>

datatype xvc_error =
    SysErr string
  | ProtoErr string
  | TimeoutErr
  | RuntimeErr string

subsection \<open>Byte buffers\<close>

text \<open>
  \<open>blit dst off src\<close> is \<open>memcpy(dst + off, src, length src)\<close>. Bytes written
  past the end of \<open>dst\<close> extend it (the C++ code writes into reserved vector
  capacity); the gap, if any, is filled with zeros, which stands for
  unspecified contents. \<open>slice xs i n\<close> is the \<open>n\<close> bytes at \<open>&xs[i]\<close>.
\<close>

definition blit :: "byte list \<Rightarrow> nat \<Rightarrow> byte list \<Rightarrow> byte list" where
  "blit dst off src =
     take off dst @ replicate (off - length dst) 0 @ src @ drop (off + length src) dst"

definition slice :: "byte list \<Rightarrow> nat \<Rightarrow> nat \<Rightarrow> byte list" where
  "slice xs i n = take n (drop i xs)"

subsection \<open>Little-endian 32-bit words\<close>

text \<open>
  \<open>getw32\<close> copies four bytes into a \<open>uint32_t\<close> and byte-swaps on a
  big-endian host, so the bytes are always read little-endian; \<open>setw32\<close> is
  its inverse and copies at most \<open>l\<close> bytes.
\<close>

definition le32 :: "32 word \<Rightarrow> byte list" where
  "le32 w = [ucast w, ucast (drop_bit 8 w), ucast (drop_bit 16 w), ucast (drop_bit 24 w)]"

definition of_le32 :: "byte list \<Rightarrow> 32 word" where
  "of_le32 bs =
     ucast (bs ! 0) OR push_bit 8 (ucast (bs ! 1)) OR push_bit 16 (ucast (bs ! 2))
       OR push_bit 24 (ucast (bs ! 3))"

subsection \<open>Decimal printing\<close>

text \<open>The \<open>%d\<close> conversion of \<open>snprintf\<close>, for the error texts.\<close>

fun dec_digits :: "nat \<Rightarrow> string" where
  "dec_digits n =
     (if n < 10 then [char_of (48 + n)] else dec_digits (n div 10) @ [char_of (48 + n mod 10)])"

declare dec_digits.simps [simp del]

subsection \<open>Buffer and word lemmas\<close>

lemma length_blit [buf_simps]:
  "length (blit dst off src) = max (length dst) (off + length src)"
  by (simp add: blit_def)

lemma length_blit_within [buf_simps]:
  "off + length src \<le> length dst \<Longrightarrow> length (blit dst off src) = length dst"
  by (simp add: length_blit)

lemma blit_split:
  "blit dst off src = (take off dst @ replicate (off - length dst) 0) @ src @ drop (off + length src) dst"
  and length_blit_prefix: "length (take off dst @ replicate (off - length dst) (0::byte)) = off"
  by (simp_all add: blit_def)

lemma nth_blit_inside [buf_simps]:
  "i < length src \<Longrightarrow> blit dst off src ! (off + i) = src ! i"
  by (metis blit_split length_blit_prefix nth_append_length_plus nth_append)

lemma nth_blit_before [buf_simps]:
  "j < off \<Longrightarrow> j < length dst \<Longrightarrow> blit dst off src ! j = dst ! j"
  by (simp add: blit_def nth_append)

lemma nth_blit_after [buf_simps]:
  assumes "off + length src \<le> j" and "j < length dst"
  shows "blit dst off src ! j = dst ! j"
proof -
  let ?a = "take off dst @ replicate (off - length dst) (0::byte) @ src"
  have la: "length ?a = off + length src"
    using assms by simp
  have "blit dst off src = ?a @ drop (off + length src) dst"
    by (simp add: blit_def)
  moreover have "j = length ?a + (j - (off + length src))"
    using assms la by simp
  ultimately have "blit dst off src ! j = drop (off + length src) dst ! (j - (off + length src))"
    by (metis nth_append_length_plus la)
  then show ?thesis
    using assms by simp
qed

lemma take_blit_prefix [buf_simps]:
  "n \<le> off \<Longrightarrow> n \<le> length dst \<Longrightarrow> take n (blit dst off src) = take n dst"
  by (simp add: blit_def)

lemma length_slice [buf_simps]:
  "i + n \<le> length xs \<Longrightarrow> length (slice xs i n) = n"
  by (simp add: slice_def)

lemma nth_slice [buf_simps]:
  "k < n \<Longrightarrow> i + n \<le> length xs \<Longrightarrow> slice xs i n ! k = xs ! (i + k)"
  by (simp add: slice_def)

lemma length_le32 [buf_simps]: "length (le32 w) = 4"
  by (simp add: le32_def)

lemma of_le32_le32 [simp]: "of_le32 (le32 w) = w"
proof (rule bit_word_eqI)
  fix n
  show "n < LENGTH(32) \<Longrightarrow> bit (of_le32 (le32 w)) n = bit w n"
  proof -
    assume "n < LENGTH(32)"
    then consider "n < 8" | "8 \<le> n \<and> n < 16" | "16 \<le> n \<and> n < 24" | "24 \<le> n \<and> n < 32"
      by fastforce
    then show ?thesis
      unfolding of_le32_def le32_def
      by cases (auto simp: bit_simps)
  qed
qed

lemma byte_ucast_bits: "bit (ucast (b :: byte) :: 32 word) n \<longleftrightarrow> n < 8 \<and> bit b n"
  by (auto simp: bit_ucast_iff dest: bit_imp_le_length)

lemma le32_of_le32: assumes "length bs = 4" shows "le32 (of_le32 bs) = bs"
proof -
  obtain a b c d where bs: "bs = [a, b, c, d]"
    using assms by (auto simp: length_Suc_conv numeral_eq_Suc)
  have e: "ucast (drop_bit k (ucast a OR push_bit 8 (ucast b) OR push_bit 16 (ucast c) OR push_bit 24 (ucast d) :: 32 word))
           = (if k = 0 then a else if k = 8 then b else if k = 16 then c else d)" if "k \<in> {0, 8, 16, 24}" for k
    by (rule bit_word_eqI) (use that in \<open>auto simp: bit_ucast_iff bit_drop_bit_eq bit_or_iff bit_push_bit_iff byte_ucast_bits dest: bit_imp_le_length\<close>)
  show ?thesis
    using e [of 0] e [of 8] e [of 16] e [of 24] by (simp add: bs le32_def of_le32_def)
qed

lemma of_le32_prefix: "4 \<le> length bs \<Longrightarrow> of_le32 (take 4 bs @ ys) = of_le32 bs"
  by (simp add: of_le32_def nth_append)

lemma of_le32_append:
  assumes "4 \<le> length bs"
  shows "of_le32 (bs @ ys) = of_le32 bs"
proof -
  have "\<And>i. i < 4 \<Longrightarrow> (bs @ ys) ! i = bs ! i"
    using assms by (simp add: nth_append_left)
  then show ?thesis by (simp add: of_le32_def)
qed

lemma blit_0: "blit buf 0 src = src @ drop (length src) buf"
  by (simp add: blit_def)

lemma blit_0_Nil [simp]: "blit buf 0 [] = buf"
  by (simp add: blit_def)

lemma take_blit_0 [buf_simps]: "take (length src) (blit buf 0 src) = src"
  by (simp add: blit_0)

lemma of_le32_cong: "take 4 bs = take 4 cs \<Longrightarrow> 4 \<le> length bs \<Longrightarrow> 4 \<le> length cs \<Longrightarrow>
    of_le32 bs = of_le32 cs"
  by (metis of_le32_prefix)

subsection \<open>Bits of bounded words\<close>

lemma nat_bit_bound: "(m::nat) < 2 ^ k \<Longrightarrow> bit m n \<Longrightarrow> n < k"
proof (rule ccontr)
  assume a: "m < 2 ^ k" "bit m n" "\<not> n < k"
  then have "(2::nat) ^ k \<le> 2 ^ n" by simp
  with a have "m < 2 ^ n" by linarith
  then have "m div 2 ^ n = 0" by simp
  with \<open>bit m n\<close> show False by (simp add: bit_iff_odd)
qed

lemma word_bit_bound: "unat (w::'a::len word) < 2 ^ k \<Longrightarrow> bit w n \<Longrightarrow> n < k"
  using nat_bit_bound [of "unat w" k n] by (simp add: bit_unsigned_iff)

lemma bit_word_pow2: "bit ((2::'a::len word) ^ k) n \<longleftrightarrow> k < LENGTH('a) \<and> n = k"
  by (subst bit_exp_iff) auto

lemma dec_digits_nonempty: "dec_digits n \<noteq> []"
  by (subst dec_digits.simps) simp

end
