(* ===== verification/Codec.thy ===== *)
theory Codec
  imports Complex_Main Prelude
begin

text \<open>
  The control-word codec of \<open>JtagDriverAxisToJtag\<close> (\<open>xvcSrv.cc\<close>, lines
  111--294): the layout constants of the 32-bit header, the field accessors
  \<open>getXid\<close>, \<open>getCmd\<close>, \<open>getErr\<close>, \<open>getLen\<close>, \<open>getVrs\<close>, the reply
  accessors \<open>wordSize\<close>, \<open>memDepth\<close>, \<open>cvtPerNs\<close>, the constructors
  \<open>mkQuery\<close>, \<open>mkShift\<close> (with the transaction-id generator \<open>newXid\<close>),
  \<open>mkQueryReply\<close> with its period encoder \<open>encPerNs\<close>, and the byte-order
  boundary \<open>getHdr\<close>/\<open>setHdr\<close>.

  The constants live in \<open>xvcSrv.h\<close>, which is not part of the sources; their
  values follow the layout the specification fixes (word size in bits 0--3,
  memory depth in bits 4--19, transaction id / period code in bits 20--27) and
  complete it consistently: length in bits 0--19, command tag in bits 28--29,
  protocol version in bits 30--31, error code in bits 0--7.
\<close>

unbundle bit_operations_syntax

subsection \<open>Layout constants (xvcSrv.h)\<close>

definition PVER0 :: header where "PVER0 = 0"
definition PVERS :: header where "PVERS = PVER0"
definition VRS_MASK :: header where "VRS_MASK = 0xc0000000"
definition CMD_Q :: header where "CMD_Q = 0"
definition CMD_S :: header where "CMD_S = 0x10000000"
definition CMD_E :: header where "CMD_E = 0x20000000"
definition CMD_MASK :: header where "CMD_MASK = 0x30000000"
definition XID_SHIFT :: nat where "XID_SHIFT = 20"
definition XID_ANY :: xid where "XID_ANY = 0"
definition LEN_SHIFT :: nat where "LEN_SHIFT = 0"
definition LEN_MASK :: header where "LEN_MASK = 0x000fffff"
definition ERR_SHIFT :: nat where "ERR_SHIFT = 0"
definition ERR_MASK :: header where "ERR_MASK = 0x000000ff"
definition ERR_BAD_VERSION :: nat where "ERR_BAD_VERSION = 1"
definition ERR_BAD_COMMAND :: nat where "ERR_BAD_COMMAND = 2"
definition ERR_TRUNCATED :: nat where "ERR_TRUNCATED = 3"
definition ERR_NOT_PRESENT :: nat where "ERR_NOT_PRESENT = 4"
definition UNKNOWN_PERIOD :: "32 word" where "UNKNOWN_PERIOD = 0"

subsection \<open>Field accessors (xvcSrv.cc 111--168)\<close>

definition newXid :: "xid \<Rightarrow> xid \<times> header" where
  "newXid x =
     (let x1 = x + 1;
          x2 = (if x1 = XID_ANY then x1 + 1 else x1)
      in (x2, push_bit XID_SHIFT (ucast x2)))"

definition getXid :: "header \<Rightarrow> xid" where
  "getXid x = ucast (drop_bit 20 x AND 0xff)"

definition getCmd :: "header \<Rightarrow> header" where
  "getCmd x = x AND CMD_MASK"

definition getErr :: "header \<Rightarrow> nat" where
  "getErr x = (if getCmd x \<noteq> CMD_E then 0 else unat (drop_bit ERR_SHIFT (x AND ERR_MASK)))"

definition getLen :: "header \<Rightarrow> xvc_error + nat" where
  "getLen x =
     (if getCmd x \<noteq> CMD_S
      then Inl (ProtoErr ''Cannot extract length from non-shift command header'')
      else Inr (unat (drop_bit LEN_SHIFT (x AND LEN_MASK)) + 1))"

definition getVrs :: "header \<Rightarrow> header" where
  "getVrs x = x AND VRS_MASK"

definition getMsg :: "nat \<Rightarrow> string option" where
  "getMsg e =
     (if e = 0 then Some ''NO ERROR''
      else if e = ERR_BAD_VERSION then Some ''Unsupported Protocol Version''
      else if e = ERR_BAD_COMMAND then Some ''Unsupported Command''
      else if e = ERR_TRUNCATED then Some ''Unsupported Command''
      else if e = ERR_NOT_PRESENT then Some ''XVC Support not Instantiated in Firmware''
      else None)"

subsection \<open>Constructors and reply accessors (xvcSrv.cc 171--258)\<close>

definition mkQuery :: header where
  "mkQuery = PVERS OR CMD_Q OR ucast XID_ANY"

text \<open>\<open>mkShift\<close> draws a fresh id from the generator state \<open>xid_\<close>.\<close>

definition mkShift :: "xid \<Rightarrow> 32 word \<Rightarrow> xid \<times> header" where
  "mkShift x len =
     (let len' = len - 1;
          (x', h) = newXid x
      in (x', PVERS OR CMD_S OR h OR push_bit LEN_SHIFT len'))"

definition wordSize :: "header \<Rightarrow> nat" where
  "wordSize reply = unat (reply AND 0x0000000f) + 1"

definition memDepth :: "header \<Rightarrow> nat" where
  "memDepth reply = unat (drop_bit 4 reply AND 0xffff)"

text \<open>
  The clock-period codec computes in \<open>double\<close>; it is modelled in exact real
  arithmetic. \<open>c_round\<close> is C's \<open>round\<close> (halves away from zero); the cast
  to \<open>uint32_t\<close> is taken modulo \<open>2^32\<close>. \<open>ref\<close> is the reference
  frequency \<open>REF_FREQ_HZ()\<close> of \<open>xvcSrv.h\<close>.
\<close>

definition c_round :: "real \<Rightarrow> int" where
  "c_round r = (if 0 \<le> r then round r else - round (- r))"

definition cvtPerNs :: "real \<Rightarrow> header \<Rightarrow> 32 word" where
  "cvtPerNs ref reply =
     (let rawVal = unat (drop_bit XID_SHIFT reply AND 0xff)
      in if rawVal = 0 then UNKNOWN_PERIOD
         else word_of_int (c_round (10 powr (real rawVal * 4 / 256) * 1000000000 / ref)))"

definition encPerNs :: "real \<Rightarrow> 32 word \<Rightarrow> 32 word" where
  "encPerNs ref perNs =
     (if perNs = UNKNOWN_PERIOD then 0
      else word_of_int (c_round (log 10 (real (unat perNs) * ref / 1000000000) * 256 / 4)))"

definition mkQueryReply ::
  "real \<Rightarrow> header \<Rightarrow> 32 word \<Rightarrow> 32 word \<Rightarrow> 32 word \<Rightarrow> xvc_error + header" where
  "mkQueryReply ref protoVers ws md periodNs =
     (let periodEncoded = encPerNs ref periodNs
      in if protoVers \<noteq> PVER0 then Inl (RuntimeErr ''mkQueryReply: unsupported protocol version'')
         else if ws > 16 then Inl (RuntimeErr ''mkQueryReply: unsupported word size'')
         else if unat md \<ge> 2 ^ 16 then Inl (RuntimeErr ''mkQueryReply: unsupported memory depth'')
         else if unat periodNs \<ge> 2 ^ 8 then Inl (RuntimeErr ''mkQueryReply: unsupported TCK clock period'')
         else Inr (protoVers OR CMD_Q
                   OR push_bit 20 (periodEncoded AND 0xff)
                   OR push_bit 4 (md AND 0xffff)
                   OR push_bit 0 ((ws - 1) AND 0xf)))"

subsection \<open>Byte-order boundary (xvcSrv.cc 261--294)\<close>

definition getw32 :: "byte list \<Rightarrow> 32 word" where
  "getw32 buf = of_le32 buf"

definition getHdr :: "byte list \<Rightarrow> header" where
  "getHdr buf = getw32 buf"

definition setw32 :: "byte list \<Rightarrow> 32 word \<Rightarrow> nat \<Rightarrow> byte list" where
  "setw32 buf w l = blit buf 0 (take (if l \<ge> 4 then 4 else l) (le32 w))"

text \<open>
  \<open>setHdr\<close> writes the header and clears the rest of the header word; the
  length of the cleared area is the unsigned difference \<open>getWordSize() - 4\<close>,
  which wraps for a word size below four.
\<close>

definition setHdr :: "nat \<Rightarrow> byte list \<Rightarrow> header \<Rightarrow> byte list" where
  "setHdr wsz buf hdr =
     (let empty = unat (word_of_nat wsz - 4 :: 32 word)
      in blit (setw32 buf hdr 4) 4 (replicate empty 0))"

subsection \<open>Layout lemmas\<close>

lemma mask_lits:
  "(0x0000000f::header) = mask 4" "(0xff::header) = mask 8" "(0xffff::header) = mask 16"
  "(0x000fffff::header) = mask 20"
  by (simp_all add: mask_eq_exp_minus_1)

lemma bit_CMD_S [field_bits]: "bit CMD_S n \<longleftrightarrow> n = 28"
proof -
  have e: "CMD_S = 2 ^ 28" by (simp add: CMD_S_def)
  show ?thesis unfolding e bit_word_pow2 by auto
qed

lemma bit_CMD_E [field_bits]: "bit CMD_E n \<longleftrightarrow> n = 29"
proof -
  have e: "CMD_E = 2 ^ 29" by (simp add: CMD_E_def)
  show ?thesis unfolding e bit_word_pow2 by auto
qed

lemma bit_CMD_MASK [field_bits]: "bit CMD_MASK n \<longleftrightarrow> n = 28 \<or> n = 29"
proof -
  have e: "CMD_MASK = 2 ^ 28 OR 2 ^ 29" by (simp add: CMD_MASK_def)
  show ?thesis unfolding e bit_or_iff bit_word_pow2 by auto
qed

lemma bit_VRS_MASK [field_bits]: "bit VRS_MASK n \<longleftrightarrow> n = 30 \<or> n = 31"
proof -
  have e: "VRS_MASK = 2 ^ 30 OR 2 ^ 31" by (simp add: VRS_MASK_def)
  show ?thesis unfolding e bit_or_iff bit_word_pow2 by auto
qed

lemma bit_LEN_MASK [field_bits]: "bit LEN_MASK n \<longleftrightarrow> n < 20"
  by (auto simp add: LEN_MASK_def mask_lits bit_mask_iff)

lemma bit_ERR_MASK [field_bits]: "bit ERR_MASK n \<longleftrightarrow> n < 8"
  by (auto simp add: ERR_MASK_def mask_lits bit_mask_iff)

lemma zero_consts [field_bits]: "PVERS = 0" "PVER0 = 0" "CMD_Q = 0" "XID_ANY = 0" "LEN_SHIFT = 0" "ERR_SHIFT = 0" "XID_SHIFT = 20"
  by (simp_all add: PVERS_def PVER0_def CMD_Q_def XID_ANY_def LEN_SHIFT_def ERR_SHIFT_def XID_SHIFT_def)

lemmas bit_ops = bit_and_iff bit_or_iff bit_push_bit_iff bit_drop_bit_eq bit_ucast_iff bit_mask_iff

subsection \<open>Shift headers and transaction ids\<close>

lemma bit_mkShift:
  "bit (snd (mkShift x len)) n \<longleftrightarrow>
     n = 28 \<or> (20 \<le> n \<and> n < 28 \<and> bit (fst (mkShift x len)) (n - 20)) \<or> bit (len - 1) n"
  unfolding mkShift_def newXid_def Let_def
  by (auto simp: bit_ops field_bits dest: bit_imp_le_length)

lemma mkShift_small_len:
  assumes "1 \<le> unat len" "unat len \<le> 2 ^ 28"
  shows "bit (len - 1) n \<Longrightarrow> n < 28"
  using assms by (intro word_bit_bound[of "len - 1" 28]) (simp_all add: unat_sub_if_size)

lemma getCmd_mkShift: "getCmd (snd (mkShift x len)) = CMD_S" if "1 \<le> unat len" "unat len \<le> 2 ^ 28"
  unfolding getCmd_def
  by (rule bit_word_eqI) (auto simp: bit_ops field_bits bit_mkShift dest: mkShift_small_len[OF that])

lemma getLen_mkShift_wrap:
  assumes "1 \<le> unat len" "unat len \<le> 2 ^ 28"
  shows "getLen (snd (mkShift x len)) = Inr ((unat len - 1) mod 2 ^ 20 + 1)"
proof -
  have "snd (mkShift x len) AND LEN_MASK = take_bit 20 (len - 1)"
    by (rule bit_word_eqI) (auto simp: bit_ops field_bits bit_mkShift bit_take_bit_iff)
  moreover have "unat (take_bit 20 (len - 1)) = (unat len - 1) mod 2 ^ 20"
    using assms by (simp add: take_bit_eq_mod unat_mod unat_sub_if_size)
  ultimately show ?thesis
    using assms by (simp add: getLen_def getCmd_mkShift field_bits)
qed

lemma getXid_mkShift_bits:
  assumes "\<And>n. bit (len - 1) n \<Longrightarrow> n < 20"
  shows "getXid (snd (mkShift x len)) = fst (mkShift x len)"
  unfolding getXid_def mask_lits
  by (rule bit_word_eqI) (auto simp: bit_ops bit_mkShift dest: assms)

lemma getErr_mkShift:
  "1 \<le> unat len \<Longrightarrow> unat len \<le> 2 ^ 28 \<Longrightarrow> getErr (snd (mkShift x len)) = 0"
  by (simp add: getErr_def getCmd_mkShift CMD_S_def CMD_E_def)

text \<open>C3: a shift header built for a length of 1 to \<open>2^20\<close> bits decodes to
  exactly that length.\<close>

lemma getLen_mkShift:
  assumes "1 \<le> unat len" "unat len \<le> 2 ^ 20"
  shows "getLen (snd (mkShift x len)) = Inr (unat len)"
  using assms getLen_mkShift_wrap [of len x] by simp

text \<open>C7: the transaction id field of a shift header is the id the generator
  has just drawn, so a reply echoing it is recognised.\<close>

lemma getXid_mkShift:
  assumes "1 \<le> unat len" "unat len \<le> 2 ^ 20"
  shows "getXid (snd (mkShift x len)) = fst (mkShift x len)"
  using assms by (intro getXid_mkShift_bits word_bit_bound[of "len - 1" 20]) (simp_all add: unat_sub_if_size)

lemma newXid_not_any: "fst (newXid x) \<noteq> XID_ANY"
  by (auto simp: newXid_def Let_def field_bits)

lemma fst_mkShift: "fst (mkShift x len) = fst (newXid x)"
  by (simp add: mkShift_def Let_def split: prod.splits)

lemma unat_newXid: "unat (fst (newXid x)) = (if unat x = 255 then 1 else unat x + 1)"
proof (cases "unat x = 255")
  case True
  then have "x = 255" by (simp add: word_unat_eq_iff)
  then show ?thesis by (simp add: newXid_def field_bits)
next
  case False
  then have "unat x < 255" using unsigned_less [of x, where ?'a = nat] by simp
  then have "unat (x + 1) = unat x + 1" by (simp add: unat_word_ariths)
  moreover from this have "x + 1 \<noteq> 0" by (metis unat_0 add_eq_0_iff_both_eq_0 one_neq_zero)
  ultimately show ?thesis using False by (simp add: newXid_def Let_def field_bits)
qed

lemma newXid_iterate:
  "x \<noteq> XID_ANY \<Longrightarrow> unat (((\<lambda>y. fst (newXid y)) ^^ k) x) = (unat x - 1 + k) mod 255 + 1"
proof (induction k)
  case 0
  have "unat x \<noteq> 0" using "0.prems" by (simp add: field_bits unat_eq_zero)
  moreover have "unat x < 256" using unsigned_less [of x, where ?'a = nat] by simp
  ultimately show ?case by simp
next
  case (Suc k)
  then show ?case by (simp add: unat_newXid mod_Suc)
qed

text \<open>The id generator skips the wildcard and cycles through the 255 other
  ids: from any non-wildcard id, 255 draws return to it.\<close>

lemma newXid_period: "x \<noteq> XID_ANY \<Longrightarrow> ((\<lambda>y. fst (newXid y)) ^^ 255) x = x"
proof -
  assume a: "x \<noteq> XID_ANY"
  have "unat x \<noteq> 0" using a by (simp add: field_bits unat_eq_zero)
  moreover have "unat x < 256" using unsigned_less [of x, where ?'a = nat] by simp
  moreover obtain v where v: "unat x = Suc v"
    using calculation(1) not0_implies_Suc by blast
  ultimately have "v < 255" by simp
  then have "unat (((\<lambda>y. fst (newXid y)) ^^ 255) x) = unat x"
    using newXid_iterate [OF a, of 255] by (simp add: v)
  then show ?thesis by (simp add: word_unat_eq_iff)
qed

subsection \<open>Query replies\<close>

lemma mkQueryReply_Inr:
  assumes "unat ws \<le> 16" "unat md < 2 ^ 16" "unat p < 2 ^ 8"
  shows "mkQueryReply ref PVER0 ws md p =
           Inr (PVER0 OR CMD_Q OR push_bit 20 (encPerNs ref p AND 0xff) OR push_bit 4 (md AND 0xffff)
                OR push_bit 0 ((ws - 1) AND 0xf))"
proof -
  have "\<not> ws > 16" using assms(1) by (simp add: word_less_nat_alt)
  with assms show ?thesis by (simp add: mkQueryReply_def Let_def)
qed

lemma mkQueryReply_fields:
  assumes "1 \<le> unat ws" "unat ws \<le> 16" "unat md < 2 ^ 16" "unat p < 2 ^ 8"
    and "mkQueryReply ref PVER0 ws md p = Inr h"
  shows "wordSize h = unat ws" and "memDepth h = unat md"
    and "getCmd h = CMD_Q" and "getVrs h = PVER0"
    and "drop_bit 20 h AND 0xff = encPerNs ref p AND 0xff"
proof -
  have h: "h = PVER0 OR CMD_Q OR push_bit 20 (encPerNs ref p AND mask 8) OR push_bit 4 (md AND mask 16)
                OR push_bit 0 ((ws - 1) AND mask 4)"
    using assms mkQueryReply_Inr [of ws md p ref] by (simp add: mask_lits)
  have bw: "bit (ws - 1) n \<Longrightarrow> n < 4" for n
    using assms by (intro word_bit_bound [of "ws - 1" 4]) (simp_all add: unat_sub_if_size)
  have bm: "bit md n \<Longrightarrow> n < 16" for n
    using assms by (intro word_bit_bound [of md 16]) simp_all
  have "h AND 0x0000000f = ws - 1"
    unfolding mask_lits
    by (rule bit_word_eqI) (auto simp: h bit_ops field_bits dest: bw)
  then show "wordSize h = unat ws"
    using assms by (simp add: wordSize_def unat_sub_if_size)
  have "drop_bit 4 h AND 0xffff = md"
    unfolding mask_lits
    by (rule bit_word_eqI) (auto simp: h bit_ops field_bits dest: bm)
  then show "memDepth h = unat md"
    by (simp add: memDepth_def)
  show "getCmd h = CMD_Q"
    unfolding getCmd_def
    by (rule bit_word_eqI) (auto simp: h bit_ops field_bits)
  show "getVrs h = PVER0"
    unfolding getVrs_def
    by (rule bit_word_eqI) (auto simp: h bit_ops field_bits)
  show "drop_bit 20 h AND 0xff = encPerNs ref p AND 0xff"
    unfolding mask_lits
    by (rule bit_word_eqI) (auto simp: h bit_ops field_bits)
qed

text \<open>C31: a query reply built from valid parameters (word size 1 to 16, memory
  depth below \<open>2^16\<close>, clock period below 256 ns, the only periods
  \<open>mkQueryReply\<close> accepts) is accepted, and decoding it gives back the word
  size, the memory depth, the Query tag and protocol version 0.\<close>

theorem mkQueryReply_roundtrip:
  assumes "1 \<le> unat ws" "unat ws \<le> 16" "unat md < 2 ^ 16" "unat p < 2 ^ 8"
  shows "\<exists>h. mkQueryReply ref PVER0 ws md p = Inr h \<and> wordSize h = unat ws \<and>
           memDepth h = unat md \<and> getCmd h = CMD_Q \<and> getVrs h = PVER0"
proof -
  obtain h where h: "mkQueryReply ref PVER0 ws md p = Inr h"
    using mkQueryReply_Inr [of ws md p ref] assms by simp
  show ?thesis
    using mkQueryReply_fields [OF assms h] h by blast
qed

lemma encPerNs_unknown: "encPerNs ref UNKNOWN_PERIOD = 0"
  by (simp add: encPerNs_def)

lemma cvtPerNs_zero_code: "drop_bit 20 h AND 0xff = 0 \<Longrightarrow> cvtPerNs ref h = UNKNOWN_PERIOD"
  by (simp add: cvtPerNs_def field_bits)

text \<open>The unknown clock period is encoded as code 0 and decoded back to the
  unknown period exactly.\<close>

lemma mkQueryReply_unknown_period:
  assumes "1 \<le> unat ws" "unat ws \<le> 16" "unat md < 2 ^ 16"
    and "mkQueryReply ref PVER0 ws md UNKNOWN_PERIOD = Inr h"
  shows "cvtPerNs ref h = UNKNOWN_PERIOD"
proof -
  have "unat UNKNOWN_PERIOD < 2 ^ 8" by (simp add: UNKNOWN_PERIOD_def)
  with assms have "drop_bit 20 h AND 0xff = encPerNs ref UNKNOWN_PERIOD AND 0xff"
    by (intro mkQueryReply_fields(5)) simp_all
  then show ?thesis by (simp add: encPerNs_unknown cvtPerNs_zero_code)
qed

text \<open>C33: \<open>mkQueryReply\<close> range-checks the period in nanoseconds, not its
  8-bit code: any period of 256 ns or more is rejected although its logarithmic
  code fits the field.\<close>

lemma mkQueryReply_rejects_period:
  assumes "unat ws \<le> 16" "unat md < 2 ^ 16" "2 ^ 8 \<le> unat p"
  shows "mkQueryReply ref PVER0 ws md p = Inl (RuntimeErr ''mkQueryReply: unsupported TCK clock period'')"
proof -
  have "\<not> ws > 16" using assms(1) by (simp add: word_less_nat_alt)
  with assms show ?thesis by (simp add: mkQueryReply_def Let_def)
qed

text \<open>C34: a word size of 0 passes the range check of \<open>mkQueryReply\<close>: with a
  valid memory depth and period the reply is built, and it announces a word
  size of 16 bytes.\<close>

lemma mkQueryReply_zero_word_size:
  assumes "unat md < 2 ^ 16" "unat p < 2 ^ 8"
  shows "\<exists>h. mkQueryReply ref PVER0 0 md p = Inr h \<and> wordSize h = 16"
proof -
  obtain h where a: "mkQueryReply ref PVER0 0 md p = Inr h"
    using mkQueryReply_Inr [of 0 md p ref] assms by simp
  have "h AND 0x0000000f = 15"
    using a unfolding mkQueryReply_def Let_def mask_lits
    by (auto simp: bit_ops field_bits split: if_splits intro!: bit_word_eqI)
  then show ?thesis using a by (simp add: wordSize_def)
qed

text \<open>The error table maps the code for a truncated request to the same
  text as an unsupported command.\<close>

lemma getMsg_truncated: "getMsg ERR_TRUNCATED = getMsg ERR_BAD_COMMAND"
  by (simp add: getMsg_def ERR_TRUNCATED_def ERR_BAD_COMMAND_def ERR_BAD_VERSION_def)

text \<open>\<open>mkShift\<close> does not range-check the length: a shift of \<open>2^20 + 1\<close>
  bits is announced to the target as a shift of 1 bit.\<close>

lemma mkShift_long_len: "getLen (snd (mkShift x (2 ^ 20 + 1))) = Inr 1"
proof -
  have "unat (2 ^ 20 + 1 :: 32 word) = 2 ^ 20 + 1" by simp
  then show ?thesis using getLen_mkShift_wrap [of "2 ^ 20 + 1" x] by simp
qed

lemma getCmd_mkShift_zero: "getCmd (snd (mkShift x 0)) = CMD_MASK"
  unfolding getCmd_def
  by (rule bit_word_eqI) (auto simp: bit_mkShift bit_ops field_bits)

subsection \<open>Header bytes\<close>

lemma length_setw32: "length (setw32 buf w 4) = max (length buf) 4"
  by (simp add: setw32_def length_blit length_le32)

lemma take4_setHdr: "take 4 (setHdr wsz buf h) = le32 h"
proof -
  have "take 4 (setw32 buf h 4) = le32 h"
    by (simp add: setw32_def blit_def length_le32)
  moreover have "4 \<le> length (setw32 buf h 4)" by (simp add: length_setw32)
  ultimately show ?thesis
    by (simp add: setHdr_def Let_def take_blit_prefix)
qed

text \<open>The control word written into a buffer by \<open>setHdr\<close> is read back
  unchanged by \<open>getHdr\<close> (little-endian on the wire, host order in memory).\<close>

lemma getHdr_setHdr: "getHdr (setHdr wsz buf h) = h"
proof -
  have "4 \<le> length (setHdr wsz buf h)"
    by (simp add: setHdr_def Let_def length_blit)
  then have "of_le32 (take 4 (setHdr wsz buf h)) = of_le32 (setHdr wsz buf h)"
    using of_le32_prefix [of "setHdr wsz buf h" "[]"] by simp
  then show ?thesis by (simp add: getHdr_def getw32_def take4_setHdr)
qed

lemma unat_wsz_minus_4: "4 \<le> wsz \<Longrightarrow> wsz < 2 ^ 32 \<Longrightarrow> unat (word_of_nat wsz - 4 :: 32 word) = wsz - 4"
  by (simp add: unat_sub_if_size unat_of_nat)

lemma length_setHdr:
  "4 \<le> wsz \<Longrightarrow> wsz < 2 ^ 32 \<Longrightarrow> length (setHdr wsz buf h) = max (length buf) wsz"
  by (simp add: setHdr_def Let_def length_blit length_setw32 unat_wsz_minus_4)

lemma setHdr_pad:
  assumes "4 \<le> i" "i < wsz" "wsz < 2 ^ 32"
  shows "setHdr wsz buf h ! i = 0"
proof -
  have e: "unat (word_of_nat wsz - 4 :: 32 word) = wsz - 4"
    using assms by (intro unat_wsz_minus_4) simp_all
  have "setHdr wsz buf h ! (4 + (i - 4)) = replicate (wsz - 4) 0 ! (i - 4)"
    using assms unfolding setHdr_def Let_def e
    by (subst nth_blit_inside) simp_all
  then show ?thesis using assms by simp
qed

text \<open>C40: with a word size below 4 bytes the unsigned size of the area
  \<open>setHdr\<close> clears wraps around: it writes past \<open>2^32\<close> bytes.\<close>

lemma setHdr_small_word_size:
  assumes "wsz < 4"
  shows "2 ^ 32 \<le> length (setHdr wsz buf h)"
proof -
  have "unat (word_of_nat wsz - 4 :: 32 word) = 2 ^ 32 + wsz - 4"
    using assms by (simp add: unat_sub_if_size unat_of_nat word_size)
  then show ?thesis using assms
    by (simp add: setHdr_def Let_def length_blit)
qed
subsection \<open>Witnesses\<close>

lemma getLen_mkShift_witness:
  "1 \<le> unat (8::32 word) \<and> unat (8::32 word) \<le> 2 ^ 20 \<and> getLen (snd (mkShift 5 8)) = Inr 8"
  using getLen_mkShift [of 8 5] by simp

lemma getXid_mkShift_witness:
  "1 \<le> unat (8::32 word) \<and> unat (8::32 word) \<le> 2 ^ 20 \<and> getXid (snd (mkShift 5 8)) = 6"
  using getXid_mkShift [of 8 5] by (simp add: mkShift_def newXid_def Let_def XID_ANY_def)

lemma newXid_period_witness:
  "(5::xid) \<noteq> XID_ANY \<and> ((\<lambda>y. fst (newXid y)) ^^ 255) 5 = 5"
  using newXid_period [of 5] by (simp add: XID_ANY_def)

lemma mkQueryReply_roundtrip_witness:
  "1 \<le> unat (4::32 word) \<and> unat (4::32 word) \<le> 16 \<and> unat (512::32 word) < 2 ^ 16 \<and>
   unat UNKNOWN_PERIOD < 2 ^ 8 \<and>
   (\<exists>h. mkQueryReply 1 PVER0 4 512 UNKNOWN_PERIOD = Inr h \<and> wordSize h = 4 \<and> memDepth h = 512 \<and>
        getCmd h = CMD_Q \<and> getVrs h = PVER0)"
  using mkQueryReply_roundtrip [of 4 512 UNKNOWN_PERIOD 1] by (simp add: UNKNOWN_PERIOD_def)

lemma mkQueryReply_unknown_period_witness:
  "1 \<le> unat (4::32 word) \<and> unat (4::32 word) \<le> 16 \<and> unat (512::32 word) < 2 ^ 16 \<and>
   mkQueryReply 1 PVER0 4 512 UNKNOWN_PERIOD =
     Inr (push_bit 4 (512 AND 0xffff) OR (3 AND 0xf)) \<and>
   cvtPerNs 1 (push_bit 4 (512 AND 0xffff) OR (3 AND 0xf)) = UNKNOWN_PERIOD"
proof -
  have r: "mkQueryReply 1 PVER0 4 512 UNKNOWN_PERIOD = Inr (push_bit 4 (512 AND 0xffff) OR (3 AND 0xf))"
    by (simp add: mkQueryReply_def encPerNs_def UNKNOWN_PERIOD_def PVER0_def CMD_Q_def)
  show ?thesis
    using mkQueryReply_unknown_period [of 4 512 1 "push_bit 4 (512 AND 0xffff) OR (3 AND 0xf)"] r
    by simp
qed

lemma mkQueryReply_rejects_period_witness:
  "unat (4::32 word) \<le> 16 \<and> unat (512::32 word) < 2 ^ 16 \<and> 2 ^ 8 \<le> unat (1000::32 word) \<and>
   mkQueryReply 1 PVER0 4 512 1000 = Inl (RuntimeErr ''mkQueryReply: unsupported TCK clock period'')"
  using mkQueryReply_rejects_period [of 4 512 1000 1] by simp

lemma mkQueryReply_zero_word_size_witness:
  "unat (512::32 word) < 2 ^ 16 \<and> unat UNKNOWN_PERIOD < 2 ^ 8 \<and>
   (\<exists>h. mkQueryReply 1 PVER0 0 512 UNKNOWN_PERIOD = Inr h \<and> wordSize h = 16)"
  using mkQueryReply_zero_word_size [of 512 UNKNOWN_PERIOD 1] by (simp add: UNKNOWN_PERIOD_def)

lemma setHdr_small_word_size_witness:
  "(2::nat) < 4 \<and> 2 ^ 32 \<le> length (setHdr 2 [] 0)"
  using setHdr_small_word_size [of 2 "[]" 0] by simp

end
