(* ===== verification/Driver.thy ===== *)
theory Driver
  imports Codec
begin

text \<open>
  The driver objects of \<open>xvcSrv.cc\<close> as extensible records, following the C++
  class hierarchy: \<open>jtag_driver\<close> is the base class \<open>JtagDriver\<close> (lines
  38--73), \<open>axis_driver\<close> extends it with the members of
  \<open>JtagDriverAxisToJtag\<close> (lines 95--108); a concrete transport extends
  \<open>axis_driver\<close> in turn through the record's extension slot. A member
  \<open>foo_\<close> of the source is the field \<open>foo_m\<close>. The sniffer object
  \<open>snif_\<close> (JTAG state dump for debugging output) is not modelled.

  The transport capability (\<open>xfer\<close>, the pure virtual one-shot transfer) is a
  function on the whole driver object, as a virtual method is. Its arguments
  are those of the C++ signature \<open>xfer(txb, txBytes, hdbuf, hsize, rxb, size)\<close>:
  the request bytes, the header buffer, the header size, the payload buffer and
  its size. It returns the updated object, the two buffers as the transport
  left them, and either an exception or the count \<open>got\<close>. A transport writes
  the buffers while it reads the reply, so they come back written also when
  an exception follows the reads. The only call (in \<open>xferRel\<close>) passes the
  member \<open>hdBuf_\<close> as \<open>hdbuf\<close>. \<open>xfer_frame\<close> is the interface
  contract: apart from the buffers it is handed, a transport changes only its
  own state and the drop counter of the base class.
\<close>

unbundle bit_operations_syntax

record jtag_driver =
  debug_m :: "32 word"
  drop_m :: "32 word"
  drEn_m :: bool

record axis_driver = jtag_driver +
  wordSize_m :: nat
  memDepth_m :: nat
  retry_m :: nat
  periodNs_m :: "32 word"
  bufSz_m :: nat
  txBuf_m :: "byte list"
  hdBuf_m :: "byte list"
  xid_m :: xid

type_synonym 'z xfer_fn =
  "'z axis_driver_scheme \<Rightarrow> byte list \<Rightarrow> byte list \<Rightarrow> nat \<Rightarrow> byte list \<Rightarrow> nat
     \<Rightarrow> 'z axis_driver_scheme \<times> byte list \<times> byte list \<times> (xvc_error + int)"

definition hdBufMax :: nat where
  "hdBufMax = 16"

text \<open>
  The two constructors run in sequence. \<open>txBuf_.reserve(2048)\<close> allocates
  capacity without initialising it: the model's buffer is that capacity, with
  zeros for the unspecified contents. The transaction counter \<open>xid_\<close> is not
  initialised in the constructor shown; its start value is a parameter.
\<close>

definition JtagDriverAxisToJtag :: "32 word \<Rightarrow> xid \<Rightarrow> 'z \<Rightarrow> 'z axis_driver_scheme" where
  "JtagDriverAxisToJtag dbg x0 z =
     \<lparr>debug_m = dbg, drop_m = 0, drEn_m = False,
      wordSize_m = 4, memDepth_m = 1, retry_m = 5, periodNs_m = UNKNOWN_PERIOD,
      bufSz_m = 2048, txBuf_m = replicate 2048 0, hdBuf_m = replicate hdBufMax 0,
      xid_m = x0, \<dots> = z\<rparr>"

definition setDebug :: "32 word \<Rightarrow> 'z jtag_driver_scheme \<Rightarrow> 'z jtag_driver_scheme" where
  "setDebug d s = s\<lparr>debug_m := d\<rparr>"

definition setTestMode :: "32 word \<Rightarrow> 'z jtag_driver_scheme \<Rightarrow> 'z jtag_driver_scheme" where
  "setTestMode flags s = s\<lparr>drEn_m := (flags AND 1 \<noteq> 0)\<rparr>"

definition getDebug :: "'z jtag_driver_scheme \<Rightarrow> 32 word" where
  "getDebug s = debug_m s AND 0xff"

definition getSniff :: "'z jtag_driver_scheme \<Rightarrow> bool" where
  "getSniff s = (debug_m s AND 0x100 \<noteq> 0)"

definition getWordSize :: "'z axis_driver_scheme \<Rightarrow> nat" where
  "getWordSize s = wordSize_m s"

definition getMemDepth :: "'z axis_driver_scheme \<Rightarrow> nat" where
  "getMemDepth s = memDepth_m s"

definition getPeriodNs :: "'z axis_driver_scheme \<Rightarrow> 32 word" where
  "getPeriodNs s = periodNs_m s"

definition setPeriodNs :: "'z axis_driver_scheme \<Rightarrow> 32 word \<Rightarrow> 32 word" where
  "setPeriodNs s requestedPeriod =
     (let currentPeriod = getPeriodNs s
      in if requestedPeriod = 0 then currentPeriod
         else if currentPeriod = UNKNOWN_PERIOD then requestedPeriod else currentPeriod)"

definition xfer_frame :: "'z xfer_fn \<Rightarrow> bool" where
  "xfer_frame xf \<longleftrightarrow>
     (\<forall>s tx hb hs rb n. let s' = fst (xf s tx hb hs rb n) in
        debug_m s' = debug_m s \<and> drEn_m s' = drEn_m s \<and>
        wordSize_m s' = wordSize_m s \<and> memDepth_m s' = memDepth_m s \<and>
        retry_m s' = retry_m s \<and> periodNs_m s' = periodNs_m s \<and> bufSz_m s' = bufSz_m s \<and>
        txBuf_m s' = txBuf_m s \<and> xid_m s' = xid_m s)"

end
