(* ===== verification/Reliable.thy ===== *)
theory Reliable
  imports Driver
begin

text \<open>
  The reliable transfer engine \<open>JtagDriverAxisToJtag::xferRel\<close>
  (\<open>xvcSrv.cc\<close> 303--340). The \<open>for\<close> loop over \<open>attempt = 0 .. retry_\<close>
  is \<open>xferRel_loop\<close>, recursive in the number of attempts left; the budget
  \<open>retry_\<close> and the header size \<open>getWordSize()\<close> are read when the loop
  starts (no transport writes them: \<open>xfer_frame\<close>). Only \<open>TimeoutErr\<close> is
  caught; an error-tagged reply becomes a \<open>ProtoErr\<close> at once; a reply with a
  foreign transaction id is dropped and costs an attempt. The transport is
  handed \<open>&hdBuf_[0]\<close> as its header buffer: what it leaves in that buffer is
  the new \<open>hdBuf_\<close>, and what it leaves in \<open>rxb\<close> is the caller's
  buffer, whether it returns or throws.
\<close>

definition errText :: "nat \<Rightarrow> string" where
  "errText e =
     ''Got error response from server -- '' @
     (case getMsg e of Some msg \<Rightarrow> msg | None \<Rightarrow> ''error '' @ dec_digits e)"

fun xferRel_loop ::
  "'z xfer_fn \<Rightarrow> xid \<Rightarrow> byte list \<Rightarrow> nat \<Rightarrow> nat \<Rightarrow> nat \<Rightarrow> 'z axis_driver_scheme \<Rightarrow> byte list
     \<Rightarrow> 'z axis_driver_scheme \<times> byte list \<times> (xvc_error + int \<times> header)" where
  "xferRel_loop xf x txb hs sz 0 s rxb = (s, rxb, Inl TimeoutErr)"
| "xferRel_loop xf x txb hs sz (Suc n) s rxb =
     (case xf s txb (hdBuf_m s) hs rxb sz of
        (s1, hb, rxb1, res) \<Rightarrow>
          (let s2 = s1\<lparr>hdBuf_m := hb\<rparr>
           in case res of
                Inl e \<Rightarrow> (if e = TimeoutErr then xferRel_loop xf x txb hs sz n s2 rxb1 else (s2, rxb1, Inl e))
              | Inr got \<Rightarrow>
                  (let hdr = getHdr (hdBuf_m s2);
                       e = getErr hdr
                   in if e \<noteq> 0 then (s2, rxb1, Inl (ProtoErr (errText e)))
                      else if x = XID_ANY \<or> x = getXid hdr then (s2, rxb1, Inr (got, hdr))
                      else xferRel_loop xf x txb hs sz n s2 rxb1)))"

definition xferRel ::
  "'z xfer_fn \<Rightarrow> 'z axis_driver_scheme \<Rightarrow> byte list \<Rightarrow> nat \<Rightarrow> nat \<Rightarrow> byte list
     \<Rightarrow> 'z axis_driver_scheme \<times> byte list \<times> (xvc_error + int \<times> header)" where
  "xferRel xf s txb txBytes sizeBytes rxb =
     (let x = getXid (getHdr txb)
      in xferRel_loop xf x (take txBytes txb) (getWordSize s) sizeBytes (Suc (retry_m s)) s rxb)"

subsection \<open>A scripted peer\<close>

text \<open>
  To state what the engine does against a given channel behaviour, a transport
  whose own state is the script of outcomes the wire will deliver: each call
  consumes one outcome (an exception or a reply), and an exhausted script times
  out. A reply carries the header bytes, the payload bytes and the count the
  transport returns; the transport copies them to the start of the two
  buffers. \<open>peer_reply h d\<close> is a reply carrying control word \<open>h\<close> and
  payload \<open>d\<close>. The number of outcomes consumed is the number of attempts
  made.
\<close>

record xfer_reply =
  rx_hdr :: "byte list"
  rx_data :: "byte list"
  rx_got :: int

definition script_xfer :: "(xvc_error + xfer_reply) list xfer_fn" where
  "script_xfer s tx hb hs rb sz =
     (case axis_driver.more s of
        [] \<Rightarrow> (s, hb, rb, Inl TimeoutErr)
      | Inl e # rs \<Rightarrow> (s\<lparr>axis_driver.more := rs\<rparr>, hb, rb, Inl e)
      | Inr r # rs \<Rightarrow> (s\<lparr>axis_driver.more := rs\<rparr>, blit hb 0 (rx_hdr r), blit rb 0 (rx_data r), Inr (rx_got r)))"

definition peer_reply :: "header \<Rightarrow> byte list \<Rightarrow> xfer_reply" where
  "peer_reply h d = \<lparr>rx_hdr = le32 h, rx_data = d, rx_got = int (length d)\<rparr>"

definition shift_req :: "byte list" where
  "shift_req = le32 (snd (mkShift 5 8))"

lemma getHdr_blit_reply: "4 \<le> length hb \<Longrightarrow> getHdr (blit buf 0 hb) = of_le32 hb"
  by (simp add: getHdr_def getw32_def blit_0 of_le32_append)

lemma getHdr_blit_le32 [simp]: "getHdr (blit buf 0 (le32 h)) = h"
  by (simp add: getHdr_blit_reply length_le32)

lemma getHdr_peer_reply [simp]: "getHdr (blit buf 0 (rx_hdr (peer_reply h d))) = h"
  by (simp add: peer_reply_def getHdr_blit_reply length_le32)

lemma xferRel_loop_frame:
  assumes "xfer_frame xf" and "xferRel_loop xf x txb hs sz n s rxb = (s', rxb', r)"
  shows "wordSize_m s' = wordSize_m s \<and> memDepth_m s' = memDepth_m s \<and> retry_m s' = retry_m s \<and>
         periodNs_m s' = periodNs_m s \<and> bufSz_m s' = bufSz_m s \<and> txBuf_m s' = txBuf_m s \<and>
         xid_m s' = xid_m s \<and> debug_m s' = debug_m s \<and> drEn_m s' = drEn_m s"
  using assms(2)
proof (induction n arbitrary: s rxb)
  case 0
  then show ?case by simp
next
  case (Suc n)
  obtain s1 hb rb res where xf: "xf s txb (hdBuf_m s) hs rxb sz = (s1, hb, rb, res)" by (cases "xf s txb (hdBuf_m s) hs rxb sz") auto
  have f: "wordSize_m s1 = wordSize_m s \<and> memDepth_m s1 = memDepth_m s \<and> retry_m s1 = retry_m s \<and>
         periodNs_m s1 = periodNs_m s \<and> bufSz_m s1 = bufSz_m s \<and> txBuf_m s1 = txBuf_m s \<and>
         xid_m s1 = xid_m s \<and> debug_m s1 = debug_m s \<and> drEn_m s1 = drEn_m s"
    using assms(1) xf unfolding xfer_frame_def Let_def by (metis fst_conv)
  show ?case
  proof (cases res)
    case (Inl e)
    then show ?thesis
      using Suc xf f by (cases "e = TimeoutErr") (fastforce dest: Suc.IH)+
  next
    case (Inr rp)
    then show ?thesis
      using Suc xf f by (auto simp: Let_def split: if_splits dest!: Suc.IH)
  qed
qed

lemma script_xfer_step [simp]:
  "axis_driver.more s = [] \<Longrightarrow> script_xfer s tx hb hs rb sz = (s, hb, rb, Inl TimeoutErr)"
  "axis_driver.more s = Inl e # rs \<Longrightarrow> script_xfer s tx hb hs rb sz = (s\<lparr>axis_driver.more := rs\<rparr>, hb, rb, Inl e)"
  "axis_driver.more s = Inr r # rs \<Longrightarrow>
   script_xfer s tx hb hs rb sz =
     (s\<lparr>axis_driver.more := rs\<rparr>, blit hb 0 (rx_hdr r), blit rb 0 (rx_data r), Inr (rx_got r))"
  by (simp_all add: script_xfer_def)

lemma peer_reply_sel [simp]:
  "rx_hdr (peer_reply h d) = le32 h" "rx_data (peer_reply h d) = d" "rx_got (peer_reply h d) = int (length d)"
  by (simp_all add: peer_reply_def)

lemma script_xfer_frame: "xfer_frame script_xfer"
  by (auto simp: xfer_frame_def script_xfer_def Let_def split: list.splits sum.splits)

text \<open>C2: a reply the retry loop returns is never an error reply and never a
  stale one: it carries the request's transaction id, unless the request used
  the wildcard id.\<close>

lemma xferRel_loop_accepts:
  "xferRel_loop xf x txb hs sz n s rxb = (s', rxb', Inr (got, hdr)) \<Longrightarrow>
     getErr hdr = 0 \<and> (x = XID_ANY \<or> getXid hdr = x)"
proof (induction n arbitrary: s rxb)
  case 0
  then show ?case by simp
next
  case (Suc n)
  show ?case
  proof (cases "xf s txb (hdBuf_m s) hs rxb sz")
    case (fields s1 hb rb res)
    then show ?thesis
      using Suc by (cases res) (auto simp: Let_def split: if_splits)
  qed
qed

lemma xferRel_loop_timeouts:
  "axis_driver.more s = replicate m (Inl TimeoutErr) \<Longrightarrow> n \<le> m \<Longrightarrow>
   xferRel_loop script_xfer x txb hs sz n s rxb =
     (s\<lparr>axis_driver.more := replicate (m - n) (Inl TimeoutErr)\<rparr>, rxb, Inl TimeoutErr)"
proof (induction n arbitrary: s m)
  case 0
  then show ?case by simp
next
  case (Suc n)
  then obtain m' where m: "m = Suc m'" by (cases m) auto
  let ?s1 = "s\<lparr>axis_driver.more := replicate m' (Inl TimeoutErr)\<rparr>"
  have "script_xfer s txb (hdBuf_m s) hs rxb sz = (?s1, hdBuf_m s, rxb, Inl TimeoutErr)"
    using Suc.prems m by simp
  moreover have "xferRel_loop script_xfer x txb hs sz n ?s1 rxb =
      (?s1\<lparr>axis_driver.more := replicate (m' - n) (Inl TimeoutErr)\<rparr>, rxb, Inl TimeoutErr)"
    using Suc.prems m by (intro Suc.IH) simp_all
  ultimately show ?case using m by simp
qed

text \<open>C10: against a channel that only times out, \<open>xferRel\<close> makes exactly
  \<open>retry_ + 1\<close> attempts and then fails with a timeout.\<close>

theorem xferRel_retry_exhaustion:
  assumes "axis_driver.more s = replicate m (Inl TimeoutErr)" and "Suc (retry_m s) \<le> m"
  shows "xferRel script_xfer s txb txBytes sz rxb =
           (s\<lparr>axis_driver.more := replicate (m - Suc (retry_m s)) (Inl TimeoutErr)\<rparr>, rxb, Inl TimeoutErr)"
  using assms unfolding xferRel_def Let_def by (intro xferRel_loop_timeouts)

text \<open>C20: an error-tagged reply on the first attempt ends the transfer at once
  with a protocol error carrying the translated error text; no further attempt
  is made.\<close>

theorem xferRel_error_not_retried:
  assumes "axis_driver.more s = Inr (peer_reply h d) # rs" and "getErr h \<noteq> 0"
  shows "\<exists>s'. xferRel script_xfer s txb txBytes sz rxb = (s', blit rxb 0 d, Inl (ProtoErr (errText (getErr h))))
              \<and> axis_driver.more s' = rs"
proof -
  show ?thesis
    using assms by (simp add: xferRel_def Let_def)
qed

lemma xferRel_loop_recovers:
  assumes "axis_driver.more s = replicate k (Inl TimeoutErr) @ Inr (peer_reply h d) # rs"
    and "k < n" and "getErr h = 0" and "x = XID_ANY \<or> getXid h = x"
  shows "xferRel_loop script_xfer x txb hs sz n s rxb =
           (s\<lparr>axis_driver.more := rs, hdBuf_m := blit (hdBuf_m s) 0 (le32 h)\<rparr>, blit rxb 0 d,
            Inr (int (length d), h))"
  using assms
proof (induction k arbitrary: s n)
  case 0
  then obtain n' where n: "n = Suc n'" by (cases n) auto
  show ?case
    using "0.prems" n by (auto simp: Let_def)
next
  case (Suc k)
  then obtain n' where n: "n = Suc n'" by (cases n) auto
  let ?s1 = "s\<lparr>axis_driver.more := replicate k (Inl TimeoutErr) @ Inr (peer_reply h d) # rs\<rparr>"
  have "script_xfer s txb (hdBuf_m s) hs rxb sz = (?s1, hdBuf_m s, rxb, Inl TimeoutErr)"
    using Suc.prems by simp
  moreover have "xferRel_loop script_xfer x txb hs sz n' ?s1 rxb =
      (?s1\<lparr>axis_driver.more := rs, hdBuf_m := blit (hdBuf_m ?s1) 0 (le32 h)\<rparr>, blit rxb 0 d,
       Inr (int (length d), h))"
    using Suc.prems n by (intro Suc.IH) simp_all
  ultimately show ?case using n by simp
qed

text \<open>If a matching reply arrives after at most \<open>retry_\<close> timeouts, the
  transfer succeeds with that reply's header and payload.\<close>

theorem xferRel_delivers_within_budget:
  assumes "axis_driver.more s = replicate k (Inl TimeoutErr) @ Inr (peer_reply h d) # rs"
    and "k \<le> retry_m s" and "getErr h = 0" and "getXid h = getXid (getHdr txb)"
  shows "xferRel script_xfer s txb txBytes sz rxb =
           (s\<lparr>axis_driver.more := rs, hdBuf_m := blit (hdBuf_m s) 0 (le32 h)\<rparr>, blit rxb 0 d,
            Inr (int (length d), h))"
  using assms unfolding xferRel_def Let_def
  by (intro xferRel_loop_recovers [where k = k]) auto

text \<open>A request sent with the wildcard id (the Query) accepts the first
  non-error reply whatever transaction id it carries.\<close>

theorem xferRel_wildcard_accepts_any:
  assumes "axis_driver.more s = Inr (peer_reply h d) # rs"
    and "getErr h = 0" and "getXid (getHdr txb) = XID_ANY"
  shows "snd (snd (xferRel script_xfer s txb txBytes sz rxb)) = Inr (int (length d), h)"
proof -
  have "axis_driver.more s = replicate 0 (Inl TimeoutErr) @ Inr (peer_reply h d) # rs"
    using assms by simp
  then have "xferRel_loop script_xfer XID_ANY (take txBytes txb) (getWordSize s) sz (Suc (retry_m s)) s rxb =
      (s\<lparr>axis_driver.more := rs, hdBuf_m := blit (hdBuf_m s) 0 (le32 h)\<rparr>, blit rxb 0 d,
       Inr (int (length d), h))"
    using assms by (intro xferRel_loop_recovers [where k = 0]) simp_all
  then show ?thesis
    using assms by (simp add: xferRel_def)
qed

text \<open>C21: a reply carrying a foreign transaction id is discarded and costs an
  attempt; the matching reply after it is the result.\<close>

theorem xferRel_discards_stale:
  assumes "axis_driver.more s = Inr (peer_reply h1 d1) # Inr (peer_reply h2 d2) # rs"
    and "1 \<le> retry_m s" and "getErr h1 = 0" and "getErr h2 = 0"
    and "getXid (getHdr txb) \<noteq> XID_ANY" and "getXid h1 \<noteq> getXid (getHdr txb)"
    and "getXid h2 = getXid (getHdr txb)"
  shows "snd (snd (xferRel script_xfer s txb txBytes sz rxb)) = Inr (int (length d2), h2)
         \<and> axis_driver.more (fst (xferRel script_xfer s txb txBytes sz rxb)) = rs"
proof -
  let ?x = "getXid (getHdr txb)"
  let ?s1 = "s\<lparr>axis_driver.more := Inr (peer_reply h2 d2) # rs,
                hdBuf_m := blit (hdBuf_m s) 0 (le32 h1)\<rparr>"
  obtain n where n: "retry_m s = Suc n" using assms(2) by (cases "retry_m s") auto
  have "axis_driver.more ?s1 = replicate 0 (Inl TimeoutErr) @ Inr (peer_reply h2 d2) # rs"
    by simp
  then have rest: "xferRel_loop script_xfer ?x (take txBytes txb) (getWordSize s) sz (Suc n) ?s1 (blit rxb 0 d1) =
      (?s1\<lparr>axis_driver.more := rs, hdBuf_m := blit (hdBuf_m ?s1) 0 (le32 h2)\<rparr>, blit (blit rxb 0 d1) 0 d2,
       Inr (int (length d2), h2))"
    using assms by (intro xferRel_loop_recovers [where k = 0]) simp_all
  have "xferRel script_xfer s txb txBytes sz rxb =
      xferRel_loop script_xfer ?x (take txBytes txb) (getWordSize s) sz (Suc n) ?s1 (blit rxb 0 d1)"
    using assms n by (simp add: xferRel_def Let_def)
  then show ?thesis using rest by simp
qed


text \<open>C22: the retry loop surfaces partial results: the payload of a reply it
  discards as stale stays in the caller's buffer, and when every further attempt
  times out the transfer fails with a timeout while the buffer holds that stale
  payload.\<close>

theorem xferRel_timeout_keeps_stale_payload:
  assumes "axis_driver.more s = Inr (peer_reply h d) # replicate m (Inl TimeoutErr)"
    and "retry_m s \<le> m" and "getErr h = 0"
    and "getXid (getHdr txb) \<noteq> XID_ANY" and "getXid h \<noteq> getXid (getHdr txb)"
  shows "\<exists>s'. xferRel script_xfer s txb txBytes sz rxb = (s', blit rxb 0 d, Inl TimeoutErr)"
proof -
  let ?x = "getXid (getHdr txb)"
  let ?s1 = "s\<lparr>axis_driver.more := replicate m (Inl TimeoutErr), hdBuf_m := blit (hdBuf_m s) 0 (le32 h)\<rparr>"
  have "xferRel script_xfer s txb txBytes sz rxb =
      xferRel_loop script_xfer ?x (take txBytes txb) (getWordSize s) sz (retry_m s) ?s1 (blit rxb 0 d)"
    using assms by (simp add: xferRel_def Let_def)
  also have "\<dots> = (?s1\<lparr>axis_driver.more := replicate (m - retry_m s) (Inl TimeoutErr)\<rparr>, blit rxb 0 d, Inl TimeoutErr)"
    using assms(2) by (intro xferRel_loop_timeouts) simp_all
  finally show ?thesis by blast
qed

subsection \<open>Witnesses\<close>

lemma getXid_shift_req: "getXid (getHdr shift_req) = 6"
  by (simp add: shift_req_def getHdr_def getw32_def getXid_def mkShift_def newXid_def Let_def
      XID_ANY_def XID_SHIFT_def LEN_SHIFT_def PVERS_def PVER0_def CMD_S_def)

lemma xferRel_loop_accepts_witness:
  "xferRel_loop script_xfer 6 [] 4 0 1 (JtagDriverAxisToJtag 0 0 [Inr (peer_reply 0x600000 [])]) [] =
     (JtagDriverAxisToJtag 0 0 []\<lparr>hdBuf_m := blit (replicate hdBufMax 0) 0 (le32 0x600000)\<rparr>,
      blit [] 0 [], Inr (0, 0x600000)) \<and>
   getErr 0x600000 = 0 \<and> ((6::xid) = XID_ANY \<or> getXid 0x600000 = 6)"
proof -
  have e: "getErr 0x600000 = 0" by (simp add: getErr_def getCmd_def CMD_MASK_def CMD_E_def)
  have x: "getXid 0x600000 = 6" by (simp add: getXid_def)
  have r: "xferRel_loop script_xfer 6 [] 4 0 1 (JtagDriverAxisToJtag 0 0 [Inr (peer_reply 0x600000 [])]) [] =
     (JtagDriverAxisToJtag 0 0 []\<lparr>hdBuf_m := blit (replicate hdBufMax 0) 0 (le32 0x600000)\<rparr>,
      blit [] 0 [], Inr (0, 0x600000))"
    using e x by (simp add: JtagDriverAxisToJtag_def Let_def)
  show ?thesis using xferRel_loop_accepts [OF r] r by simp
qed

lemma xferRel_retry_exhaustion_witness:
  "axis_driver.more (JtagDriverAxisToJtag 0 0 (replicate 6 (Inl TimeoutErr))) = replicate 6 (Inl TimeoutErr) \<and>
   Suc (retry_m (JtagDriverAxisToJtag 0 0 (replicate 6 (Inl TimeoutErr)))) \<le> 6 \<and>
   xferRel script_xfer (JtagDriverAxisToJtag 0 0 (replicate 6 (Inl TimeoutErr))) shift_req 4 0 [] =
     (JtagDriverAxisToJtag 0 0 [], [], Inl TimeoutErr)"
  using xferRel_retry_exhaustion [of "JtagDriverAxisToJtag 0 0 (replicate 6 (Inl TimeoutErr))" 6 shift_req 4 0 "[]"]
  by (simp add: JtagDriverAxisToJtag_def)

lemma xferRel_error_not_retried_witness:
  "axis_driver.more (JtagDriverAxisToJtag 0 0 [Inr (peer_reply 0x20000002 []), Inl TimeoutErr]) =
     Inr (peer_reply 0x20000002 []) # [Inl TimeoutErr] \<and> getErr 0x20000002 \<noteq> 0 \<and>
   (\<exists>s'. xferRel script_xfer (JtagDriverAxisToJtag 0 0 [Inr (peer_reply 0x20000002 []), Inl TimeoutErr])
          shift_req 4 0 [] = (s', blit [] 0 [], Inl (ProtoErr ''Got error response from server -- Unsupported Command''))
        \<and> axis_driver.more s' = [Inl TimeoutErr])"
proof -
  have e: "getErr 0x20000002 = 2"
    by (simp add: getErr_def getCmd_def CMD_MASK_def CMD_E_def ERR_MASK_def ERR_SHIFT_def)
  have t: "errText 2 = ''Got error response from server -- Unsupported Command''"
    by (simp add: errText_def getMsg_def ERR_BAD_VERSION_def ERR_BAD_COMMAND_def)
  show ?thesis
    using xferRel_error_not_retried [of "JtagDriverAxisToJtag 0 0 [Inr (peer_reply 0x20000002 []), Inl TimeoutErr]"
        "0x20000002" "[]" "[Inl TimeoutErr]" shift_req 4 0 "[]"] e t
    by (simp add: JtagDriverAxisToJtag_def)
qed

lemma xferRel_delivers_within_budget_witness:
  "axis_driver.more (JtagDriverAxisToJtag 0 0 [Inl TimeoutErr, Inl TimeoutErr, Inr (peer_reply 0x10600000 [7])]) =
     replicate 2 (Inl TimeoutErr) @ Inr (peer_reply 0x10600000 [7]) # [] \<and>
   2 \<le> retry_m (JtagDriverAxisToJtag 0 0 [Inl TimeoutErr, Inl TimeoutErr, Inr (peer_reply 0x10600000 [7])]) \<and>
   getErr 0x10600000 = 0 \<and> getXid 0x10600000 = getXid (getHdr shift_req) \<and>
   snd (xferRel script_xfer (JtagDriverAxisToJtag 0 0 [Inl TimeoutErr, Inl TimeoutErr, Inr (peer_reply 0x10600000 [7])])
          shift_req 4 1 [0]) = (blit [0] 0 [7], Inr (1, 0x10600000))"
proof -
  have e: "getErr 0x10600000 = 0" by (simp add: getErr_def getCmd_def CMD_MASK_def CMD_E_def)
  have x: "getXid 0x10600000 = 6" by (simp add: getXid_def)
  show ?thesis
    using xferRel_delivers_within_budget [of "JtagDriverAxisToJtag 0 0 [Inl TimeoutErr, Inl TimeoutErr, Inr (peer_reply 0x10600000 [7])]"
        2 "0x10600000" "[7]" "[]" shift_req 4 1 "[0]"] e x getXid_shift_req
    by (simp add: JtagDriverAxisToJtag_def numeral_2_eq_2)
qed

lemma xferRel_wildcard_accepts_any_witness:
  "axis_driver.more (JtagDriverAxisToJtag 0 0 [Inr (peer_reply 0x7700000 [])]) = Inr (peer_reply 0x7700000 []) # [] \<and>
   getErr 0x7700000 = 0 \<and> getXid (getHdr (le32 mkQuery)) = XID_ANY \<and>
   snd (snd (xferRel script_xfer (JtagDriverAxisToJtag 0 0 [Inr (peer_reply 0x7700000 [])]) (le32 mkQuery) 4 0 [])) =
     Inr (0, 0x7700000)"
proof -
  have e: "getErr 0x7700000 = 0" by (simp add: getErr_def getCmd_def CMD_MASK_def CMD_E_def)
  have q: "getXid (getHdr (le32 mkQuery)) = XID_ANY"
    by (simp add: mkQuery_def getHdr_def getw32_def getXid_def PVERS_def PVER0_def CMD_Q_def XID_ANY_def)
  show ?thesis
    using xferRel_wildcard_accepts_any [of "JtagDriverAxisToJtag 0 0 [Inr (peer_reply 0x7700000 [])]"
        "0x7700000" "[]" "[]" "le32 mkQuery" 4 0 "[]"] e q
    by (simp add: JtagDriverAxisToJtag_def)
qed

lemma xferRel_discards_stale_witness:
  "axis_driver.more (JtagDriverAxisToJtag 0 0 [Inr (peer_reply 0x10500000 []), Inr (peer_reply 0x10600000 [9])]) =
     Inr (peer_reply 0x10500000 []) # Inr (peer_reply 0x10600000 [9]) # [] \<and>
   1 \<le> retry_m (JtagDriverAxisToJtag 0 0 [Inr (peer_reply 0x10500000 []), Inr (peer_reply 0x10600000 [9])]) \<and>
   getErr 0x10500000 = 0 \<and> getErr 0x10600000 = 0 \<and> getXid (getHdr shift_req) \<noteq> XID_ANY \<and>
   getXid 0x10500000 \<noteq> getXid (getHdr shift_req) \<and> getXid 0x10600000 = getXid (getHdr shift_req) \<and>
   snd (snd (xferRel script_xfer (JtagDriverAxisToJtag 0 0 [Inr (peer_reply 0x10500000 []), Inr (peer_reply 0x10600000 [9])])
      shift_req 4 1 [])) = Inr (1, 0x10600000)"
proof -
  have e: "getErr 0x10500000 = 0" "getErr 0x10600000 = 0"
    by (simp_all add: getErr_def getCmd_def CMD_MASK_def CMD_E_def)
  have x: "getXid 0x10500000 = 5" "getXid 0x10600000 = 6" by (simp_all add: getXid_def)
  show ?thesis
    using xferRel_discards_stale [of "JtagDriverAxisToJtag 0 0 [Inr (peer_reply 0x10500000 []), Inr (peer_reply 0x10600000 [9])]"
        "0x10500000" "[]" "0x10600000" "[9]" "[]" shift_req 4 1 "[]"] e x getXid_shift_req
    by (simp add: JtagDriverAxisToJtag_def XID_ANY_def)
qed

lemma xferRel_timeout_keeps_stale_payload_witness:
  "axis_driver.more (JtagDriverAxisToJtag 0 0 (Inr (peer_reply 0x10500000 [7, 7]) # replicate 5 (Inl TimeoutErr))) =
     Inr (peer_reply 0x10500000 [7, 7]) # replicate 5 (Inl TimeoutErr) \<and>
   retry_m (JtagDriverAxisToJtag 0 0 (Inr (peer_reply 0x10500000 [7, 7]) # replicate 5 (Inl TimeoutErr))) \<le> 5 \<and>
   getErr 0x10500000 = 0 \<and> getXid (getHdr shift_req) \<noteq> XID_ANY \<and> getXid 0x10500000 \<noteq> getXid (getHdr shift_req) \<and>
   (\<exists>s'. xferRel script_xfer (JtagDriverAxisToJtag 0 0 (Inr (peer_reply 0x10500000 [7, 7]) # replicate 5 (Inl TimeoutErr)))
          shift_req 4 2 [0, 0] = (s', [7, 7], Inl TimeoutErr))"
proof -
  have e: "getErr 0x10500000 = 0" by (simp add: getErr_def getCmd_def CMD_MASK_def CMD_E_def)
  have x: "getXid 0x10500000 = 5" by (simp add: getXid_def)
  have b: "blit [0, 0] 0 [7, 7] = [7, 7 :: byte]" by (simp add: blit_def)
  show ?thesis
    using xferRel_timeout_keeps_stale_payload [of "JtagDriverAxisToJtag 0 0 (Inr (peer_reply 0x10500000 [7, 7]) # replicate 5 (Inl TimeoutErr))"
        "0x10500000" "[7, 7]" 5 shift_req 4 2 "[0, 0]"] e x b getXid_shift_req
    by (simp add: JtagDriverAxisToJtag_def XID_ANY_def)
qed

end
