(* ===== verification/Negotiation.thy ===== *)
theory Negotiation
  imports Reliable
begin

text \<open>
  Negotiation: \<open>JtagDriverAxisToJtag::query\<close> and \<open>init\<close> (\<open>xvcSrv.cc\<close>
  296--301, 342--378). A Query header goes out through \<open>xferRel\<close> with the
  wildcard id; from the reply the driver takes the word size (and rejects one
  smaller than a header, after having stored it), the memory depth and the clock
  period, sets the retry budget (none for a target without buffering), and grows
  the transmit buffer to hold the largest request the target accepts.
  \<open>reserve\<close> is \<open>std::vector::reserve\<close>: it grows the capacity and never
  shrinks it.
\<close>

definition reserve :: "nat \<Rightarrow> byte list \<Rightarrow> byte list" where
  "reserve n buf = buf @ replicate (n - length buf) 0"

definition query ::
  "real \<Rightarrow> 'z xfer_fn \<Rightarrow> 'z axis_driver_scheme \<Rightarrow> 'z axis_driver_scheme \<times> (xvc_error + nat)" where
  "query ref xf s =
     (let s1 = s\<lparr>txBuf_m := setHdr (getWordSize s) (txBuf_m s) mkQuery\<rparr>;
          (s2, _, r) = xferRel xf s1 (txBuf_m s1) (getWordSize s1) 0 []
      in case r of
           Inl e \<Rightarrow> (s2, Inl e)
         | Inr (got, hdr) \<Rightarrow>
             (let s3 = s2\<lparr>wordSize_m := wordSize hdr\<rparr>
              in if wordSize_m s3 < 4 then (s3, Inl (ProtoErr ''Received invalid word size''))
                 else
                   (let s4 = s3\<lparr>memDepth_m := memDepth hdr, periodNs_m := cvtPerNs ref hdr\<rparr>;
                        s5 = s4\<lparr>retry_m := (if memDepth_m s4 = 0 then 0 else 5)\<rparr>;
                        siz = (2 * memDepth_m s5 + 1) * wordSize_m s5;
                        s6 = (if siz > bufSz_m s5
                              then s5\<lparr>bufSz_m := siz, txBuf_m := reserve siz (txBuf_m s5)\<rparr>
                              else s5)
                    in (s6, Inr (memDepth_m s6 * wordSize_m s6)))))"

definition init ::
  "real \<Rightarrow> 'z xfer_fn \<Rightarrow> 'z axis_driver_scheme \<Rightarrow> 'z axis_driver_scheme \<times> (xvc_error + unit)" where
  "init ref xf s = (case query ref xf s of (s', Inl e) \<Rightarrow> (s', Inl e) | (s', Inr _) \<Rightarrow> (s', Inr ()))"

text \<open>The reply of the specification's end-to-end scenario: word size 4, memory
  depth 512, period code 128.\<close>

definition scenario_reply :: header where
  "scenario_reply = push_bit 20 128 OR push_bit 4 512 OR 3"

text \<open>A driver just constructed, whose channel will deliver one reply \<open>h\<close>.\<close>

definition peer_drv :: "xid \<Rightarrow> header \<Rightarrow> (xvc_error + xfer_reply) list axis_driver_scheme" where
  "peer_drv x0 h = JtagDriverAxisToJtag 0 x0 [Inr (peer_reply h [])]"

lemma getWordSize_txBuf [simp]: "getWordSize (s\<lparr>txBuf_m := b\<rparr>) = getWordSize s"
  by (simp add: getWordSize_def)

lemma query_success:
  assumes x: "xferRel xf (s\<lparr>txBuf_m := setHdr (getWordSize s) (txBuf_m s) mkQuery\<rparr>)
                (setHdr (getWordSize s) (txBuf_m s) mkQuery) (getWordSize s) 0 [] = (s2, rx, Inr (got, hdr))"
    and w: "4 \<le> wordSize hdr"
  shows "query ref xf s =
    (let s5 = s2\<lparr>wordSize_m := wordSize hdr, memDepth_m := memDepth hdr, periodNs_m := cvtPerNs ref hdr,
                 retry_m := (if memDepth hdr = 0 then 0 else 5)\<rparr>;
         siz = (2 * memDepth hdr + 1) * wordSize hdr
     in (if siz > bufSz_m s2 then s5\<lparr>bufSz_m := siz, txBuf_m := reserve siz (txBuf_m s2)\<rparr> else s5,
         Inr (memDepth hdr * wordSize hdr)))"
  using x w by (simp add: query_def Let_def)

text \<open>C4: when the Query exchange returns a reply announcing a word size of at
  least 4, \<open>query\<close> adopts the reply's word size, memory depth and period, sets
  the retry budget to 5 (to 0 for a memory depth of 0), grows the buffer to
  \<open>(2 * memDepth + 1) * wordSize\<close> bytes without ever shrinking it, and returns
  the target's memory in bytes.\<close>

theorem query_negotiates:
  assumes "xferRel xf (s\<lparr>txBuf_m := setHdr (getWordSize s) (txBuf_m s) mkQuery\<rparr>)
                (setHdr (getWordSize s) (txBuf_m s) mkQuery) (getWordSize s) 0 [] = (s2, rx, Inr (got, hdr))"
    and "4 \<le> wordSize hdr"
  shows "\<exists>s'. query ref xf s = (s', Inr (memDepth hdr * wordSize hdr)) \<and>
           wordSize_m s' = wordSize hdr \<and> memDepth_m s' = memDepth hdr \<and>
           periodNs_m s' = cvtPerNs ref hdr \<and> retry_m s' = (if memDepth hdr = 0 then 0 else 5) \<and>
           (2 * memDepth hdr + 1) * wordSize hdr \<le> bufSz_m s' \<and> bufSz_m s2 \<le> bufSz_m s'"
  using query_success [OF assms, of ref] by (auto simp: Let_def)

text \<open>C32: a reply announcing a word size below 4 makes \<open>query\<close> fail, but the
  invalid word size has already been stored in the driver.\<close>

theorem query_keeps_invalid_word_size:
  assumes "xferRel xf (s\<lparr>txBuf_m := setHdr (getWordSize s) (txBuf_m s) mkQuery\<rparr>)
                (setHdr (getWordSize s) (txBuf_m s) mkQuery) (getWordSize s) 0 [] = (s2, rx, Inr (got, hdr))"
    and "wordSize hdr < 4"
  shows "query ref xf s = (s2\<lparr>wordSize_m := wordSize hdr\<rparr>, Inl (ProtoErr ''Received invalid word size''))"
  using assms by (simp add: query_def Let_def)

lemma scenario_reply_fields:
  "wordSize scenario_reply = 4" "memDepth scenario_reply = 512" "getErr scenario_reply = 0"
  "unat (drop_bit XID_SHIFT scenario_reply AND 0xff) = 128"
  by (simp_all add: scenario_reply_def wordSize_def memDepth_def getErr_def getCmd_def CMD_MASK_def CMD_E_def XID_SHIFT_def)

text \<open>The Query exchange against a peer that answers at once.\<close>

lemma query_exchange_peer:
  assumes "getErr h = 0"
  shows "\<exists>s2. xferRel script_xfer
             ((peer_drv x0 h)\<lparr>txBuf_m := setHdr (getWordSize (peer_drv x0 h)) (txBuf_m (peer_drv x0 h)) mkQuery\<rparr>)
             (setHdr (getWordSize (peer_drv x0 h)) (txBuf_m (peer_drv x0 h)) mkQuery)
             (getWordSize (peer_drv x0 h)) 0 [] = (s2, blit [] 0 [], Inr (0, h)) \<and> bufSz_m s2 = 2048"
proof -
  define s where "s = peer_drv x0 h"
  define s1 where "s1 = s\<lparr>txBuf_m := setHdr (getWordSize s) (txBuf_m s) mkQuery\<rparr>"
  have x: "getXid (getHdr (setHdr (getWordSize s) (txBuf_m s) mkQuery)) = XID_ANY"
    by (simp add: getHdr_setHdr mkQuery_def getXid_def PVERS_def PVER0_def CMD_Q_def XID_ANY_def)
  have m0: "axis_driver.more s1 = replicate 0 (Inl TimeoutErr) @ Inr (peer_reply h []) # []"
    by (simp add: s1_def s_def peer_drv_def JtagDriverAxisToJtag_def)
  define s2 where "s2 = s1\<lparr>axis_driver.more := [], hdBuf_m := blit (hdBuf_m s1) 0 (le32 h)\<rparr>"
  have "xferRel script_xfer s1 (setHdr (getWordSize s) (txBuf_m s) mkQuery) (getWordSize s) 0 [] =
             (s2, blit [] 0 [], Inr (0, h))"
    using xferRel_loop_recovers [OF m0, of "Suc (retry_m s1)" XID_ANY] x assms
    by (simp add: xferRel_def s2_def)
  moreover have "bufSz_m s2 = 2048"
    by (simp add: s2_def s1_def s_def peer_drv_def JtagDriverAxisToJtag_def)
  ultimately show ?thesis by (auto simp: s_def s1_def)
qed

text \<open>The end-to-end scenario: against a peer announcing word size 4, memory
  depth 512 and period code 128, negotiation yields word size 4, depth 512, five
  retries, a buffer of at least \<open>(2 * 512 + 1) * 4\<close> bytes and the period
  \<open>round(10^2 * 10^9 / REF_FREQ_HZ)\<close> ns.\<close>

theorem query_scenario:
  "\<exists>s'. query ref script_xfer (peer_drv x0 scenario_reply) =
         (s', Inr 2048) \<and> wordSize_m s' = 4 \<and> memDepth_m s' = 512 \<and> retry_m s' = 5 \<and>
         (2 * 512 + 1) * 4 \<le> bufSz_m s' \<and>
         periodNs_m s' = word_of_int (c_round (100 * 1000000000 / ref))"
proof -
  obtain s2 where e: "xferRel script_xfer
             ((peer_drv x0 scenario_reply)\<lparr>txBuf_m := setHdr (getWordSize (peer_drv x0 scenario_reply))
                 (txBuf_m (peer_drv x0 scenario_reply)) mkQuery\<rparr>)
             (setHdr (getWordSize (peer_drv x0 scenario_reply)) (txBuf_m (peer_drv x0 scenario_reply)) mkQuery)
             (getWordSize (peer_drv x0 scenario_reply)) 0 [] = (s2, blit [] 0 [], Inr (0, scenario_reply))"
      and b: "bufSz_m s2 = 2048"
    using query_exchange_peer [of scenario_reply x0] scenario_reply_fields by blast
  have p: "cvtPerNs ref scenario_reply = word_of_int (c_round (100 * 1000000000 / ref))"
  proof -
    have "10 powr (real (128::nat) * 4 / 256) = (100::real)"
      by simp
    then show ?thesis
      using scenario_reply_fields(4) by (simp add: cvtPerNs_def Let_def)
  qed
  show ?thesis
    using query_success [OF e, of ref] b p scenario_reply_fields by (simp add: Let_def)
qed

subsection \<open>Witnesses\<close>

lemma query_negotiates_witness:
  "\<exists>s2. xferRel script_xfer
          ((peer_drv 0 scenario_reply)\<lparr>txBuf_m := setHdr (getWordSize (peer_drv 0 scenario_reply))
              (txBuf_m (peer_drv 0 scenario_reply)) mkQuery\<rparr>)
          (setHdr (getWordSize (peer_drv 0 scenario_reply)) (txBuf_m (peer_drv 0 scenario_reply)) mkQuery)
          (getWordSize (peer_drv 0 scenario_reply)) 0 [] = (s2, blit [] 0 [], Inr (0, scenario_reply)) \<and>
        4 \<le> wordSize scenario_reply \<and>
        (\<exists>s'. query 1 script_xfer (peer_drv 0 scenario_reply) = (s', Inr 2048) \<and>
           wordSize_m s' = 4 \<and> memDepth_m s' = 512 \<and> periodNs_m s' = cvtPerNs 1 scenario_reply \<and>
           retry_m s' = 5 \<and> 4100 \<le> bufSz_m s' \<and> bufSz_m s2 \<le> bufSz_m s')"
proof -
  obtain s2 where e: "xferRel script_xfer
          ((peer_drv 0 scenario_reply)\<lparr>txBuf_m := setHdr (getWordSize (peer_drv 0 scenario_reply))
              (txBuf_m (peer_drv 0 scenario_reply)) mkQuery\<rparr>)
          (setHdr (getWordSize (peer_drv 0 scenario_reply)) (txBuf_m (peer_drv 0 scenario_reply)) mkQuery)
          (getWordSize (peer_drv 0 scenario_reply)) 0 [] = (s2, blit [] 0 [], Inr (0, scenario_reply))"
    using query_exchange_peer [of scenario_reply 0] scenario_reply_fields by blast
  show ?thesis
    using query_negotiates [OF e, of 1] e scenario_reply_fields by auto
qed

lemma query_keeps_invalid_word_size_witness:
  "\<exists>s2. xferRel script_xfer
          ((peer_drv 0 0)\<lparr>txBuf_m := setHdr (getWordSize (peer_drv 0 0)) (txBuf_m (peer_drv 0 0)) mkQuery\<rparr>)
          (setHdr (getWordSize (peer_drv 0 0)) (txBuf_m (peer_drv 0 0)) mkQuery)
          (getWordSize (peer_drv 0 0)) 0 [] = (s2, blit [] 0 [], Inr (0, 0)) \<and>
        wordSize 0 < 4 \<and>
        query 1 script_xfer (peer_drv 0 0) = (s2\<lparr>wordSize_m := 1\<rparr>, Inl (ProtoErr ''Received invalid word size''))"
proof -
  have z: "getErr 0 = 0" "wordSize 0 = 1" by (simp_all add: getErr_def getCmd_def CMD_MASK_def CMD_E_def wordSize_def)
  obtain s2 where e: "xferRel script_xfer
          ((peer_drv 0 0)\<lparr>txBuf_m := setHdr (getWordSize (peer_drv 0 0)) (txBuf_m (peer_drv 0 0)) mkQuery\<rparr>)
          (setHdr (getWordSize (peer_drv 0 0)) (txBuf_m (peer_drv 0 0)) mkQuery)
          (getWordSize (peer_drv 0 0)) 0 [] = (s2, blit [] 0 [], Inr (0, 0))"
    using query_exchange_peer [of 0 0] z by blast
  show ?thesis
    using query_keeps_invalid_word_size [OF e, of 1] e z by auto
qed

end
