(* ===== verification/AxisTmem.thy ===== *)
theory AxisTmem
  imports Negotiation
begin

text \<open>
  The AXI-stream-to-TMEM FIFO transport \<open>JtagDriverTmemFifo\<close>
  (\<open>xvcDrvAxisTmem.cc\<close>). The driver reaches the firmware FIFO through two
  32-bit registers on the VME/PCI bridge (\<open>toscaRead\<close>/\<open>toscaWrite\<close> of the
  \<open>toscaApi\<close> library): a data register (writes push a word to the target,
  reads pop a reply word) and a control/status register.

  The register map of \<open>xvcDrvAxisTmem.h\<close> (indices, bit masks and shifts) is not
  part of the sources, so it is the parameter record \<open>tmem_hw\<close>; the bus is the
  pair of functions of \<open>tmem_env\<close> on an abstract device state, together with
  the host byte order (\<open>memcpy\<close> between a byte buffer and a \<open>uint32_t\<close>
  loads and stores in host order). The driver's own members extend the
  \<open>axis_driver\<close> record through its extension slot (\<open>tmem_fifo\<close>), with the
  device state \<open>dev_m\<close> among them.

  \<open>unsigned\<close> quantities that the code computes with wrap-around (\<open>txWords\<close>,
  \<open>lastBytes\<close>, \<open>got\<close>) are \<open>32 word\<close>; \<open>unsigned long\<close> is taken as 64
  bits (LP64). The polling loop \<open>while (csr & FIFO_CSR_EMPI) wait()\<close> ends only
  when the firmware clears the flag, so it is a \<open>partial_function (option)\<close>
  and \<open>tmem_xfer\<close> returns \<open>None\<close> when it polls forever. In interrupt mode
  \<open>wait()\<close> writes to and reads from the interrupt descriptor; whether each
  system call transfers its four bytes is a parameter of the environment
  (\<open>irqWrite\<close>, \<open>irqRead\<close>), and a failure is the \<open>SysErr\<close> the code
  throws. Debug printing is output only.
\<close>

unbundle bit_operations_syntax

record tmem_hw =
  FIFO_DAT_IDX :: nat
  FIFO_CSR_IDX :: nat
  FIFO_MAGIC_IDX :: nat
  FIFO_CSR_RST :: "32 word"
  FIFO_CSR_IENI :: "32 word"
  FIFO_CSR_EOFO :: "32 word"
  FIFO_CSR_EMPI :: "32 word"
  FIFO_CSR_VERSM :: "32 word"
  FIFO_CSR_VERSS :: nat
  FIFO_CSR_MAXWM :: "32 word"
  FIFO_CSR_MAXWS :: nat
  FIFO_CSR_NWRDM :: "32 word"
  FIFO_CSR_NWRDS :: nat
  MAGIC :: "32 word"
  SUPPORTED_VERS :: "32 word"

record 'dev tmem_env =
  hw :: tmem_hw
  toscaRead :: "'dev \<Rightarrow> nat \<Rightarrow> nat \<Rightarrow> 'dev \<times> 32 word"
  toscaWrite :: "'dev \<Rightarrow> nat \<Rightarrow> nat \<Rightarrow> 32 word \<Rightarrow> 'dev"
  hostLE :: bool
  irqWrite :: "'dev \<Rightarrow> int \<Rightarrow> bool"
  irqRead :: "'dev \<Rightarrow> int \<Rightarrow> bool"

record 'dev tmem_fifo =
  toscaSpace_m :: nat
  toscaBase_m :: nat
  irqFd_m :: int
  wrdSiz_m :: nat
  maxVec_m :: "64 word"
  dev_m :: 'dev

type_synonym 'dev tmem_drv = "'dev tmem_fifo axis_driver_scheme"

subsection \<open>Byte order\<close>

definition bswap32 :: "32 word \<Rightarrow> 32 word" where
  "bswap32 w = of_le32 (rev (le32 w))"

text \<open>\<open>memcpy(&w, p, 4)\<close> and \<open>memcpy(p, &w, 4)\<close> in host byte order.\<close>

definition load32 :: "bool \<Rightarrow> byte list \<Rightarrow> 32 word" where
  "load32 le bs = (if le then of_le32 bs else of_le32 (rev (take 4 bs)))"

definition store32 :: "bool \<Rightarrow> 32 word \<Rightarrow> byte list" where
  "store32 le w = (if le then le32 w else rev (le32 w))"

subsection \<open>Register access\<close>

text \<open>The device state of a driver, read and replaced.\<close>

abbreviation dev_of :: "'dev tmem_drv \<Rightarrow> 'dev" where
  "dev_of s \<equiv> dev_m (axis_driver.more s)"

definition set_dev :: "'dev \<Rightarrow> 'dev tmem_drv \<Rightarrow> 'dev tmem_drv" where
  "set_dev d s = s\<lparr>axis_driver.more := (axis_driver.more s)\<lparr>dev_m := d\<rparr>\<rparr>"


definition o32 :: "'dev tmem_env \<Rightarrow> nat \<Rightarrow> 32 word \<Rightarrow> 'dev tmem_drv \<Rightarrow> 'dev tmem_drv" where
  "o32 env idx v s =
     (let t = axis_driver.more s
      in s\<lparr>axis_driver.more := t\<lparr>dev_m := toscaWrite env (dev_m t) (toscaSpace_m t) (toscaBase_m t + idx * 4) v\<rparr>\<rparr>)"

definition i32 :: "'dev tmem_env \<Rightarrow> nat \<Rightarrow> 'dev tmem_drv \<Rightarrow> 'dev tmem_drv \<times> 32 word" where
  "i32 env idx s =
     (let t = axis_driver.more s;
          (d, v) = toscaRead env (dev_m t) (toscaSpace_m t) (toscaBase_m t + idx * 4)
      in (s\<lparr>axis_driver.more := t\<lparr>dev_m := d\<rparr>\<rparr>, v))"

definition wait :: "'dev tmem_env \<Rightarrow> 'dev tmem_drv \<Rightarrow> xvc_error + 'dev tmem_drv" where
  "wait env s =
     (let fd = irqFd_m (axis_driver.more s)
      in if 0 \<le> fd
         then (if \<not> irqWrite env (dev_of s) fd then Inl (SysErr ''Unable to write to IRQ descriptor'')
               else if \<not> irqRead env (dev_of s) fd then Inl (SysErr ''Unable to read from IRQ descriptor'')
               else Inr s)
         else Inr s)"

definition reset :: "'dev tmem_env \<Rightarrow> 'dev tmem_drv \<Rightarrow> 'dev tmem_drv" where
  "reset env s =
     (let h = hw env;
          s1 = o32 env (FIFO_CSR_IDX h) (FIFO_CSR_RST h) s;
          s2 = o32 env (FIFO_CSR_IDX h) 0 s1
      in if 0 \<le> irqFd_m (axis_driver.more s2) then o32 env (FIFO_CSR_IDX h) (FIFO_CSR_IENI h) s2 else s2)"

subsection \<open>The transfer\<close>

text \<open>The send loop: iteration \<open>i\<close> writes the \<open>i\<close>-th four bytes of the
  request, byte-swapped, to the data register.\<close>

fun send_words :: "'dev tmem_env \<Rightarrow> byte list \<Rightarrow> nat \<Rightarrow> nat \<Rightarrow> 'dev tmem_drv \<Rightarrow> 'dev tmem_drv" where
  "send_words env txb i 0 s = s"
| "send_words env txb i (Suc n) s =
     send_words env txb (Suc i) n
       (o32 env (FIFO_DAT_IDX (hw env)) (bswap32 (load32 (hostLE env) (slice txb (4 * i) 4))) s)"

partial_function (option) poll ::
  "'dev tmem_env \<Rightarrow> 'dev tmem_drv \<Rightarrow> ('dev tmem_drv \<times> (xvc_error + 32 word)) option" where
  "poll env s =
     (case i32 env (FIFO_CSR_IDX (hw env)) s of
        (s1, csr) \<Rightarrow>
          if csr AND FIFO_CSR_EMPI (hw env) \<noteq> 0
          then (case wait env s1 of Inl e \<Rightarrow> Some (s1, Inl e) | Inr s2 \<Rightarrow> poll env s2)
          else Some (s1, Inr csr))"

text \<open>The header loop: one data word per four header bytes; the word is read
  before the remaining count is checked. \<open>hb\<close> are the bytes copied to
  \<open>hdbuf\<close> so far (\<open>memcpy(hdbuf + i, &w, 4)\<close> for \<open>i = 0, 4, ...\<close>);
  they are returned also when the loop throws.\<close>

fun read_hdr ::
  "'dev tmem_env \<Rightarrow> nat \<Rightarrow> 32 word \<Rightarrow> byte list \<Rightarrow> 'dev tmem_drv
     \<Rightarrow> 'dev tmem_drv \<times> byte list \<times> (xvc_error + 32 word)" where
  "read_hdr env 0 got hb s = (s, hb, Inr got)"
| "read_hdr env (Suc k) got hb s =
     (case i32 env (FIFO_DAT_IDX (hw env)) s of
        (s1, w) \<Rightarrow>
          if got < 4 then (s1, hb, Inl (ProtoErr ''Didn't receive enough data for header''))
          else read_hdr env k (got - 4) (hb @ store32 (hostLE env) (bswap32 w)) s1)"

fun read_words :: "'dev tmem_env \<Rightarrow> nat \<Rightarrow> byte list \<Rightarrow> 'dev tmem_drv \<Rightarrow> 'dev tmem_drv \<times> byte list" where
  "read_words env 0 acc s = (s, acc)"
| "read_words env (Suc n) acc s =
     (case i32 env (FIFO_DAT_IDX (hw env)) s of
        (s1, w) \<Rightarrow> read_words env n (acc @ store32 (hostLE env) (bswap32 w)) s1)"

text \<open>Discarding the excess: the index advances by four per word read until it
  reaches \<open>got\<close>. \<open>got\<close> is a multiple of four below \<open>2^32\<close>, so the
  \<open>unsigned\<close> index never wraps and is a \<open>nat\<close> here.\<close>

function discard :: "'dev tmem_env \<Rightarrow> nat \<Rightarrow> nat \<Rightarrow> 'dev tmem_drv \<Rightarrow> 'dev tmem_drv" where
  "discard env i got s =
     (if i < got then discard env (i + 4) got (fst (i32 env (FIFO_DAT_IDX (hw env)) s)) else s)"
  by pat_completeness auto
termination by (relation "measure (\<lambda>(env, i, got, s). got - i)") auto

declare discard.simps [simp del]

text \<open>Fault injection: with \<open>drEn_\<close> set, \<open>drop_\<close> counts the completed
  transfers and every 256th is turned into a timeout.\<close>

definition drop_check :: "bool \<Rightarrow> 32 word \<Rightarrow> 32 word \<times> bool" where
  "drop_check drEn cnt = (if drEn then (cnt + 1, (cnt + 1) AND 0xff = 0) else (cnt, False))"

text \<open>The transfer in three parts, as the code runs them: sending the request
  and the end-of-frame mark (lines 161--185, after the check of \<open>hsize\<close>),
  waiting for and reading the reply header (lines 187--205), and reading the
  payload, discarding the excess and the fault injection (lines 206--239).
  The two reading parts return, besides the device state and the outcome, the
  bytes they copied to \<open>hdbuf\<close> and to \<open>rxb\<close> (from offset 0, in the order
  of the \<open>memcpy\<close> calls); \<open>tmem_xfer\<close> writes them to the two buffers
  it is handed, on every path that has read them, the injected timeout
  included.\<close>

definition tmem_send :: "'dev tmem_env \<Rightarrow> byte list \<Rightarrow> 'dev tmem_drv \<Rightarrow> 'dev tmem_drv" where
  "tmem_send env txb s =
     (let h = hw env;
          txBytes = (word_of_nat (length txb) :: 32 word);
          txWords0 = (txBytes + 3) div 4;
          lastBytes = txBytes - 4 * (txWords0 - 1);
          txWords = (if lastBytes \<noteq> 0 then txWords0 - 1 else txWords0);
          s1 = send_words env txb 0 (unat txWords) s;
          s2 = (if lastBytes \<noteq> 0
                then o32 env (FIFO_DAT_IDX h)
                       (bswap32 (load32 (hostLE env)
                          (take (unat lastBytes) (drop (4 * unat txWords) txb) @ replicate (4 - unat lastBytes) 0))) s1
                else s1);
          (s3, c) = i32 env (FIFO_CSR_IDX h) s2
      in o32 env (FIFO_CSR_IDX h) (c OR FIFO_CSR_EOFO h) s3)"

definition tmem_payload ::
  "'dev tmem_env \<Rightarrow> 32 word \<Rightarrow> nat \<Rightarrow> 'dev tmem_drv \<Rightarrow> 'dev tmem_drv \<times> byte list \<times> (xvc_error + int)" where
  "tmem_payload env got sz s =
     (let h = hw env;
          mn = min (unat got) sz;
          (s7, d1) = read_words env (mn div 4) [] s;
          rem = mn - 4 * (mn div 4);
          (s8, d2, i) =
            (if rem \<noteq> 0
             then (case i32 env (FIFO_DAT_IDX h) s7 of
                     (s', w) \<Rightarrow> (s', d1 @ take rem (store32 (hostLE env) (bswap32 w)), 4 * (mn div 4) + 4))
             else (s7, d1, 4 * (mn div 4)));
          s9 = discard env i (unat got) s8;
          (dr, dropped) = drop_check (drEn_m s9) (drop_m s9);
          s10 = s9\<lparr>drop_m := dr\<rparr>
      in if dropped then (s10, d2, Inl TimeoutErr)
         else (s10, d2, Inr (sint (word_of_nat mn :: 32 word))))"

definition tmem_recv ::
  "'dev tmem_env \<Rightarrow> nat \<Rightarrow> nat \<Rightarrow> 'dev tmem_drv
     \<Rightarrow> ('dev tmem_drv \<times> byte list \<times> byte list \<times> (xvc_error + int)) option" where
  "tmem_recv env hsize sz s =
     (case poll env s of
        None \<Rightarrow> None
      | Some (s5, Inl e) \<Rightarrow> Some (s5, [], [], Inl e)
      | Some (s5, Inr csr) \<Rightarrow>
          (let h = hw env;
               got = (drop_bit (FIFO_CSR_NWRDS h) csr AND FIFO_CSR_NWRDM h) * word_of_nat (wrdSiz_m (axis_driver.more s5))
           in if got = 0 then Some (s5, [], [], Inl (ProtoErr ''Didn't receive enough data for header''))
              else
                (case read_hdr env (hsize div 4) got [] s5 of
                   (s6, hb, Inl e) \<Rightarrow> Some (s6, hb, [], Inl e)
                 | (s6, hb, Inr got') \<Rightarrow>
                     (case tmem_payload env got' sz s6 of (s', d, r) \<Rightarrow> Some (s', hb, d, r)))))"

definition tmem_xfer ::
  "'dev tmem_env \<Rightarrow> 'dev tmem_drv \<Rightarrow> byte list \<Rightarrow> byte list \<Rightarrow> nat \<Rightarrow> byte list \<Rightarrow> nat
     \<Rightarrow> ('dev tmem_drv \<times> byte list \<times> byte list \<times> (xvc_error + int)) option" where
  "tmem_xfer env s txb hdbuf hsize rxb sz =
     (if hsize mod 4 \<noteq> 0
      then Some (s, hdbuf, rxb, Inl (RuntimeErr ''AXIS2TMEM FIFO only supports word-lengths that are a multiple of 4''))
      else (case tmem_recv env hsize sz (tmem_send env txb s) of
              None \<Rightarrow> None
            | Some (s', hb, d, r) \<Rightarrow> Some (s', blit hdbuf 0 hb, blit rxb 0 d, r)))"

subsection \<open>Construction and initialisation\<close>

text \<open>The constructor after parsing the target string: \<open>space\<close> is the result
  of \<open>toscaStrToAddrSpace\<close> (0 when invalid), \<open>base\<close> that of \<open>strtoul\<close>
  (\<open>None\<close> when no digit was read), \<open>opts\<close> the options \<open>getopt\<close> returns
  with their arguments, and \<open>openfd\<close> the descriptor \<open>open()\<close> returns for the
  interrupt file (negative on failure). The base class is constructed first.\<close>

fun parse_opts :: "(char \<times> string) list \<Rightarrow> string option \<Rightarrow> xvc_error + string option" where
  "parse_opts [] irqfn = Inr irqfn"
| "parse_opts ((c, arg) # opts) irqfn =
     (if c = CHR ''i'' then parse_opts opts (Some arg) else Inl (RuntimeErr ''Unknown driver option''))"

text \<open>The FIFO's capacity in words, from the status register (the field counts
  KiB; the arithmetic is \<open>uint32_t\<close>), and the longest vector: one header word
  and two vectors must fit (lines 73--80, with \<open>wrdSiz_ = 4\<close>; \<open>maxWords\<close>
  and \<open>maxBytes\<close> are \<open>unsigned long\<close>).\<close>

definition fifoWords :: "tmem_hw \<Rightarrow> 32 word \<Rightarrow> 32 word" where
  "fifoWords h csrVal = push_bit 10 (drop_bit (FIFO_CSR_MAXWS h) (csrVal AND FIFO_CSR_MAXWM h)) div 4"

definition maxVecOf :: "tmem_hw \<Rightarrow> 32 word \<Rightarrow> 64 word" where
  "maxVecOf h csrVal =
     (let maxWords = (ucast (fifoWords h csrVal) :: 64 word);
          maxBytes = (maxWords - 1) * 4
      in maxBytes div 2)"

definition JtagDriverTmemFifo ::
  "'dev tmem_env \<Rightarrow> 32 word \<Rightarrow> xid \<Rightarrow> 'dev \<Rightarrow> nat \<Rightarrow> nat option \<Rightarrow> (char \<times> string) list \<Rightarrow> (string \<Rightarrow> int)
     \<Rightarrow> xvc_error + 'dev tmem_drv" where
  "JtagDriverTmemFifo env dbg x0 d space base opts openfd =
     (let h = hw env;
          s0 = JtagDriverAxisToJtag dbg x0
                 \<lparr>toscaSpace_m = space, toscaBase_m = (case base of Some b \<Rightarrow> b | None \<Rightarrow> 0), irqFd_m = -1,
                  wrdSiz_m = 0, maxVec_m = 0, dev_m = d\<rparr>
      in if space = 0 \<or> base = None then Inl (RuntimeErr ''Invalid <target>'')
         else
           (case parse_opts opts None of
              Inl e \<Rightarrow> Inl e
            | Inr irqfn \<Rightarrow>
                (let s1 = reset env s0;
                     (s2, m) = i32 env (FIFO_MAGIC_IDX h) s1
                 in if MAGIC h \<noteq> m then Inl (RuntimeErr ''TMEM Device not found'')
                    else
                      (let (s3, csrVal) = i32 env (FIFO_CSR_IDX h) s2
                       in if drop_bit (FIFO_CSR_VERSS h) (csrVal AND FIFO_CSR_VERSM h) \<noteq> SUPPORTED_VERS h
                          then Inl (RuntimeErr ''TMEM Device wrong FW version'')
                          else
                            (let fd = (case irqfn of None \<Rightarrow> irqFd_m (axis_driver.more s3) | Some fn \<Rightarrow> openfd fn)
                             in Inr (s3\<lparr>axis_driver.more := (axis_driver.more s3)
                                       \<lparr>wrdSiz_m := 4, maxVec_m := maxVecOf h csrVal, irqFd_m := fd\<rparr>\<rparr>))))))"

definition getMaxVectorSize :: "'dev tmem_drv \<Rightarrow> 64 word" where
  "getMaxVectorSize s = maxVec_m (axis_driver.more s)"

text \<open>\<open>init()\<close>: reset, then the negotiation of the base class (with the
  transport's transfer function \<open>xf\<close>), then the check that the target's
  word size is the FIFO's.\<close>

definition tmem_init ::
  "'dev tmem_env \<Rightarrow> real \<Rightarrow> 'dev tmem_fifo xfer_fn \<Rightarrow> 'dev tmem_drv \<Rightarrow> 'dev tmem_drv \<times> (xvc_error + unit)" where
  "tmem_init env ref xf s =
     (let s1 = reset env s;
          (s2, r) = init ref xf s1
      in case r of
           Inl e \<Rightarrow> (s2, Inl e)
         | Inr _ \<Rightarrow>
             if getWordSize s2 \<noteq> wrdSiz_m (axis_driver.more s2)
             then (s2, Inl (RuntimeErr ''ERROR: firmware misconfigured -- FIFO word size /= JTAG stream word size''))
             else (s2, Inr ()))"

text \<open>A register map used in the examples below (the values of the header are
  not part of the sources).\<close>

definition demo_hw :: tmem_hw where
  "demo_hw = \<lparr>FIFO_DAT_IDX = 0, FIFO_CSR_IDX = 1, FIFO_MAGIC_IDX = 2,
     FIFO_CSR_RST = 4, FIFO_CSR_IENI = 8, FIFO_CSR_EOFO = 2, FIFO_CSR_EMPI = 1,
     FIFO_CSR_VERSM = 0xF0, FIFO_CSR_VERSS = 4, FIFO_CSR_MAXWM = 0xF00, FIFO_CSR_MAXWS = 8,
     FIFO_CSR_NWRDM = mask 12, FIFO_CSR_NWRDS = 16, MAGIC = 0x6a746167, SUPPORTED_VERS = 1\<rparr>"

text \<open>A bus at which nothing answers: writes are lost and reads return 0.\<close>

definition null_bus :: "tmem_hw \<Rightarrow> unit tmem_env" where
  "null_bus h = \<lparr>hw = h, toscaRead = \<lambda>d sp a. (d, 0), toscaWrite = \<lambda>d sp a v. d, hostLE = True,
                 irqWrite = \<lambda>d fd. True, irqRead = \<lambda>d fd. True\<rparr>"


subsection \<open>Register access on any bus\<close>

lemma set_dev_simps [simp]:
  "dev_of (set_dev d s) = d" "set_dev d (set_dev d' s) = set_dev d s" "set_dev (dev_of s) s = s"
  "toscaBase_m (axis_driver.more (set_dev d s)) = toscaBase_m (axis_driver.more s)"
  "toscaSpace_m (axis_driver.more (set_dev d s)) = toscaSpace_m (axis_driver.more s)"
  "wrdSiz_m (axis_driver.more (set_dev d s)) = wrdSiz_m (axis_driver.more s)"
  "irqFd_m (axis_driver.more (set_dev d s)) = irqFd_m (axis_driver.more s)"
  "drEn_m (set_dev d s) = drEn_m s" "drop_m (set_dev d s) = drop_m s"
  by (simp_all add: set_dev_def)

lemma o32_dev: "o32 env idx v s = set_dev (toscaWrite env (dev_of s) (toscaSpace_m (axis_driver.more s)) (toscaBase_m (axis_driver.more s) + idx * 4) v) s"
  by (simp add: o32_def set_dev_def Let_def)

lemma i32_dev: "i32 env idx s =
  (set_dev (fst (toscaRead env (dev_of s) (toscaSpace_m (axis_driver.more s)) (toscaBase_m (axis_driver.more s) + idx * 4))) s,
   snd (toscaRead env (dev_of s) (toscaSpace_m (axis_driver.more s)) (toscaBase_m (axis_driver.more s) + idx * 4)))"
  by (simp add: i32_def set_dev_def Let_def split: prod.splits)

subsection \<open>What a transfer changes\<close>

lemma send_words_dev: "\<exists>d. send_words env txb i n s = set_dev d s"
proof (induction n arbitrary: i s)
  case 0
  then show ?case by (metis set_dev_simps(3) send_words.simps(1))
next
  case (Suc n)
  then obtain d where "send_words env txb (Suc i) n (o32 env (FIFO_DAT_IDX (hw env)) (bswap32 (load32 (hostLE env) (slice txb (4 * i) 4))) s) =
      set_dev d (o32 env (FIFO_DAT_IDX (hw env)) (bswap32 (load32 (hostLE env) (slice txb (4 * i) 4))) s)" by blast
  then show ?case by (auto simp: o32_dev)
qed

lemma set_dev_if:
  "set_dev X (if P then set_dev A t else t) = set_dev X t"
  "set_dev X (if P then set_dev A t else set_dev B t) = set_dev X t"
  by (cases P; simp)+

lemma tmem_send_dev: "\<exists>d. tmem_send env txb s = set_dev d s"
proof -
  have "\<forall>n. \<exists>d. send_words env txb 0 n s = set_dev d s" by (intro allI send_words_dev)
  then obtain d1 where d1: "\<And>n. send_words env txb 0 n s = set_dev (d1 n) s" by metis
  show ?thesis
    unfolding tmem_send_def Let_def d1
    by (simp only: o32_dev i32_dev prod.case set_dev_simps set_dev_if) (rule exI, rule refl)
qed

lemma wait_dev: "wait env s = Inr s' \<Longrightarrow> s' = s"
  by (auto simp: wait_def Let_def split: if_splits)

lemma poll_dev:
  assumes "poll env s = Some r"
  shows "\<exists>d. fst r = set_dev d s"
proof (rule poll.raw_induct [where P = "\<lambda>env s r. \<exists>d. fst r = set_dev d s", OF _ assms])
  fix f env s r
  assume IH: "\<And>env s r. f env s = Some r \<Longrightarrow> \<exists>d. fst r = set_dev d s"
    and eq: "(case i32 env (FIFO_CSR_IDX (hw env)) s of
               (s1, csr) \<Rightarrow>
                 if csr AND FIFO_CSR_EMPI (hw env) \<noteq> 0
                 then (case wait env s1 of Inl e \<Rightarrow> Some (s1, Inl e) | Inr s2 \<Rightarrow> f env s2)
                 else Some (s1, Inr csr)) = Some r"
  obtain s1 csr where p: "i32 env (FIFO_CSR_IDX (hw env)) s = (s1, csr)" by fastforce
  obtain d1 where d1: "s1 = set_dev d1 s" using p by (auto simp: i32_dev)
  show "\<exists>d. fst r = set_dev d s"
  proof (cases "csr AND FIFO_CSR_EMPI (hw env) \<noteq> 0")
    case True
    show ?thesis
    proof (cases "wait env s1")
      case (Inl e)
      then have "r = (s1, Inl e)" using eq p True by simp
      then show ?thesis using d1 by auto
    next
      case (Inr s2)
      then have "f env s1 = Some r" using eq p True wait_dev [OF Inr] by simp
      then obtain d where "fst r = set_dev d s1" using IH by blast
      then show ?thesis using d1 by auto
    qed
  next
    case False
    then have "r = (s1, Inr csr)" using eq p by simp
    then show ?thesis using d1 by auto
  qed
qed

lemma i32_dev_ex: "i32 env idx s = (s1, w) \<Longrightarrow> \<exists>d. s1 = set_dev d s"
  by (auto simp: i32_dev)

lemma read_hdr_dev: "\<exists>d. fst (read_hdr env k got hb s) = set_dev d s"
proof (induction k arbitrary: got hb s)
  case 0
  then show ?case by (metis set_dev_simps(3) read_hdr.simps(1) fst_conv)
next
  case (Suc k)
  obtain s1 w where p: "i32 env (FIFO_DAT_IDX (hw env)) s = (s1, w)" by fastforce
  obtain d1 where d1: "s1 = set_dev d1 s" using i32_dev_ex [OF p] by blast
  show ?case
  proof (cases "got < 4")
    case True
    then have "fst (read_hdr env (Suc k) got hb s) = s1" using p by simp
    then show ?thesis using d1 by blast
  next
    case False
    then have e: "fst (read_hdr env (Suc k) got hb s) = fst (read_hdr env k (got - 4) (hb @ store32 (hostLE env) (bswap32 w)) s1)"
      using p by simp
    obtain d where "fst (read_hdr env k (got - 4) (hb @ store32 (hostLE env) (bswap32 w)) s1) = set_dev d s1"
      using Suc.IH by blast
    then show ?thesis unfolding e d1 by auto
  qed
qed

lemma read_words_dev: "\<exists>d. fst (read_words env n acc s) = set_dev d s"
proof (induction n arbitrary: acc s)
  case 0
  then show ?case by (metis set_dev_simps(3) read_words.simps(1) fst_conv)
next
  case (Suc n)
  obtain s1 w where p: "i32 env (FIFO_DAT_IDX (hw env)) s = (s1, w)" by fastforce
  obtain d1 where d1: "s1 = set_dev d1 s" using i32_dev_ex [OF p] by blast
  have e: "fst (read_words env (Suc n) acc s) = fst (read_words env n (acc @ store32 (hostLE env) (bswap32 w)) s1)"
    using p by simp
  obtain d where "fst (read_words env n (acc @ store32 (hostLE env) (bswap32 w)) s1) = set_dev d s1" using Suc.IH by blast
  then show ?case unfolding e d1 by auto
qed

lemma discard_dev: "\<exists>d. discard env i got s = set_dev d s"
proof (induction env i got s rule: discard.induct)
  case (1 env i got s)
  show ?case
  proof (cases "i < got")
    case True
    obtain d where "discard env (i + 4) got (fst (i32 env (FIFO_DAT_IDX (hw env)) s)) = set_dev d (fst (i32 env (FIFO_DAT_IDX (hw env)) s))"
      using 1 True by blast
    moreover obtain d1 where "fst (i32 env (FIFO_DAT_IDX (hw env)) s) = set_dev d1 s" by (auto simp: i32_dev)
    moreover have "discard env i got s = discard env (i + 4) got (fst (i32 env (FIFO_DAT_IDX (hw env)) s))"
      by (subst discard.simps) (simp add: True)
    ultimately show ?thesis by (metis set_dev_simps(2))
  next
    case False
    have "discard env i got s = s" by (subst discard.simps) (simp add: False)
    then show ?thesis by (metis set_dev_simps(3))
  qed
qed

lemma tmem_payload_dev: "\<exists>d n. fst (tmem_payload env got sz s) = (set_dev d s)\<lparr>drop_m := n\<rparr>"
proof -
  define mn where "mn = min (unat got) sz"
  obtain s7 ws where p7: "read_words env (mn div 4) [] s = (s7, ws)" by fastforce
  obtain d7 where d7: "s7 = set_dev d7 s" using read_words_dev [of env "mn div 4" "[]" s] p7 by auto
  obtain s8 d2 i where p8: "(if mn - 4 * (mn div 4) \<noteq> 0
             then (case i32 env (FIFO_DAT_IDX (hw env)) s7 of
                     (s', w) \<Rightarrow> (s', ws @ take (mn - 4 * (mn div 4)) (store32 (hostLE env) (bswap32 w)), 4 * (mn div 4) + 4))
             else (s7, ws, 4 * (mn div 4))) = (s8, d2, i)" by (metis prod_cases3)
  obtain d8 where d8: "s8 = set_dev d8 s7"
  proof (cases "mn - 4 * (mn div 4) \<noteq> 0")
    case True
    obtain t w where "i32 env (FIFO_DAT_IDX (hw env)) s7 = (t, w)" by fastforce
    then show ?thesis using that True p8 i32_dev_ex by fastforce
  next
    case False
    then show ?thesis using that p8 by (metis prod.inject set_dev_simps(3))
  qed
  obtain d9 where d9: "discard env i (unat got) s8 = set_dev d9 s8" using discard_dev [of env i "unat got" s8] by blast
  have "fst (tmem_payload env got sz s) =
          (discard env i (unat got) s8)\<lparr>drop_m := fst (drop_check (drEn_m (discard env i (unat got) s8)) (drop_m (discard env i (unat got) s8)))\<rparr>"
    unfolding tmem_payload_def Let_def mn_def [symmetric] p7 prod.case p8
    by (simp split: prod.split)
  moreover have "discard env i (unat got) s8 = set_dev d9 s" using d9 d8 d7 by simp
  ultimately show ?thesis by auto
qed

lemma drop_m_same: "(set_dev d t)\<lparr>drop_m := drop_m t\<rparr> = set_dev d t"
  by (simp add: set_dev_def)

lemma tmem_recv_dev:
  assumes x: "tmem_recv env hsize sz t = Some (s', hb, d, r)"
  shows "\<exists>dv n. s' = (set_dev dv t)\<lparr>drop_m := n\<rparr>"
proof -
  obtain s5 c where p0: "poll env t = Some (s5, c)"
    using x by (cases "poll env t") (auto simp: tmem_recv_def)
  obtain d5 where d5: "s5 = set_dev d5 t" using poll_dev [OF p0] by auto
  show ?thesis
  proof (cases c)
    case (Inl e)
    then have "s' = set_dev d5 t" using x p0 d5 by (simp add: tmem_recv_def)
    then show ?thesis using drop_m_same by metis
  next
    case (Inr csr)
    define got where "got = (drop_bit (FIFO_CSR_NWRDS (hw env)) csr AND FIFO_CSR_NWRDM (hw env)) *
                              word_of_nat (wrdSiz_m (axis_driver.more s5))"
    have rv: "tmem_recv env hsize sz t =
        (if got = 0 then Some (s5, [], [], Inl (ProtoErr ''Didn't receive enough data for header''))
         else (case read_hdr env (hsize div 4) got [] s5 of
                 (s6, hb, Inl e) \<Rightarrow> Some (s6, hb, [], Inl e)
               | (s6, hb, Inr got') \<Rightarrow>
                   (case tmem_payload env got' sz s6 of (s', d, r) \<Rightarrow> Some (s', hb, d, r))))"
      unfolding tmem_recv_def p0 Inr got_def by (simp add: Let_def)
    obtain s6 hb6 e where p6: "read_hdr env (hsize div 4) got [] s5 = (s6, hb6, e)" by (metis prod_cases3)
    obtain d6 where d6: "s6 = set_dev d6 s5" using read_hdr_dev [of env "hsize div 4" got "[]" s5] p6 by auto
    consider (z) "got = 0" | (err) err where "got \<noteq> 0" "e = Inl err" | (ok) g where "got \<noteq> 0" "e = Inr g"
      by (metis sumE)
    then show ?thesis
    proof cases
      case z
      then have "s' = set_dev d5 t" using x rv d5 by simp
      then show ?thesis using drop_m_same by metis
    next
      case err
      then have "s' = set_dev d6 t" using x rv p6 d6 d5 by simp
      then show ?thesis using drop_m_same by metis
    next
      case ok
      then have "s' = fst (tmem_payload env g sz s6)" using x rv p6 by (simp split: prod.splits)
      moreover obtain dv n where "fst (tmem_payload env g sz s6) = (set_dev dv s6)\<lparr>drop_m := n\<rparr>"
        using tmem_payload_dev [of env g sz s6] by blast
      ultimately show ?thesis using d6 d5 by auto
    qed
  qed
qed

lemma tmem_xfer_dev:
  assumes "tmem_xfer env s txb hdbuf hsize rxb sz = Some (s', hb, rb, r)"
  shows "\<exists>d n. s' = (set_dev d s)\<lparr>drop_m := n\<rparr>"
proof (cases "hsize mod 4 = 0")
  case False
  then have "s' = set_dev (dev_of s) s" using assms by (simp add: tmem_xfer_def)
  then show ?thesis using drop_m_same by metis
next
  case True
  obtain d1 where d1: "tmem_send env txb s = set_dev d1 s" using tmem_send_dev [of env txb s] by blast
  obtain hb' d' where "tmem_recv env hsize sz (set_dev d1 s) = Some (s', hb', d', r)"
    using assms True d1 by (auto simp: tmem_xfer_def split: option.splits)
  then show ?thesis using tmem_recv_dev by fastforce
qed

text \<open>The TMEM transport honours the transfer contract of the protocol engine
  (\<open>xfer_frame\<close>): wherever \<open>xfer()\<close> returns, it has changed no member of
  the driver but its device state and the fault-injection counter.\<close>

lemma tmem_xfer_frame:
  assumes "\<And>s tx hb hs rb n. tmem_xfer env s tx hb hs rb n = Some (xf s tx hb hs rb n)"
  shows "xfer_frame xf"
  unfolding xfer_frame_def
proof (intro allI)
  fix s tx hb hs rb n
  obtain s' hb' rb' r where x: "xf s tx hb hs rb n = (s', hb', rb', r)" by (cases "xf s tx hb hs rb n") auto
  obtain d m where "s' = (set_dev d s)\<lparr>drop_m := m\<rparr>"
    using tmem_xfer_dev [of env s tx hb hs rb n s' hb' rb' r] assms x by metis
  then show "let s' = fst (xf s tx hb hs rb n) in
        debug_m s' = debug_m s \<and> drEn_m s' = drEn_m s \<and>
        wordSize_m s' = wordSize_m s \<and> memDepth_m s' = memDepth_m s \<and>
        retry_m s' = retry_m s \<and> periodNs_m s' = periodNs_m s \<and> bufSz_m s' = bufSz_m s \<and>
        txBuf_m s' = txBuf_m s \<and> xid_m s' = xid_m s"
    using x by (simp add: set_dev_def)
qed

subsection \<open>Arithmetic of the driver\<close>

lemma tx_counts:
  fixes n :: nat
  defines "c \<equiv> (n + 3) div 4"
  assumes n: "0 < n" "n + 3 < 2 ^ 32"
  shows "unat ((word_of_nat n + 3) div 4 :: 32 word) = c"
    and "unat (word_of_nat n - 4 * ((word_of_nat n + 3) div 4 - 1) :: 32 word) = n - 4 * (c - 1)"
    and "unat ((word_of_nat n + 3) div 4 - 1 :: 32 word) = c - 1"
    and "0 < n - 4 * (c - 1)" "n - 4 * (c - 1) \<le> 4" "1 \<le> c"
proof -
  have c1: "1 \<le> c" and c4: "4 * (c - 1) < n" and c5: "n \<le> 4 * c" using n by (simp_all add: c_def)
  have w3: "(word_of_nat n + 3 :: 32 word) = word_of_nat (n + 3)" by simp
  have u3: "unat (word_of_nat n + 3 :: 32 word) = n + 3"
  proof -
    have "unat (word_of_nat (n + 3) :: 32 word) = n + 3" using n by (simp only: unat_of_nat) simp
    then show ?thesis by simp
  qed
  have d: "(word_of_nat n + 3) div 4 = (word_of_nat c :: 32 word)"
    by (rule word_unat_eq_iff [THEN iffD2]) (use n in \<open>simp add: unat_div u3 unat_of_nat c_def\<close>)
  show u0: "unat ((word_of_nat n + 3) div 4 :: 32 word) = c" using d n by (simp add: unat_of_nat c_def)
  have m1: "(word_of_nat c - 1 :: 32 word) = word_of_nat (c - 1)" using c1 by simp
  have lt: "c - 1 < 2 ^ 32" "4 * (c - 1) < 2 ^ 32" "n - 4 * (c - 1) < 2 ^ 32" using c4 n by simp_all
  show "unat ((word_of_nat n + 3) div 4 - 1 :: 32 word) = c - 1"
    unfolding d m1 using lt by (simp only: unat_of_nat) simp
  have e: "(4 * word_of_nat (c - 1) :: 32 word) = word_of_nat (4 * (c - 1))" by simp
  have f: "(word_of_nat n - word_of_nat (4 * (c - 1)) :: 32 word) = word_of_nat (n - 4 * (c - 1))"
    using c4 by simp
  show "unat (word_of_nat n - 4 * ((word_of_nat n + 3) div 4 - 1) :: 32 word) = n - 4 * (c - 1)"
    unfolding d m1 e f using lt by (simp only: unat_of_nat) simp
  show "0 < n - 4 * (c - 1)" "n - 4 * (c - 1) \<le> 4" "1 \<le> c" using c1 c4 c5 by simp_all
qed

lemma length_store32 [simp]: "length (store32 le w) = 4"
  by (simp add: store32_def length_le32)

lemma bswap32_bswap32 [simp]: "bswap32 (bswap32 w) = w"
  by (simp add: bswap32_def le32_of_le32 length_le32)

lemma store32_load32: "length bs = 4 \<Longrightarrow> store32 le (load32 le bs) = bs"
  by (simp add: store32_def load32_def le32_of_le32)

lemma drop_check_every_256:
  "snd (drop_check drEn (word_of_nat n)) \<longleftrightarrow> drEn \<and> 256 dvd (n + 1)"
proof -
  have m: "(0xff :: 32 word) = mask 8" by (simp add: mask_eq_exp_minus_1)
  have "(word_of_nat (n + 1) AND mask 8 = (0 :: 32 word)) \<longleftrightarrow> (n + 1) mod 256 = 0"
  proof -
    have "(word_of_nat (n + 1) AND mask 8 :: 32 word) = take_bit 8 (word_of_nat (n + 1))"
      by (simp add: take_bit_eq_mask)
    also have "\<dots> = word_of_nat (take_bit 8 (n + 1))" by (simp add: of_nat_take_bit)
    also have "\<dots> = word_of_nat ((n + 1) mod 256)" by (simp add: take_bit_eq_mod)
    finally have e: "(word_of_nat (n + 1) AND mask 8 :: 32 word) = word_of_nat ((n + 1) mod 256)" .
    have u: "unat (word_of_nat ((n + 1) mod 256) :: 32 word) = (n + 1) mod 256"
      by (simp only: unat_of_nat) simp
    show ?thesis unfolding e
    proof
      assume "(word_of_nat ((n + 1) mod 256) :: 32 word) = 0"
      then have "unat (word_of_nat ((n + 1) mod 256) :: 32 word) = 0" by simp
      then show "(n + 1) mod 256 = 0" using u by simp
    next
      assume "(n + 1) mod 256 = 0"
      then show "(word_of_nat ((n + 1) mod 256) :: 32 word) = 0" by simp
    qed
  qed
  then show ?thesis unfolding drop_check_def m by (simp add: dvd_eq_mod_eq_0 add.commute)
qed

text \<open>The longest vector the driver reports leaves room for exactly two
  vectors and one header word in the FIFO.\<close>

theorem maxVecOf_fits:
  assumes "fifoWords h c \<noteq> 0"
  shows "2 * unat (maxVecOf h c) + 4 = 4 * unat (fifoWords h c)"
proof -
  define M where "M = unat (fifoWords h c)"
  have M1: "1 \<le> M" using assms by (simp add: M_def unat_gt_0 Suc_le_eq)
  have M32: "M < 2 ^ 32" unfolding M_def using unsigned_less [of "fifoWords h c"] by simp
  have u64: "unat (ucast (fifoWords h c) :: 64 word) = M" using M32 by (simp add: M_def unsigned_ucast_eq take_bit_nat_eq_self)
  have nz: "(ucast (fifoWords h c) :: 64 word) \<noteq> 0" using u64 M1 by (metis unat_0 not_one_le_zero)
  have um: "unat ((ucast (fifoWords h c) :: 64 word) - 1) = M - 1" using unat_minus_one [OF nz] u64 by simp
  define w where "w = (ucast (fifoWords h c) :: 64 word) - 1"
  have uw: "unat w = M - 1" using um by (simp add: w_def)
  have "unat w * unat (4 :: 64 word) < 2 ^ 64" using uw M32 by simp
  then have "unat (w * 4) = unat w * unat (4 :: 64 word)" using unat_mult_lem [of w "4 :: 64 word"] by simp
  then have "unat (w * 4) = (M - 1) * 4" using uw by simp
  moreover have "maxVecOf h c = w * 4 div 2" by (simp only: maxVecOf_def Let_def w_def)
  ultimately have "unat (maxVecOf h c) = (M - 1) * 4 div 2" by (simp add: unat_div)
  then show ?thesis using M1 by (simp add: M_def [symmetric])
qed

text \<open>For a size field that reads 0 the \<open>unsigned long\<close> subtraction wraps, and
  the vector limit is \<open>2^63 - 2\<close> bytes.\<close>

lemma maxVecOf_zero_wraps: "fifoWords h c = 0 \<Longrightarrow> maxVecOf h c = 2 ^ 63 - 2"
  by (simp add: maxVecOf_def)


lemma maxVecOf_fits_witness:
  "fifoWords demo_hw 0x100 \<noteq> 0 \<and> fifoWords demo_hw 0x100 = 256 \<and> maxVecOf demo_hw 0x100 = 510 \<and>
   2 * unat (maxVecOf demo_hw 0x100) + 4 = 4 * unat (fifoWords demo_hw 0x100)"
proof -
  have f: "fifoWords demo_hw 0x100 = 256" by (simp add: fifoWords_def demo_hw_def)
  have m: "maxVecOf demo_hw 0x100 = 510" by (simp add: maxVecOf_def f)
  show ?thesis using maxVecOf_fits [of demo_hw "0x100"] f m by simp
qed

lemma null_bus_returns: "tmem_xfer (null_bus h) s tx hb hs rb n \<noteq> None"
proof -
  have p: "poll (null_bus h) t = Some (t, Inr 0)" for t :: "unit tmem_drv"
  proof -
    have "t\<lparr>axis_driver.more := (axis_driver.more t)\<lparr>dev_m := ()\<rparr>\<rparr> = t"
      using set_dev_simps(3) [of t] unfolding set_dev_def by simp
    then show ?thesis by (subst poll.simps) (simp add: i32_def null_bus_def)
  qed
  show ?thesis by (simp add: tmem_xfer_def tmem_recv_def p Let_def split: prod.split)
qed

lemma tmem_xfer_frame_null_bus:
  "xfer_frame (\<lambda>s tx hb hs rb n. the (tmem_xfer (null_bus demo_hw) s tx hb hs rb n))"
  using null_bus_returns by (intro tmem_xfer_frame [where env = "null_bus demo_hw"]) auto

end
