(* ===== verification/TmemFifo.thy ===== *)
theory TmemFifo
  imports AxisTmem
begin

text \<open>
  A model of the firmware FIFO behind the two registers of the AXI-stream-to-TMEM
  transport, and what the transfer of \<open>xvcDrvAxisTmem.cc\<close> does on it: the
  loops of \<open>xfer()\<close> on the device, the status register and the polling loop,
  the request as it reaches the firmware, the reply as it reaches the caller,
  the error paths (short reply, fault injection, a firmware that never answers)
  and the zero-length request.
\<close>

unbundle bit_operations_syntax

subsection \<open>A model of the firmware FIFO\<close>

text \<open>To state what a transfer does, a device behind the two registers: writes
  to the data register queue words of the outgoing frame; a control write with
  the end-of-frame bit hands the frame to the JTAG engine (\<open>peer\<close>), whose
  reply words queue up for reading; reads of the data register pop them (an
  empty FIFO reads as 0 and counts an underflow); the status register shows
  the empty flag and the word count. \<open>b\<close> is the device's base address.\<close>

record fifo_dev =
  txq_d :: "32 word list"
  rxq_d :: "32 word list"
  frames_d :: "32 word list list"
  under_d :: nat
  cfg_d :: "32 word"

definition fifo_csr :: "tmem_hw \<Rightarrow> fifo_dev \<Rightarrow> 32 word" where
  "fifo_csr h d =
     (cfg_d d AND NOT (FIFO_CSR_EMPI h OR push_bit (FIFO_CSR_NWRDS h) (FIFO_CSR_NWRDM h))) OR
     (if rxq_d d = [] then FIFO_CSR_EMPI h else 0) OR push_bit (FIFO_CSR_NWRDS h) (word_of_nat (length (rxq_d d)))"

definition fifo_read :: "tmem_hw \<Rightarrow> nat \<Rightarrow> fifo_dev \<Rightarrow> nat \<Rightarrow> nat \<Rightarrow> fifo_dev \<times> 32 word" where
  "fifo_read h b d sp a =
     (if a = b + FIFO_DAT_IDX h * 4
      then (case rxq_d d of [] \<Rightarrow> (d\<lparr>under_d := Suc (under_d d)\<rparr>, 0) | w # ws \<Rightarrow> (d\<lparr>rxq_d := ws\<rparr>, w))
      else if a = b + FIFO_CSR_IDX h * 4 then (d, fifo_csr h d)
      else if a = b + FIFO_MAGIC_IDX h * 4 then (d, MAGIC h)
      else (d, 0))"

definition fifo_write ::
  "tmem_hw \<Rightarrow> (32 word list \<Rightarrow> 32 word list) \<Rightarrow> nat \<Rightarrow> fifo_dev \<Rightarrow> nat \<Rightarrow> nat \<Rightarrow> 32 word \<Rightarrow> fifo_dev" where
  "fifo_write h peer b d sp a v =
     (if a = b + FIFO_DAT_IDX h * 4 then d\<lparr>txq_d := txq_d d @ [v]\<rparr>
      else if a = b + FIFO_CSR_IDX h * 4
      then (if v AND FIFO_CSR_EOFO h \<noteq> 0
            then d\<lparr>txq_d := [], rxq_d := rxq_d d @ peer (txq_d d), frames_d := frames_d d @ [txq_d d]\<rparr>
            else if v AND FIFO_CSR_RST h \<noteq> 0 then d\<lparr>txq_d := [], rxq_d := []\<rparr> else d)
      else d)"

definition fifo_env :: "tmem_hw \<Rightarrow> bool \<Rightarrow> (32 word list \<Rightarrow> 32 word list) \<Rightarrow> nat \<Rightarrow> fifo_dev tmem_env" where
  "fifo_env h le peer b =
     \<lparr>hw = h, toscaRead = fifo_read h b, toscaWrite = fifo_write h peer b, hostLE = le,
      irqWrite = \<lambda>d fd. True, irqRead = \<lambda>d fd. True\<rparr>"

text \<open>The register map the FIFO model needs: distinct register indices, a
  non-zero empty flag below a word-count field of \<open>k\<close> bits.\<close>

definition hw_ok :: "tmem_hw \<Rightarrow> nat \<Rightarrow> bool" where
  "hw_ok h k \<longleftrightarrow>
     FIFO_DAT_IDX h \<noteq> FIFO_CSR_IDX h \<and> FIFO_MAGIC_IDX h \<noteq> FIFO_DAT_IDX h \<and> FIFO_MAGIC_IDX h \<noteq> FIFO_CSR_IDX h \<and>
     FIFO_CSR_EMPI h \<noteq> 0 \<and> FIFO_CSR_EOFO h \<noteq> 0 \<and> FIFO_CSR_RST h \<noteq> 0 \<and>
     FIFO_CSR_RST h AND FIFO_CSR_EOFO h = 0 \<and> FIFO_CSR_IENI h AND FIFO_CSR_EOFO h = 0 \<and> FIFO_CSR_IENI h AND FIFO_CSR_RST h = 0 \<and>
     unat (FIFO_CSR_EMPI h) < 2 ^ FIFO_CSR_NWRDS h \<and>
     FIFO_CSR_NWRDM h = mask k \<and> FIFO_CSR_NWRDS h + k \<le> 32"

text \<open>The frame a request should become (words of four bytes, the last one
  zero-padded, in the byte order of the FIFO) and the bytes a reply stands for.\<close>

definition pad4 :: "byte list \<Rightarrow> byte list" where
  "pad4 xs = xs @ replicate (4 - length xs) 0"

definition frame :: "bool \<Rightarrow> byte list \<Rightarrow> 32 word list" where
  "frame le txb = map (\<lambda>i. bswap32 (load32 le (pad4 (slice txb (4 * i) 4)))) [0..<(length txb + 3) div 4]"

definition reply_bytes :: "bool \<Rightarrow> 32 word list \<Rightarrow> byte list" where
  "reply_bytes le ws = concat (map (\<lambda>w. store32 le (bswap32 w)) ws)"

text \<open>A fresh FIFO of 1 KiB with interface version 1, and the driver the
  constructor makes for it at base address 0 (see \<open>TmemSession\<close>), for the
  examples.\<close>

definition demo_dev :: fifo_dev where
  "demo_dev = \<lparr>txq_d = [], rxq_d = [], frames_d = [], under_d = 0, cfg_d = 0x110\<rparr>"

definition demo_drv :: "fifo_dev tmem_drv" where
  "demo_drv = JtagDriverAxisToJtag 0 0
     \<lparr>toscaSpace_m = 1, toscaBase_m = 0, irqFd_m = -1, wrdSiz_m = 4, maxVec_m = 510, dev_m = demo_dev\<rparr>"



subsection \<open>Register access on the FIFO model\<close>

lemma fifo_dat_write:
  "toscaBase_m (axis_driver.more s) = b \<Longrightarrow>
   o32 (fifo_env h le peer b) (FIFO_DAT_IDX h) v s = set_dev ((dev_of s)\<lparr>txq_d := txq_d (dev_of s) @ [v]\<rparr>) s"
  by (simp add: o32_dev fifo_env_def fifo_write_def)

lemma fifo_dat_read:
  "toscaBase_m (axis_driver.more s) = b \<Longrightarrow> rxq_d (dev_of s) = w # ws \<Longrightarrow>
   i32 (fifo_env h le peer b) (FIFO_DAT_IDX h) s = (set_dev ((dev_of s)\<lparr>rxq_d := ws\<rparr>) s, w)"
  by (simp add: i32_dev fifo_env_def fifo_read_def)

lemma fifo_dat_read_empty:
  "toscaBase_m (axis_driver.more s) = b \<Longrightarrow> rxq_d (dev_of s) = [] \<Longrightarrow>
   i32 (fifo_env h le peer b) (FIFO_DAT_IDX h) s = (set_dev ((dev_of s)\<lparr>under_d := Suc (under_d (dev_of s))\<rparr>) s, 0)"
  by (simp add: i32_dev fifo_env_def fifo_read_def)

lemma fifo_csr_read:
  "toscaBase_m (axis_driver.more s) = b \<Longrightarrow> FIFO_DAT_IDX h \<noteq> FIFO_CSR_IDX h \<Longrightarrow>
   i32 (fifo_env h le peer b) (FIFO_CSR_IDX h) s = (s, fifo_csr h (dev_of s))"
  by (simp add: i32_dev fifo_env_def fifo_read_def)

lemma fifo_eof_write:
  "toscaBase_m (axis_driver.more s) = b \<Longrightarrow> FIFO_DAT_IDX h \<noteq> FIFO_CSR_IDX h \<Longrightarrow> v AND FIFO_CSR_EOFO h \<noteq> 0 \<Longrightarrow>
   o32 (fifo_env h le peer b) (FIFO_CSR_IDX h) v s =
     set_dev ((dev_of s)\<lparr>txq_d := [], rxq_d := rxq_d (dev_of s) @ peer (txq_d (dev_of s)),
                         frames_d := frames_d (dev_of s) @ [txq_d (dev_of s)]\<rparr>) s"
  by (simp add: o32_dev fifo_env_def fifo_write_def)

subsection \<open>The loops on the FIFO model\<close>

lemma fifo_env_sel [simp]: "hw (fifo_env h le peer b) = h" "hostLE (fifo_env h le peer b) = le"
  by (simp_all add: fifo_env_def)

lemma send_words_fifo:
  "toscaBase_m (axis_driver.more s) = b \<Longrightarrow>
   send_words (fifo_env h le peer b) txb i n s =
     set_dev ((dev_of s)\<lparr>txq_d := txq_d (dev_of s) @
                map (\<lambda>j. bswap32 (load32 le (slice txb (4 * j) 4))) [i..<i + n]\<rparr>) s"
proof (induction n arbitrary: i s)
  case 0
  then show ?case by simp
next
  case (Suc n)
  let ?w = "\<lambda>j. bswap32 (load32 le (slice txb (4 * j) 4))"
  have "send_words (fifo_env h le peer b) txb i (Suc n) s =
        send_words (fifo_env h le peer b) txb (Suc i) n (set_dev ((dev_of s)\<lparr>txq_d := txq_d (dev_of s) @ [?w i]\<rparr>) s)"
    using Suc.prems by (simp add: fifo_dat_write)
  also have "\<dots> = set_dev ((dev_of s)\<lparr>txq_d := txq_d (dev_of s) @ [?w i] @ map ?w [Suc i..<Suc i + n]\<rparr>) s"
    using Suc.prems by (simp add: Suc.IH)
  also have u: "[i..<i + Suc n] = i # [Suc i..<Suc i + n]"
    by (subst upt_conv_Cons) simp_all
  have "[?w i] @ map ?w [Suc i..<Suc i + n] = map ?w [i..<i + Suc n]"
    unfolding u by simp
  finally show ?case .
qed

lemma reply_bytes_simps [simp]:
  "reply_bytes le [] = []" "reply_bytes le (w # ws) = store32 le (bswap32 w) @ reply_bytes le ws"
  "reply_bytes le (xs @ ys) = reply_bytes le xs @ reply_bytes le ys"
  by (simp_all add: reply_bytes_def)

lemma length_reply_bytes [simp]: "length (reply_bytes le ws) = 4 * length ws"
  by (induction ws) simp_all

lemma take_reply_bytes: "take (4 * n) (reply_bytes le ws) = reply_bytes le (take n ws)"
proof (induction ws arbitrary: n)
  case Nil
  then show ?case by simp
next
  case (Cons w ws)
  then show ?case by (cases n) simp_all
qed

lemma drop_reply_bytes: "drop (4 * n) (reply_bytes le ws) = reply_bytes le (drop n ws)"
proof (induction ws arbitrary: n)
  case Nil
  then show ?case by simp
next
  case (Cons w ws)
  then show ?case by (cases n) simp_all
qed

lemma read_words_fifo:
  "toscaBase_m (axis_driver.more s) = b \<Longrightarrow> n \<le> length (rxq_d (dev_of s)) \<Longrightarrow>
   read_words (fifo_env h le peer b) n acc s =
     (set_dev ((dev_of s)\<lparr>rxq_d := drop n (rxq_d (dev_of s))\<rparr>) s, acc @ reply_bytes le (take n (rxq_d (dev_of s))))"
proof (induction n arbitrary: acc s)
  case 0
  then show ?case by simp
next
  case (Suc n)
  then obtain w ws where q: "rxq_d (dev_of s) = w # ws" by (cases "rxq_d (dev_of s)") auto
  show ?case
    using Suc.prems q Suc.IH [of "set_dev ((dev_of s)\<lparr>rxq_d := ws\<rparr>) s"]
    by (simp add: fifo_dat_read fifo_env_def [symmetric])
qed

lemma read_hdr_fifo:
  "toscaBase_m (axis_driver.more s) = b \<Longrightarrow> k \<le> length (rxq_d (dev_of s)) \<Longrightarrow> 4 * k \<le> unat got \<Longrightarrow>
   read_hdr (fifo_env h le peer b) k got hb s =
     (set_dev ((dev_of s)\<lparr>rxq_d := drop k (rxq_d (dev_of s))\<rparr>) s,
      hb @ reply_bytes le (take k (rxq_d (dev_of s))), Inr (got - word_of_nat (4 * k)))"
proof (induction k arbitrary: got hb s)
  case 0
  then show ?case by simp
next
  case (Suc k)
  then obtain w ws where q: "rxq_d (dev_of s) = w # ws" by (cases "rxq_d (dev_of s)") auto
  have g4: "\<not> got < 4" using Suc.prems(3) by (simp add: word_less_nat_alt)
  have ug: "unat (got - 4) = unat got - 4" using Suc.prems(3) by (simp add: unat_sub word_le_nat_alt)
  have "got - 4 - word_of_nat (4 * k) = got - word_of_nat (4 * Suc k)" by simp
  then show ?case
    using Suc.prems q g4 ug Suc.IH [of "set_dev ((dev_of s)\<lparr>rxq_d := ws\<rparr>) s" "got - 4"]
    by (simp add: fifo_dat_read fifo_env_def [symmetric])
qed

lemma discard_fifo:
  "toscaBase_m (axis_driver.more s) = b \<Longrightarrow> (got - i + 3) div 4 \<le> length (rxq_d (dev_of s)) \<Longrightarrow>
   discard (fifo_env h le peer b) i got s = set_dev ((dev_of s)\<lparr>rxq_d := drop ((got - i + 3) div 4) (rxq_d (dev_of s))\<rparr>) s"
proof (induction "fifo_env h le peer b" i got s rule: discard.induct)
  case (1 i got s)
  show ?case
  proof (cases "i < got")
    case True
    then obtain w ws where q: "rxq_d (dev_of s) = w # ws"
      using "1.prems"(2) by (cases "rxq_d (dev_of s)") auto
    have e: "(got - i + 3) div 4 = Suc ((got - (i + 4) + 3) div 4)"
    proof (cases "got - i \<le> 4")
      case True
      then show ?thesis using \<open>i < got\<close> by (simp add: div_nat_eqI)
    next
      case False
      then obtain e where "got - i = e + 5" by (metis le_add_diff_inverse2 not_le Suc_leI eval_nat_numeral(3))
      then show ?thesis by simp
    qed
    have "discard (fifo_env h le peer b) i got s =
          discard (fifo_env h le peer b) (i + 4) got (set_dev ((dev_of s)\<lparr>rxq_d := ws\<rparr>) s)"
      using True "1.prems"(1) q by (subst discard.simps) (simp add: fifo_dat_read fifo_env_def [symmetric])
    also have "\<dots> = set_dev ((dev_of s)\<lparr>rxq_d := drop ((got - (i + 4) + 3) div 4) ws\<rparr>) s"
      using "1.hyps" [OF True] "1.prems" True q e
      by (simp add: fifo_dat_read fifo_env_def [symmetric])
    finally show ?thesis unfolding q e by simp
  next
    case False
    then show ?thesis by (subst discard.simps) simp
  qed
qed

subsection \<open>The status register\<close>

lemma push_bit_and_low: "unat (e :: 32 word) < 2 ^ k \<Longrightarrow> push_bit k n AND e = 0"
  by (rule bit_word_eqI) (auto simp: bit_and_iff bit_push_bit_iff dest: word_bit_bound [of e k])

lemma fifo_csr_empi:
  assumes "hw_ok h k"
  shows "(fifo_csr h d AND FIFO_CSR_EMPI h \<noteq> 0) \<longleftrightarrow> rxq_d d = []"
proof -
  have z: "push_bit (FIFO_CSR_NWRDS h) (word_of_nat (length (rxq_d d))) AND FIFO_CSR_EMPI h = 0"
    using assms by (intro push_bit_and_low) (simp add: hw_ok_def)
  have zb: "bit (push_bit (FIFO_CSR_NWRDS h) (word_of_nat (length (rxq_d d)) :: 32 word)) n \<Longrightarrow> bit (FIFO_CSR_EMPI h) n \<Longrightarrow> False" for n
    using arg_cong [OF z, of "\<lambda>w. bit w n"] by (simp add: bit_and_iff)
  have "fifo_csr h d AND FIFO_CSR_EMPI h = (if rxq_d d = [] then FIFO_CSR_EMPI h else 0)"
    unfolding fifo_csr_def by (rule bit_word_eqI) (auto simp: bit_and_iff bit_or_iff bit_not_iff dest: zb)
  then show ?thesis using assms by (simp add: hw_ok_def)
qed

lemma fifo_csr_count:
  assumes ok: "hw_ok h k" and n: "length (rxq_d d) < 2 ^ k"
  shows "drop_bit (FIFO_CSR_NWRDS h) (fifo_csr h d) AND FIFO_CSR_NWRDM h = word_of_nat (length (rxq_d d))"
proof -
  let ?s = "FIFO_CSR_NWRDS h" and ?W = "word_of_nat (length (rxq_d d)) :: 32 word"
  have k: "FIFO_CSR_NWRDM h = mask k" "?s + k \<le> 32" "unat (FIFO_CSR_EMPI h) < 2 ^ ?s"
    using ok by (simp_all add: hw_ok_def)
  have "(2::nat) ^ k \<le> 2 ^ 32" using k(2) by (intro power_increasing) simp_all
  then have uw: "unat ?W < 2 ^ k" using n by (simp add: unat_of_nat)
  have wb: "bit ?W j \<Longrightarrow> j < k" for j by (rule word_bit_bound [OF uw])
  have eb: "bit (FIFO_CSR_EMPI h) j \<Longrightarrow> j < ?s" for j by (rule word_bit_bound [OF k(3)])
  show ?thesis
    unfolding fifo_csr_def k(1)
    by (rule bit_word_eqI) (use k(2) in \<open>auto simp: bit_and_iff bit_or_iff bit_not_iff bit_push_bit_iff bit_drop_bit_eq bit_mask_iff dest: wb eb\<close>)
qed

lemma wait_fifo [simp]: "wait (fifo_env h le peer b) s = Inr s"
  by (simp add: wait_def fifo_env_def Let_def)

lemma poll_fifo_ready:
  assumes "toscaBase_m (axis_driver.more s) = b" "hw_ok h k" "rxq_d (dev_of s) \<noteq> []"
  shows "poll (fifo_env h le peer b) s = Some (s, Inr (fifo_csr h (dev_of s)))"
proof -
  have "FIFO_DAT_IDX h \<noteq> FIFO_CSR_IDX h" using assms(2) by (simp add: hw_ok_def)
  then show ?thesis
    using assms fifo_csr_empi [OF assms(2)] by (subst poll.simps) (simp add: fifo_csr_read)
qed

lemma poll_fifo_hangs:
  assumes b: "toscaBase_m (axis_driver.more s) = b" and ok: "hw_ok h k" and e: "rxq_d (dev_of s) = []"
  shows "poll (fifo_env h le peer b) s = None"
proof (rule ccontr)
  assume "poll (fifo_env h le peer b) s \<noteq> None"
  then obtain r where ret: "poll (fifo_env h le peer b) s = Some r" by blast
  have di: "FIFO_DAT_IDX h \<noteq> FIFO_CSR_IDX h" using ok by (simp add: hw_ok_def)
  have "env = fifo_env h le peer b \<longrightarrow> toscaBase_m (axis_driver.more t) = b \<longrightarrow> rxq_d (dev_of t) \<noteq> []"
    if "poll env t = Some r" for env t r
  proof (rule poll.raw_induct [where P = "\<lambda>env t r. env = fifo_env h le peer b \<longrightarrow>
            toscaBase_m (axis_driver.more t) = b \<longrightarrow> rxq_d (dev_of t) \<noteq> []", OF _ that])
    fix f env t r
    assume IH: "\<And>env t r. f env t = Some r \<Longrightarrow> env = fifo_env h le peer b \<longrightarrow>
                  toscaBase_m (axis_driver.more t) = b \<longrightarrow> rxq_d (dev_of t) \<noteq> []"
      and eq: "(case i32 env (FIFO_CSR_IDX (hw env)) t of
                 (s1, csr) \<Rightarrow>
                   if csr AND FIFO_CSR_EMPI (hw env) \<noteq> 0
                   then (case wait env s1 of Inl e \<Rightarrow> Some (s1, Inl e) | Inr s2 \<Rightarrow> f env s2)
                   else Some (s1, Inr csr)) = Some r"
    show "env = fifo_env h le peer b \<longrightarrow> toscaBase_m (axis_driver.more t) = b \<longrightarrow> rxq_d (dev_of t) \<noteq> []"
    proof (intro impI)
      assume env: "env = fifo_env h le peer b" and tb: "toscaBase_m (axis_driver.more t) = b"
      show "rxq_d (dev_of t) \<noteq> []"
      proof
        assume t0: "rxq_d (dev_of t) = []"
        then have "f env t = Some r"
          using eq env tb di fifo_csr_empi [OF ok, of "dev_of t"] by (simp add: fifo_csr_read)
        then show False using IH env tb t0 by blast
      qed
    qed
  qed
  then show False using ret b e by blast
qed

lemma send_words_irq: "send_words (env\<lparr>irqWrite := w, irqRead := r\<rparr>) txb i n s = send_words env txb i n s"
  by (induction n arbitrary: i s) (simp_all add: o32_def)

lemma tmem_send_irq: "tmem_send (env\<lparr>irqWrite := w, irqRead := r\<rparr>) txb s = tmem_send env txb s"
  by (simp add: tmem_send_def Let_def send_words_irq o32_def i32_def)

lemma poll_fifo_irq_fails:
  assumes b: "toscaBase_m (axis_driver.more s) = b" and ok: "hw_ok h k" and e: "rxq_d (dev_of s) = []"
    and fd: "0 \<le> irqFd_m (axis_driver.more s)"
  shows "poll ((fifo_env h le peer b)\<lparr>irqWrite := \<lambda>d fd. False\<rparr>) s = Some (s, Inl (SysErr ''Unable to write to IRQ descriptor''))"
proof -
  have di: "FIFO_DAT_IDX h \<noteq> FIFO_CSR_IDX h" using ok by (simp add: hw_ok_def)
  have "i32 ((fifo_env h le peer b)\<lparr>irqWrite := \<lambda>d fd. False\<rparr>) (FIFO_CSR_IDX h) s = (s, fifo_csr h (dev_of s))"
    using fifo_csr_read [OF b di, of le peer] by (simp add: i32_def fifo_env_def)
  then show ?thesis
    using e fd fifo_csr_empi [OF ok, of "dev_of s"] by (subst poll.simps) (simp add: wait_def fifo_env_def)
qed

subsection \<open>Sending\<close>

lemma length_slice_le: "length (slice xs i n) = min n (length xs - i)"
  by (simp add: slice_def)

lemma frame_split:
  fixes txb :: "byte list"
  defines "n \<equiv> length txb"
  defines "c \<equiv> (n + 3) div 4"
  assumes "0 < n"
  shows "frame le txb =
           map (\<lambda>j. bswap32 (load32 le (slice txb (4 * j) 4))) [0..<c - 1] @
           [bswap32 (load32 le (take (n - 4 * (c - 1)) (drop (4 * (c - 1)) txb) @ replicate (4 - (n - 4 * (c - 1))) 0))]"
proof -
  obtain m where m: "n = Suc m" using assms(3) by (cases n) auto
  have cm: "c = Suc (m div 4)" unfolding c_def m by simp
  have mm: "m = 4 * (m div 4) + m mod 4" "m mod 4 < 4" by simp_all
  have c1: "c = Suc (c - 1)" and lt: "4 * (c - 1) < n" unfolding cm m using mm by simp_all
  have le: "n \<le> 4 * c" unfolding cm m mult_Suc_right using mm by linarith
  have full: "pad4 (slice txb (4 * j) 4) = slice txb (4 * j) 4" if "j < c - 1" for j
  proof -
    have "4 * j + 4 \<le> n" using that lt by simp
    then show ?thesis by (simp add: pad4_def length_slice_le n_def)
  qed
  have last: "pad4 (slice txb (4 * (c - 1)) 4) = take (n - 4 * (c - 1)) (drop (4 * (c - 1)) txb) @ replicate (4 - (n - 4 * (c - 1))) 0"
    using le lt by (simp add: pad4_def slice_def n_def min_def)
  have "[0..<c] = [0..<c - 1] @ [c - 1]" using c1 by (metis upt_Suc_append zero_le)
  then show ?thesis using full last by (simp add: frame_def c_def n_def)
qed

lemma and_or_self: "(c OR e) AND e = (e :: 32 word)"
  by (rule bit_word_eqI) (auto simp: bit_and_iff bit_or_iff)

lemma tmem_send_fifo:
  assumes b: "toscaBase_m (axis_driver.more s) = b" and ok: "hw_ok h k"
    and tx: "0 < length txb" "length txb + 3 < 2 ^ 32"
  shows "tmem_send (fifo_env h le peer b) txb s =
           set_dev ((dev_of s)\<lparr>txq_d := [], rxq_d := rxq_d (dev_of s) @ peer (txq_d (dev_of s) @ frame le txb),
                               frames_d := frames_d (dev_of s) @ [txq_d (dev_of s) @ frame le txb]\<rparr>) s"
proof -
  define n where "n = length txb"
  define c where "c = (n + 3) div 4"
  have tc: "unat (word_of_nat n - 4 * ((word_of_nat n + 3) div 4 - 1) :: 32 word) = n - 4 * (c - 1)"
    "unat ((word_of_nat n + 3) div 4 - 1 :: 32 word) = c - 1" "0 < n - 4 * (c - 1)"
    using tx_counts [of n] tx by (simp_all add: n_def c_def)
  have lb: "(word_of_nat n - 4 * ((word_of_nat n + 3) div 4 - 1) :: 32 word) \<noteq> 0"
    using tc(1,3) by (metis unat_0 less_irrefl)
  have di: "FIFO_DAT_IDX h \<noteq> FIFO_CSR_IDX h" "FIFO_CSR_EOFO h \<noteq> 0" using ok by (simp_all add: hw_ok_def)
  have fs: "frame le txb =
           map (\<lambda>j. bswap32 (load32 le (slice txb (4 * j) 4))) [0..<c - 1] @
           [bswap32 (load32 le (take (n - 4 * (c - 1)) (drop (4 * (c - 1)) txb) @ replicate (4 - (n - 4 * (c - 1))) 0))]"
    using frame_split [of txb le] tx by (simp add: n_def c_def)
  show ?thesis
    unfolding tmem_send_def Let_def n_def [symmetric]
    using b di lb tc fs
    by (simp add: send_words_fifo fifo_dat_write fifo_csr_read fifo_eof_write and_or_self split: prod.splits)
qed

subsection \<open>Receiving\<close>

lemma take_reply_bytes_split:
  assumes "q < length ws" "r < 4"
  shows "take (4 * q + r) (reply_bytes le ws) = reply_bytes le (take q ws) @ take r (store32 le (bswap32 (ws ! q)))"
proof -
  have "ws = take q ws @ ws ! q # drop (Suc q) ws" using assms(1) by (simp add: id_take_nth_drop)
  then have "reply_bytes le ws = reply_bytes le (take q ws) @ store32 le (bswap32 (ws ! q)) @ reply_bytes le (drop (Suc q) ws)"
    by (metis reply_bytes_simps(2,3))
  then show ?thesis using assms by (simp add: min_def)
qed

lemma tmem_payload_fifo:
  assumes b: "toscaBase_m (axis_driver.more s) = b" and g: "unat got = 4 * length (rxq_d (dev_of s))"
  shows "tmem_payload (fifo_env h le peer b) got sz s =
           (let (dr, dropped) = drop_check (drEn_m s) (drop_m s);
                s' = (set_dev ((dev_of s)\<lparr>rxq_d := []\<rparr>) s)\<lparr>drop_m := dr\<rparr>
            in (s', take (min (unat got) sz) (reply_bytes le (rxq_d (dev_of s))),
                if dropped then Inl TimeoutErr else Inr (sint (word_of_nat (min (unat got) sz) :: 32 word))))"
proof -
  define R where "R = rxq_d (dev_of s)"
  define mn where "mn = min (unat got) sz"
  define q where "q = mn div 4"
  have mnq: "mn = 4 * q + mn mod 4" "mn mod 4 < 4" "mn \<le> 4 * length R" using g by (simp_all add: q_def mn_def R_def)
  have ql: "q \<le> length R" using mnq by linarith
  have rw: "read_words (fifo_env h le peer b) q [] s =
              (set_dev ((dev_of s)\<lparr>rxq_d := drop q R\<rparr>) s, reply_bytes le (take q R))"
    using read_words_fifo [OF b, of q h le peer "[]"] ql by (simp add: R_def)
  have rem: "mn - 4 * q = mn mod 4" using mnq by linarith
  have tail: "discard (fifo_env h le peer b) i (unat got) t = set_dev ((dev_of s)\<lparr>rxq_d := []\<rparr>) s \<and>
              take mn (reply_bytes le R) = d"
    if t: "t = set_dev ((dev_of s)\<lparr>rxq_d := drop m R\<rparr>) s" and mi: "i = 4 * m" "m \<le> length R"
      and d: "take mn (reply_bytes le R) = d" for i t m d
  proof -
    have "(unat got - i + 3) div 4 = length R - m" using g mi by (simp add: R_def)
    then show ?thesis using discard_fifo [of t b "unat got" i h le peer] t b d by simp
  qed
  show ?thesis
  proof (cases "mn mod 4 = 0")
    case True
    have d: "take mn (reply_bytes le R) = reply_bytes le (take q R)"
      using mnq True take_reply_bytes [of q le R] by simp
    show ?thesis
      using tail [OF refl, of "4 * q" q] ql d rw rem True
      unfolding tmem_payload_def Let_def mn_def [symmetric] q_def [symmetric]
      by (simp add: R_def split: prod.splits)
  next
    case False
    have qq: "q < length R" using mnq False by linarith
    have dq: "drop q R = R ! q # drop (Suc q) R" using qq by (simp add: Cons_nth_drop_Suc)
    have rd: "i32 (fifo_env h le peer b) (FIFO_DAT_IDX h) (set_dev ((dev_of s)\<lparr>rxq_d := drop q R\<rparr>) s) =
                (set_dev ((dev_of s)\<lparr>rxq_d := drop (Suc q) R\<rparr>) s, R ! q)"
      using b dq by (simp add: fifo_dat_read)
    have d: "take mn (reply_bytes le R) = reply_bytes le (take q R) @ take (mn mod 4) (store32 le (bswap32 (R ! q)))"
      using take_reply_bytes_split [OF qq mnq(2), of le] mnq(1) by simp
    show ?thesis
      using tail [OF refl, of "4 * q + 4" "Suc q"] qq d rw rd rem False
      unfolding tmem_payload_def Let_def mn_def [symmetric] q_def [symmetric]
      by (simp add: R_def split: prod.splits)
  qed
qed

lemma tmem_recv_fifo:
  assumes b: "toscaBase_m (axis_driver.more s) = b" and ok: "hw_ok h k" and w4: "wrdSiz_m (axis_driver.more s) = 4"
    and R: "rxq_d (dev_of s) \<noteq> []" "length (rxq_d (dev_of s)) < 2 ^ k" "4 * length (rxq_d (dev_of s)) < 2 ^ 32"
    and hs: "hsize mod 4 = 0" "hsize \<le> 4 * length (rxq_d (dev_of s))"
  shows "tmem_recv (fifo_env h le peer b) hsize sz s =
           Some (let (dr, dropped) = drop_check (drEn_m s) (drop_m s);
                     s' = (set_dev ((dev_of s)\<lparr>rxq_d := []\<rparr>) s)\<lparr>drop_m := dr\<rparr>;
                     m = min (4 * length (rxq_d (dev_of s)) - hsize) sz
                 in (s', take hsize (reply_bytes le (rxq_d (dev_of s))),
                     take m (drop hsize (reply_bytes le (rxq_d (dev_of s)))),
                     if dropped then Inl TimeoutErr else Inr (sint (word_of_nat m :: 32 word))))"
proof -
  define R where "R = rxq_d (dev_of s)"
  define L where "L = length R"
  define k' where "k' = hsize div 4"
  have hk: "hsize = 4 * k'" using hs(1) div_mult_mod_eq [of hsize 4] by (simp add: k'_def)
  have cnt: "drop_bit (FIFO_CSR_NWRDS h) (fifo_csr h (dev_of s)) AND FIFO_CSR_NWRDM h = word_of_nat L"
    using fifo_csr_count [OF ok R(2)] by (simp add: L_def R_def)
  have g: "(word_of_nat L * word_of_nat 4 :: 32 word) = word_of_nat (4 * L)" by simp
  have ug: "unat (word_of_nat (4 * L) :: 32 word) = 4 * L" using R(3) by (simp only: unat_of_nat) (simp add: L_def R_def)
  have g0: "(word_of_nat (4 * L) :: 32 word) \<noteq> 0"
    using ug R(1) by (metis L_def R_def length_greater_0_conv mult_is_0 unat_0 zero_neq_numeral neq0_conv)
  have rh: "read_hdr (fifo_env h le peer b) k' (word_of_nat (4 * L)) [] s =
              (set_dev ((dev_of s)\<lparr>rxq_d := drop k' R\<rparr>) s,
               reply_bytes le (take k' R), Inr (word_of_nat (4 * L) - word_of_nat hsize))"
    using read_hdr_fifo [OF b, of k' "word_of_nat (4 * L)" h le peer "[]"] hs(2) hk ug
    by (simp add: R_def L_def)
  have ug': "unat (word_of_nat (4 * L) - word_of_nat hsize :: 32 word) = 4 * length (drop k' R)"
  proof -
    have "(word_of_nat (4 * L) - word_of_nat hsize :: 32 word) = word_of_nat (4 * L - hsize)"
      using hs(2) by (simp add: L_def R_def)
    moreover have "4 * L - hsize < 2 ^ 32" using R(3) by (simp add: L_def R_def)
    ultimately show ?thesis using hk by (simp only: unat_of_nat) (simp add: L_def)
  qed
  have u2: "unat (word_of_nat (4 * L) - word_of_nat hsize :: 32 word) = 4 * L - hsize"
    using ug' hk by (simp add: L_def)
  have b6: "toscaBase_m (axis_driver.more (set_dev ((dev_of s)\<lparr>rxq_d := drop k' R\<rparr>) s)) = b" using b by simp
  have g6: "unat (word_of_nat (4 * L) - word_of_nat hsize :: 32 word) =
              4 * length (rxq_d (dev_of (set_dev ((dev_of s)\<lparr>rxq_d := drop k' R\<rparr>) s)))" using ug' by simp
  have d6: "rxq_d (dev_of (set_dev ((dev_of s)\<lparr>rxq_d := drop k' R\<rparr>) s)) = drop k' R" by simp
  have pl: "tmem_payload (fifo_env h le peer b) (word_of_nat (4 * L) - word_of_nat hsize) sz
              (set_dev ((dev_of s)\<lparr>rxq_d := drop k' R\<rparr>) s) =
            (let (dr, dropped) = drop_check (drEn_m s) (drop_m s);
                 s' = (set_dev ((dev_of s)\<lparr>rxq_d := []\<rparr>) s)\<lparr>drop_m := dr\<rparr>
             in (s', take (min (4 * L - hsize) sz) (reply_bytes le (drop k' R)),
                 if dropped then Inl TimeoutErr else Inr (sint (word_of_nat (min (4 * L - hsize) sz) :: 32 word))))"
    using tmem_payload_fifo [OF b6 g6, of h le peer sz] unfolding u2 d6 by simp
  have gt: "(drop_bit (FIFO_CSR_NWRDS h) (fifo_csr h (dev_of s)) AND FIFO_CSR_NWRDM h) *
              word_of_nat (wrdSiz_m (axis_driver.more s)) = (word_of_nat (4 * L) :: 32 word)"
    using cnt w4 by simp
  have t1: "take hsize (reply_bytes le R) = reply_bytes le (take k' R)"
    and t2: "drop hsize (reply_bytes le R) = reply_bytes le (drop k' R)"
    unfolding hk by (rule take_reply_bytes, rule drop_reply_bytes)
  have "tmem_recv (fifo_env h le peer b) hsize sz s =
          (case tmem_payload (fifo_env h le peer b) (word_of_nat (4 * L) - word_of_nat hsize) sz
              (set_dev ((dev_of s)\<lparr>rxq_d := drop k' R\<rparr>) s) of
             (s', d, r) \<Rightarrow> Some (s', reply_bytes le (take k' R), d, r))"
    unfolding tmem_recv_def poll_fifo_ready [OF b ok R(1)] option.case prod.case sum.case Let_def fifo_env_sel gt
    using g0 rh by (simp add: k'_def split: prod.split)
  then show ?thesis
    unfolding pl R_def [symmetric] L_def [symmetric] t1 t2 by (simp add: Let_def split: prod.splits)
qed

lemma concat_slices: "concat (map (\<lambda>i. slice xs (4 * i) 4) [0..<c]) = take (4 * c) xs"
proof (induction c)
  case 0
  then show ?case by simp
next
  case (Suc c)
  have "take (4 * Suc c) xs = take (4 * c) xs @ take 4 (drop (4 * c) xs)"
    by (simp add: take_add [symmetric] add.commute)
  then show ?case using Suc by (simp add: slice_def)
qed

lemma frame_bytes:
  fixes txb :: "byte list"
  defines "c \<equiv> (length txb + 3) div 4"
  shows "reply_bytes le (frame le txb) = txb @ replicate (4 * c - length txb) 0"
proof -
  define Z where "Z = txb @ replicate (4 * c - length txb) (0 :: byte)"
  have lz: "length Z = 4 * c" by (simp add: Z_def c_def)
  have p: "pad4 (slice txb (4 * i) 4) = slice Z (4 * i) 4" if "i < c" for i
  proof (cases "4 * i + 4 \<le> length txb")
    case True
    then show ?thesis by (auto simp: Z_def slice_def pad4_def min_def)
  next
    case False
    have "4 * i < length txb" using that by (simp add: c_def)
    then show ?thesis using False that
      by (simp add: Z_def slice_def pad4_def min_def c_def)
  qed
  have "reply_bytes le (frame le txb) = concat (map (\<lambda>i. slice Z (4 * i) 4) [0..<c])"
  proof -
    have "\<forall>i \<in> set [0..<c]. store32 le (bswap32 (bswap32 (load32 le (pad4 (slice txb (4 * i) 4))))) = slice Z (4 * i) 4"
    proof
      fix i assume "i \<in> set [0..<c]"
      then have i: "i < c" by simp
      have "length (slice Z (4 * i) 4) = 4" using i lz by (simp add: length_slice_le)
      then show "store32 le (bswap32 (bswap32 (load32 le (pad4 (slice txb (4 * i) 4))))) = slice Z (4 * i) 4"
        using p [OF i] by (simp add: store32_load32)
    qed
    then have pw: "\<And>i. i \<in> set [0..<c] \<Longrightarrow>
        store32 le (load32 le (pad4 (slice txb (4 * i) 4))) = slice Z (4 * i) 4" by simp
    show ?thesis
      unfolding reply_bytes_def frame_def c_def [symmetric] map_map o_def bswap32_bswap32
      by (rule arg_cong [where f = concat], rule map_cong [OF refl]) (rule pw)
  qed
  then show ?thesis using lz concat_slices [of Z c] by (simp add: Z_def)
qed

lemma read_hdr_fifo_short:
  "toscaBase_m (axis_driver.more s) = b \<Longrightarrow> length (rxq_d (dev_of s)) < k \<Longrightarrow>
   unat got = 4 * length (rxq_d (dev_of s)) \<Longrightarrow>
   read_hdr (fifo_env h le peer b) k got hb s =
     (set_dev ((dev_of s)\<lparr>rxq_d := [], under_d := Suc (under_d (dev_of s))\<rparr>) s,
      hb @ reply_bytes le (rxq_d (dev_of s)), Inl (ProtoErr ''Didn't receive enough data for header''))"
proof (induction k arbitrary: got hb s)
  case 0
  then show ?case by simp
next
  case (Suc k)
  show ?case
  proof (cases "rxq_d (dev_of s)")
    case Nil
    then have "got = 0" using Suc.prems(3) by (simp add: unat_eq_zero)
    moreover have e: "(dev_of s)\<lparr>under_d := Suc (under_d (dev_of s))\<rparr> =
        (dev_of s)\<lparr>rxq_d := [], under_d := Suc (under_d (dev_of s))\<rparr>"
      using Nil by (cases "dev_of s") simp
    ultimately show ?thesis using Suc.prems(1) Nil by (simp add: fifo_dat_read_empty fifo_env_def [symmetric] e [symmetric])
  next
    case (Cons w ws)
    have g4: "\<not> got < 4" using Suc.prems(3) Cons by (simp add: word_less_nat_alt)
    have ug: "unat (got - 4) = 4 * length ws" using Suc.prems(3) Cons by (simp add: unat_sub word_le_nat_alt)
    show ?thesis
      using Suc.prems Cons g4 ug Suc.IH [of "set_dev ((dev_of s)\<lparr>rxq_d := ws\<rparr>) s" "got - 4"
          "hb @ store32 le (bswap32 w)"]
      by (simp add: fifo_dat_read fifo_env_def [symmetric])
  qed
qed

subsection \<open>A whole transfer\<close>

lemma length_frame [simp]: "length (frame le txb) = (length txb + 3) div 4"
  by (simp add: frame_def)

lemma tmem_xfer_fifo:
  assumes ok: "hw_ok h k" and b: "toscaBase_m (axis_driver.more s) = b" and w4: "wrdSiz_m (axis_driver.more s) = 4"
    and q0: "txq_d (dev_of s) = []" "rxq_d (dev_of s) = []"
    and tx: "0 < length txb" "length txb + 3 < 2 ^ 32"
    and rp: "peer (frame le txb) \<noteq> []" "length (peer (frame le txb)) < 2 ^ k" "4 * length (peer (frame le txb)) < 2 ^ 32"
    and hs: "hsize mod 4 = 0" "hsize \<le> 4 * length (peer (frame le txb))"
  shows "tmem_xfer (fifo_env h le peer b) s txb hdbuf hsize rxb sz =
           Some (let R = peer (frame le txb);
                     (dr, dropped) = drop_check (drEn_m s) (drop_m s);
                     s' = (set_dev ((dev_of s)\<lparr>frames_d := frames_d (dev_of s) @ [frame le txb]\<rparr>) s)\<lparr>drop_m := dr\<rparr>;
                     m = min (4 * length R - hsize) sz
                 in (s', blit hdbuf 0 (take hsize (reply_bytes le R)), blit rxb 0 (take m (drop hsize (reply_bytes le R))),
                     if dropped then Inl TimeoutErr else Inr (sint (word_of_nat m :: 32 word))))"
proof -
  define s4 where "s4 = set_dev ((dev_of s)\<lparr>txq_d := [], rxq_d := peer (frame le txb),
                               frames_d := frames_d (dev_of s) @ [frame le txb]\<rparr>) s"
  have snd: "tmem_send (fifo_env h le peer b) txb s = s4"
    using tmem_send_fifo [OF b ok tx, of le peer] q0 by (simp add: s4_def)
  have b4: "toscaBase_m (axis_driver.more s4) = b" and w44: "wrdSiz_m (axis_driver.more s4) = 4"
    and r4: "rxq_d (dev_of s4) = peer (frame le txb)"
    using b w4 by (simp_all add: s4_def)
  have e: "(set_dev ((dev_of s4)\<lparr>rxq_d := []\<rparr>) s4) =
             set_dev ((dev_of s)\<lparr>frames_d := frames_d (dev_of s) @ [frame le txb]\<rparr>) s"
    using q0 by (cases "dev_of s") (simp add: s4_def)
  have d: "drEn_m s4 = drEn_m s" "drop_m s4 = drop_m s" by (simp_all add: s4_def)
  note rv = tmem_recv_fifo [OF b4 ok w44 rp(1) [folded r4] rp(2) [folded r4] rp(3) [folded r4] hs(1) hs(2) [folded r4],
      of le peer sz, unfolded r4 e d]
  show ?thesis
    unfolding tmem_xfer_def snd using hs(1) rv by (simp add: Let_def split: prod.splits)
qed

lemma demo_hw_ok: "hw_ok demo_hw 12"
  by (simp add: hw_ok_def demo_hw_def)

lemma demo_frame: "frame True [1, 2, 3, 4, 5] = [0x01020304, 0x05000000]"
  by (simp add: frame_def pad4_def slice_def bswap32_def load32_def of_le32_def le32_def upt_rec)

text \<open>C18: a transfer hands the firmware exactly the request, as zero-padded
  words in the FIFO's byte order, and leaves the FIFO clean: the reply is read
  or discarded in full and nothing is read beyond it.\<close>

theorem tmem_xfer_sends_frame:
  assumes ok: "hw_ok h k" and b: "toscaBase_m (axis_driver.more s) = b" and w4: "wrdSiz_m (axis_driver.more s) = 4"
    and q0: "txq_d (dev_of s) = []" "rxq_d (dev_of s) = []"
    and tx: "0 < length txb" "length txb + 3 < 2 ^ 32"
    and rp: "peer (frame le txb) \<noteq> []" "length (peer (frame le txb)) < 2 ^ k" "4 * length (peer (frame le txb)) < 2 ^ 32"
    and hs: "hsize mod 4 = 0" "hsize \<le> 4 * length (peer (frame le txb))"
  shows "\<exists>s' hb' rb' r. tmem_xfer (fifo_env h le peer b) s txb hdbuf hsize rxb sz = Some (s', hb', rb', r) \<and>
           frames_d (dev_of s') = frames_d (dev_of s) @ [frame le txb] \<and>
           txq_d (dev_of s') = [] \<and> rxq_d (dev_of s') = [] \<and> under_d (dev_of s') = under_d (dev_of s)"
  using tmem_xfer_fifo [where peer = peer and le = le, OF ok b w4 q0 tx rp hs, of hdbuf rxb sz] q0
  by (simp add: Let_def split: prod.splits)

text \<open>C12: through a firmware that echoes each frame, the bytes a transfer copies
  to the header buffer and to the payload buffer are the request bytes
  (zero-padded to whole words): the first \<open>hsize\<close> of them to the header
  buffer, the next ones, at most \<open>size\<close>, to the payload buffer, whatever the
  host byte order.\<close>

theorem tmem_xfer_loopback:
  assumes ok: "hw_ok h k" and b: "toscaBase_m (axis_driver.more s) = b" and w4: "wrdSiz_m (axis_driver.more s) = 4"
    and q0: "txq_d (dev_of s) = []" "rxq_d (dev_of s) = []" and nd: "\<not> drEn_m s"
    and tx: "0 < length txb" "length txb + 3 < 2 ^ 32" "(length txb + 3) div 4 < 2 ^ k"
    and hs: "hsize mod 4 = 0" "hsize \<le> length txb"
  shows "\<exists>s' got. tmem_xfer (fifo_env h le id b) s txb hdbuf hsize rxb sz =
           Some (s', blit hdbuf 0 (take hsize (txb @ replicate (4 * ((length txb + 3) div 4) - length txb) 0)),
                 blit rxb 0 (drop hsize (take (hsize + sz) (txb @ replicate (4 * ((length txb + 3) div 4) - length txb) 0))),
                 Inr got)"
proof -
  define X where "X = txb @ replicate (4 * ((length txb + 3) div 4) - length txb) (0 :: byte)"
  have lx: "length X = 4 * ((length txb + 3) div 4)" by (simp add: X_def)
  have rb: "reply_bytes le (id (frame le txb)) = X" by (simp add: frame_bytes X_def)
  have c4: "4 * ((length txb + 3) div 4) < 2 ^ 32" using tx(2) by linarith
  have ne: "id (frame le txb) \<noteq> []" using tx(1) by (simp add: frame_def div_greater_zero_iff Suc_le_eq)
  have hs2: "hsize \<le> 4 * length (id (frame le txb))" using hs(2) by simp
  have t: "take (min (length X - hsize) sz) (drop hsize X) = drop hsize (take (hsize + sz) X)"
    by (simp add: drop_take min_def)
  show ?thesis
    using tmem_xfer_fifo [where peer = id and le = le, OF ok b w4 q0 tx(1,2) ne _ _ hs(1) hs2, of hdbuf rxb sz] tx(3) c4 nd rb lx t
    by (simp add: Let_def drop_check_def X_def [symmetric])
qed

text \<open>C23: in interrupt mode, a failing interrupt descriptor turns the wait for a
  reply into an error: when the firmware has not answered and the write to the
  descriptor fails, the transfer fails with "Unable to write to IRQ descriptor"
  instead of waiting.\<close>

theorem tmem_xfer_irq_fails:
  assumes ok: "hw_ok h k" and b: "toscaBase_m (axis_driver.more s) = b"
    and q0: "txq_d (dev_of s) = []" "rxq_d (dev_of s) = []"
    and tx: "0 < length txb" "length txb + 3 < 2 ^ 32" and hs: "hsize mod 4 = 0"
    and fd: "0 \<le> irqFd_m (axis_driver.more s)" and e: "peer (frame le txb) = []"
  shows "tmem_xfer ((fifo_env h le peer b)\<lparr>irqWrite := \<lambda>d fd. False\<rparr>) s txb hdbuf hsize rxb sz =
           Some (set_dev ((dev_of s)\<lparr>frames_d := frames_d (dev_of s) @ [frame le txb]\<rparr>) s, hdbuf, rxb,
                 Inl (SysErr ''Unable to write to IRQ descriptor''))"
proof -
  define s4 where "s4 = set_dev ((dev_of s)\<lparr>txq_d := [], rxq_d := [], frames_d := frames_d (dev_of s) @ [frame le txb]\<rparr>) s"
  have snd: "tmem_send ((fifo_env h le peer b)\<lparr>irqWrite := \<lambda>d fd. False\<rparr>) txb s = s4"
    using tmem_send_irq [where env = "fifo_env h le peer b" and w = "\<lambda>d fd. False" and r = "irqRead (fifo_env h le peer b)"]
      tmem_send_fifo [OF b ok tx, of le peer] q0 e by (simp add: s4_def)
  have p: "poll ((fifo_env h le peer b)\<lparr>irqWrite := \<lambda>d fd. False\<rparr>) s4 = Some (s4, Inl (SysErr ''Unable to write to IRQ descriptor''))"
    using b fd by (intro poll_fifo_irq_fails [OF _ ok]) (simp_all add: s4_def)
  have "s4 = set_dev ((dev_of s)\<lparr>frames_d := frames_d (dev_of s) @ [frame le txb]\<rparr>) s"
    using q0 by (cases "dev_of s") (simp add: s4_def)
  then show ?thesis using hs snd p by (simp add: tmem_xfer_def tmem_recv_def)
qed

lemma tmem_xfer_fifo_hangs:
  assumes ok: "hw_ok h k" and b: "toscaBase_m (axis_driver.more s) = b"
    and q0: "txq_d (dev_of s) = []" "rxq_d (dev_of s) = []"
    and tx: "0 < length txb" "length txb + 3 < 2 ^ 32" and hs: "hsize mod 4 = 0"
    and e: "peer (frame le txb) = []"
  shows "tmem_xfer (fifo_env h le peer b) s txb hdbuf hsize rxb sz = None"
proof -
  have "tmem_send (fifo_env h le peer b) txb s =
          set_dev ((dev_of s)\<lparr>txq_d := [], rxq_d := [], frames_d := frames_d (dev_of s) @ [frame le txb]\<rparr>) s"
    using tmem_send_fifo [OF b ok tx, of le peer] q0 e by simp
  moreover have "poll (fifo_env h le peer b)
      (set_dev ((dev_of s)\<lparr>txq_d := [], rxq_d := [], frames_d := frames_d (dev_of s) @ [frame le txb]\<rparr>) s) = None"
    using b by (intro poll_fifo_hangs [OF _ ok]) simp_all
  ultimately show ?thesis using hs by (simp add: tmem_xfer_def tmem_recv_def)
qed

lemma tmem_xfer_fifo_short:
  assumes ok: "hw_ok h k" and b: "toscaBase_m (axis_driver.more s) = b" and w4: "wrdSiz_m (axis_driver.more s) = 4"
    and q0: "txq_d (dev_of s) = []" "rxq_d (dev_of s) = []"
    and tx: "0 < length txb" "length txb + 3 < 2 ^ 32"
    and rp: "peer (frame le txb) \<noteq> []" "length (peer (frame le txb)) < 2 ^ k" "4 * length (peer (frame le txb)) < 2 ^ 32"
    and hs: "hsize mod 4 = 0" "4 * length (peer (frame le txb)) < hsize"
  shows "tmem_xfer (fifo_env h le peer b) s txb hdbuf hsize rxb sz =
           Some (set_dev ((dev_of s)\<lparr>rxq_d := [], under_d := Suc (under_d (dev_of s)),
                                       frames_d := frames_d (dev_of s) @ [frame le txb]\<rparr>) s,
                 blit hdbuf 0 (reply_bytes le (peer (frame le txb))), rxb,
                 Inl (ProtoErr ''Didn't receive enough data for header''))"
proof -
  define R where "R = peer (frame le txb)"
  define s4 where "s4 = set_dev ((dev_of s)\<lparr>txq_d := [], rxq_d := R, frames_d := frames_d (dev_of s) @ [frame le txb]\<rparr>) s"
  have snd: "tmem_send (fifo_env h le peer b) txb s = s4"
    using tmem_send_fifo [OF b ok tx, of le peer] q0 by (simp add: s4_def R_def)
  have b4: "toscaBase_m (axis_driver.more s4) = b" and r4: "rxq_d (dev_of s4) = R"
    using b by (simp_all add: s4_def)
  have r4ne: "rxq_d (dev_of s4) \<noteq> []" using r4 rp(1) by (simp add: R_def)
  have cnt: "drop_bit (FIFO_CSR_NWRDS h) (fifo_csr h (dev_of s4)) AND FIFO_CSR_NWRDM h = word_of_nat (length R)"
    using fifo_csr_count [OF ok, of "dev_of s4"] rp(2) r4 by (simp add: R_def)
  have gt: "(drop_bit (FIFO_CSR_NWRDS h) (fifo_csr h (dev_of s4)) AND FIFO_CSR_NWRDM h) *
              word_of_nat (wrdSiz_m (axis_driver.more s4)) = (word_of_nat (4 * length R) :: 32 word)"
    using cnt w4 by (simp add: s4_def)
  have ug: "unat (word_of_nat (4 * length R) :: 32 word) = 4 * length R"
    using rp(3) by (simp only: unat_of_nat) (simp add: R_def)
  have g0: "(word_of_nat (4 * length R) :: 32 word) \<noteq> 0"
    using ug rp(1) by (metis R_def length_greater_0_conv mult_is_0 unat_0 zero_neq_numeral neq0_conv)
  have "hsize = 4 * (hsize div 4)" using hs(1) div_mult_mod_eq [of hsize 4] by simp
  then have hk: "length (rxq_d (dev_of s4)) < hsize div 4" using hs(2) r4 by (simp add: R_def)
  have rh: "read_hdr (fifo_env h le peer b) (hsize div 4) (word_of_nat (4 * length R)) [] s4 =
              (set_dev ((dev_of s4)\<lparr>rxq_d := [], under_d := Suc (under_d (dev_of s4))\<rparr>) s4,
               reply_bytes le R, Inl (ProtoErr ''Didn't receive enough data for header''))"
    using read_hdr_fifo_short [OF b4 hk] ug r4 by simp
  have "tmem_xfer (fifo_env h le peer b) s txb hdbuf hsize rxb sz =
          Some (set_dev ((dev_of s4)\<lparr>rxq_d := [], under_d := Suc (under_d (dev_of s4))\<rparr>) s4,
                blit hdbuf 0 (reply_bytes le R), rxb, Inl (ProtoErr ''Didn't receive enough data for header''))"
    unfolding tmem_xfer_def snd tmem_recv_def poll_fifo_ready [OF b4 ok r4ne]
      option.case prod.case sum.case Let_def fifo_env_sel gt
    using hs(1) g0 rh by simp
  moreover have "set_dev ((dev_of s4)\<lparr>rxq_d := [], under_d := Suc (under_d (dev_of s4))\<rparr>) s4 =
      set_dev ((dev_of s)\<lparr>rxq_d := [], under_d := Suc (under_d (dev_of s)), frames_d := frames_d (dev_of s) @ [frame le txb]\<rparr>) s"
    using q0 by (cases "dev_of s") (simp add: s4_def)
  ultimately show ?thesis by (simp add: R_def)
qed

text \<open>C17: the polling loop is the only place a transfer can hang: a transfer
  returns if and only if the firmware answers the frame with at least one word.\<close>

theorem tmem_xfer_returns_iff_reply:
  assumes ok: "hw_ok h k" and b: "toscaBase_m (axis_driver.more s) = b" and w4: "wrdSiz_m (axis_driver.more s) = 4"
    and q0: "txq_d (dev_of s) = []" "rxq_d (dev_of s) = []"
    and tx: "0 < length txb" "length txb + 3 < 2 ^ 32" and hs: "hsize mod 4 = 0"
    and rp: "peer (frame le txb) \<noteq> [] \<longrightarrow>
               length (peer (frame le txb)) < 2 ^ k \<and> 4 * length (peer (frame le txb)) < 2 ^ 32"
  shows "tmem_xfer (fifo_env h le peer b) s txb hdbuf hsize rxb sz \<noteq> None \<longleftrightarrow> peer (frame le txb) \<noteq> []"
proof (cases "peer (frame le txb) = []")
  case True
  then show ?thesis using tmem_xfer_fifo_hangs [where peer = peer and le = le and sz = sz and hdbuf = hdbuf and rxb = rxb, OF ok b q0 tx hs] by simp
next
  case ne: False
  show ?thesis
  proof (cases "hsize \<le> 4 * length (peer (frame le txb))")
    case True
    then show ?thesis using ne rp tmem_xfer_fifo [where peer = peer and le = le and sz = sz and hdbuf = hdbuf and rxb = rxb, OF ok b w4 q0 tx ne _ _ hs]
      by (simp add: Let_def split: prod.splits)
  next
    case False
    then show ?thesis using ne rp tmem_xfer_fifo_short [where peer = peer and le = le and sz = sz and hdbuf = hdbuf and rxb = rxb, OF ok b w4 q0 tx ne _ _ hs]
      by simp
  qed
qed

text \<open>C28: a reply shorter than the header makes the transfer fail with a protocol
  error, after one read of the data register more than the FIFO holds (the
  length is checked after the read).\<close>

theorem tmem_xfer_short_reply:
  assumes ok: "hw_ok h k" and b: "toscaBase_m (axis_driver.more s) = b" and w4: "wrdSiz_m (axis_driver.more s) = 4"
    and q0: "txq_d (dev_of s) = []" "rxq_d (dev_of s) = []"
    and tx: "0 < length txb" "length txb + 3 < 2 ^ 32"
    and rp: "peer (frame le txb) \<noteq> []" "length (peer (frame le txb)) < 2 ^ k" "4 * length (peer (frame le txb)) < 2 ^ 32"
    and hs: "hsize mod 4 = 0" "4 * length (peer (frame le txb)) < hsize"
  shows "\<exists>s' hb'. tmem_xfer (fifo_env h le peer b) s txb hdbuf hsize rxb sz =
             Some (s', hb', rxb, Inl (ProtoErr ''Didn't receive enough data for header'')) \<and>
           rxq_d (dev_of s') = [] \<and> under_d (dev_of s') = Suc (under_d (dev_of s))"
  using tmem_xfer_fifo_short [where peer = peer and le = le and sz = sz and hdbuf = hdbuf and rxb = rxb, OF ok b w4 q0 tx rp hs] by simp

text \<open>C29: fault injection: with \<open>drEn_\<close> set and the counter \<open>drop_\<close> at
  \<open>n\<close>, a transfer that would succeed times out exactly when \<open>n + 1\<close> is a
  multiple of 256, so every 256th completed transfer is dropped; without
  \<open>drEn_\<close> none is.\<close>

theorem tmem_xfer_fault_injection:
  assumes ok: "hw_ok h k" and b: "toscaBase_m (axis_driver.more s) = b" and w4: "wrdSiz_m (axis_driver.more s) = 4"
    and q0: "txq_d (dev_of s) = []" "rxq_d (dev_of s) = []"
    and tx: "0 < length txb" "length txb + 3 < 2 ^ 32"
    and rp: "peer (frame le txb) \<noteq> []" "length (peer (frame le txb)) < 2 ^ k" "4 * length (peer (frame le txb)) < 2 ^ 32"
    and hs: "hsize mod 4 = 0" "hsize \<le> 4 * length (peer (frame le txb))"
    and n: "drop_m s = word_of_nat n"
  shows "\<exists>s' hb' rb' r. tmem_xfer (fifo_env h le peer b) s txb hdbuf hsize rxb sz = Some (s', hb', rb', r) \<and>
           (r = Inl TimeoutErr \<longleftrightarrow> drEn_m s \<and> 256 dvd (n + 1))"
proof -
  have "snd (drop_check (drEn_m s) (drop_m s)) \<longleftrightarrow> drEn_m s \<and> 256 dvd (n + 1)"
    unfolding n by (rule drop_check_every_256)
  then show ?thesis
    using tmem_xfer_fifo [where peer = peer and le = le, OF ok b w4 q0 tx rp hs, of hdbuf rxb sz]
    by (cases "drop_check (drEn_m s) (drop_m s)") (auto simp: Let_def)
qed

text \<open>C36: a request of zero bytes is not sent as nothing: the unsigned word count
  wraps, and the driver pushes \<open>2^32\<close> words into the FIFO.\<close>

theorem tmem_send_empty_request:
  assumes b: "toscaBase_m (axis_driver.more s) = b" and ok: "hw_ok h k"
  shows "\<exists>ws. tmem_send (fifo_env h le peer b) [] s =
           set_dev ((dev_of s)\<lparr>txq_d := [], rxq_d := rxq_d (dev_of s) @ peer (txq_d (dev_of s) @ ws),
                               frames_d := frames_d (dev_of s) @ [txq_d (dev_of s) @ ws]\<rparr>) s \<and>
           length ws = 2 ^ 32"
proof -
  have w: "((0 :: 32 word) + 3) div 4 = 0" "(0 :: 32 word) - 4 * (0 - 1) = 4" by simp_all
  have w3: "unat (0 - 1 :: 32 word) = 2 ^ 32 - 1" "unat (- 1 :: 32 word) = 2 ^ 32 - 1"
    by (simp_all add: unsigned_minus_1_eq_mask mask_eq_exp_minus_1)
  have di: "FIFO_DAT_IDX h \<noteq> FIFO_CSR_IDX h" "FIFO_CSR_EOFO h \<noteq> 0" using ok by (simp_all add: hw_ok_def)
  let ?ws = "map (\<lambda>j. bswap32 (load32 le (slice [] (4 * j) 4))) [0..<2 ^ 32 - 1] @
             [bswap32 (load32 le (take 4 (drop (4 * (2 ^ 32 - 1)) []) @ replicate (4 - 4) 0))]"
  have "tmem_send (fifo_env h le peer b) [] s =
           set_dev ((dev_of s)\<lparr>txq_d := [], rxq_d := rxq_d (dev_of s) @ peer (txq_d (dev_of s) @ ?ws),
                               frames_d := frames_d (dev_of s) @ [txq_d (dev_of s) @ ?ws]\<rparr>) s"
    unfolding tmem_send_def Let_def list.size of_nat_0 w w3
    using b di w3 by (simp add: send_words_fifo fifo_dat_write fifo_csr_read fifo_eof_write and_or_self del: upt_Suc)
  moreover have "length ?ws = 2 ^ 32" by simp
  ultimately show ?thesis by blast
qed


text \<open>C6: fault injection drops a transfer only after its reply has been read:
  the transfer that fault injection turns into a timeout has already copied the
  reply to the header buffer and the payload buffer, exactly as the same
  transfer does with fault injection off.\<close>

theorem tmem_xfer_drop_writes_buffers:
  assumes ok: "hw_ok h k" and b: "toscaBase_m (axis_driver.more s) = b" and w4: "wrdSiz_m (axis_driver.more s) = 4"
    and q0: "txq_d (dev_of s) = []" "rxq_d (dev_of s) = []"
    and tx: "0 < length txb" "length txb + 3 < 2 ^ 32"
    and rp: "peer (frame le txb) \<noteq> []" "length (peer (frame le txb)) < 2 ^ k" "4 * length (peer (frame le txb)) < 2 ^ 32"
    and hs: "hsize mod 4 = 0" "hsize \<le> 4 * length (peer (frame le txb))"
    and dr: "drEn_m s" "(drop_m s + 1) AND 0xff = 0"
  shows "\<exists>s' s'' hb' rb' got.
           tmem_xfer (fifo_env h le peer b) s txb hdbuf hsize rxb sz = Some (s', hb', rb', Inl TimeoutErr) \<and>
           tmem_xfer (fifo_env h le peer b) (s\<lparr>drEn_m := False\<rparr>) txb hdbuf hsize rxb sz = Some (s'', hb', rb', Inr got)"
proof -
  have b': "toscaBase_m (axis_driver.more (s\<lparr>drEn_m := False\<rparr>)) = b"
    and w4': "wrdSiz_m (axis_driver.more (s\<lparr>drEn_m := False\<rparr>)) = 4"
    and q0': "txq_d (dev_of (s\<lparr>drEn_m := False\<rparr>)) = []" "rxq_d (dev_of (s\<lparr>drEn_m := False\<rparr>)) = []"
    using b w4 q0 by simp_all
  show ?thesis
    using tmem_xfer_fifo [where peer = peer and le = le, OF ok b w4 q0 tx rp hs, of hdbuf rxb sz]
      tmem_xfer_fifo [where peer = peer and le = le, OF ok b' w4' q0' tx rp hs, of hdbuf rxb sz] dr
    by (simp add: Let_def drop_check_def)
qed


lemma tmem_xfer_sends_frame_witness:
  "hw_ok demo_hw 12 \<and>
   (\<exists>s' hb' rb' r. tmem_xfer (fifo_env demo_hw True id 0) demo_drv [1, 2, 3, 4, 5] [0, 0, 0, 0] 4 [0, 0, 0, 0] 4 =
        Some (s', hb', rb', r) \<and>
      frames_d (dev_of s') = [[0x01020304, 0x05000000]] \<and>
      txq_d (dev_of s') = [] \<and> rxq_d (dev_of s') = [] \<and> under_d (dev_of s') = 0)"
  using tmem_xfer_sends_frame [where h = demo_hw and k = 12 and s = demo_drv and b = 0 and le = True and txb = "[1, 2, 3, 4, 5]"
      and peer = id and hdbuf = "[0, 0, 0, 0]" and hsize = 4 and rxb = "[0, 0, 0, 0]" and sz = 4] demo_hw_ok
  by (simp add: demo_frame demo_drv_def demo_dev_def JtagDriverAxisToJtag_def)

lemma pad_demo:
  "[1, 2, 3, 4, 5] @ replicate (4 * ((length [1, 2, 3, 4, 5 :: byte] + 3) div 4) - length [1, 2, 3, 4, 5 :: byte]) 0 =
   [1, 2, 3, 4, 5, 0, 0, (0 :: byte)]"
proof -
  have "replicate 3 (0 :: byte) = [0, 0, 0]" by (simp add: eval_nat_numeral)
  then show ?thesis by simp
qed

lemma tmem_xfer_loopback_witness:
  "hw_ok demo_hw 12 \<and> \<not> drEn_m demo_drv \<and>
   (\<exists>s' got. tmem_xfer (fifo_env demo_hw True id 0) demo_drv [1, 2, 3, 4, 5] [9, 9, 9, 9, 9] 4 [9, 9, 9, 9, 9] 4 =
      Some (s', [1, 2, 3, 4, 9], [5, 0, 0, 0, 9], Inr got))"
  using tmem_xfer_loopback [where h = demo_hw and k = 12 and s = demo_drv and b = 0 and le = True
      and txb = "[1, 2, 3, 4, 5]" and hdbuf = "[9, 9, 9, 9, 9]" and hsize = 4 and rxb = "[9, 9, 9, 9, 9]" and sz = 4,
      unfolded pad_demo] demo_hw_ok
  by (simp add: demo_drv_def demo_dev_def JtagDriverAxisToJtag_def blit_0)

lemma tmem_xfer_returns_iff_reply_witness:
  "hw_ok demo_hw 12 \<and>
   tmem_xfer (fifo_env demo_hw True id 0) demo_drv [1, 2, 3, 4, 5] [] 4 [] 4 \<noteq> None \<and>
   tmem_xfer (fifo_env demo_hw True (\<lambda>_. []) 0) demo_drv [1, 2, 3, 4, 5] [] 4 [] 4 = None"
  using tmem_xfer_returns_iff_reply [where h = demo_hw and k = 12 and s = demo_drv and b = 0 and le = True
      and txb = "[1, 2, 3, 4, 5]" and peer = id and hdbuf = "[]" and hsize = 4 and rxb = "[]" and sz = 4]
    tmem_xfer_returns_iff_reply [where h = demo_hw and k = 12 and s = demo_drv and b = 0 and le = True
      and txb = "[1, 2, 3, 4, 5]" and peer = "\<lambda>_. []" and hdbuf = "[]" and hsize = 4 and rxb = "[]" and sz = 4] demo_hw_ok
  by (simp add: demo_frame demo_drv_def demo_dev_def JtagDriverAxisToJtag_def del: not_None_eq)

lemma tmem_xfer_short_reply_witness:
  "hw_ok demo_hw 12 \<and>
   (\<exists>s' hb'. tmem_xfer (fifo_env demo_hw True (\<lambda>_. [7]) 0) demo_drv [1, 2, 3, 4, 5] [] 8 [] 4 =
          Some (s', hb', [], Inl (ProtoErr ''Didn't receive enough data for header'')) \<and>
        rxq_d (dev_of s') = [] \<and> under_d (dev_of s') = 1)"
  using tmem_xfer_short_reply [where h = demo_hw and k = 12 and s = demo_drv and b = 0 and le = True
      and txb = "[1, 2, 3, 4, 5]" and peer = "\<lambda>_. [7]" and hdbuf = "[]" and hsize = 8 and rxb = "[]" and sz = 4] demo_hw_ok
  by (simp add: demo_drv_def demo_dev_def JtagDriverAxisToJtag_def)

lemma tmem_xfer_fault_injection_witness:
  "hw_ok demo_hw 12 \<and>
   (\<exists>s' hb' rb'. tmem_xfer (fifo_env demo_hw True id 0) (demo_drv\<lparr>drEn_m := True, drop_m := 255\<rparr>) [1, 2, 3, 4, 5] [] 4 [] 4 =
          Some (s', hb', rb', Inl TimeoutErr))"
  using tmem_xfer_fault_injection [where h = demo_hw and k = 12 and s = "demo_drv\<lparr>drEn_m := True, drop_m := 255\<rparr>"
      and b = 0 and le = True and txb = "[1, 2, 3, 4, 5]" and peer = id and hdbuf = "[]" and hsize = 4 and rxb = "[]"
      and sz = 4 and n = 255] demo_hw_ok
  by (simp add: demo_frame demo_drv_def demo_dev_def JtagDriverAxisToJtag_def)

lemma tmem_xfer_drop_writes_buffers_witness:
  "hw_ok demo_hw 12 \<and>
   (\<exists>s' s'' hb' rb' got.
      tmem_xfer (fifo_env demo_hw True id 0) (demo_drv\<lparr>drEn_m := True, drop_m := 255\<rparr>) [1, 2, 3, 4, 5] [] 4 [] 4 =
        Some (s', hb', rb', Inl TimeoutErr) \<and>
      tmem_xfer (fifo_env demo_hw True id 0) (demo_drv\<lparr>drEn_m := True, drop_m := 255\<rparr>\<lparr>drEn_m := False\<rparr>) [1, 2, 3, 4, 5] [] 4 [] 4 =
        Some (s'', hb', rb', Inr got))"
  using tmem_xfer_drop_writes_buffers [where h = demo_hw and k = 12 and s = "demo_drv\<lparr>drEn_m := True, drop_m := 255\<rparr>"
      and b = 0 and le = True and txb = "[1, 2, 3, 4, 5]" and peer = id and hdbuf = "[]" and hsize = 4 and rxb = "[]"
      and sz = 4] demo_hw_ok
  by (simp add: demo_frame demo_drv_def demo_dev_def JtagDriverAxisToJtag_def)

lemma tmem_send_empty_request_witness:
  "hw_ok demo_hw 12 \<and>
   (\<exists>ws. tmem_send (fifo_env demo_hw True id 0) [] demo_drv =
          set_dev \<lparr>txq_d = [], rxq_d = ws, frames_d = [ws], under_d = 0, cfg_d = 0x110\<rparr> demo_drv \<and> length ws = 2 ^ 32)"
  using tmem_send_empty_request [where h = demo_hw and k = 12 and s = demo_drv and b = 0 and le = True and peer = id]
    demo_hw_ok
  by (simp add: demo_drv_def demo_dev_def JtagDriverAxisToJtag_def)

lemma tmem_xfer_irq_fails_witness:
  "hw_ok demo_hw 12 \<and>
   (\<exists>s'. tmem_xfer ((fifo_env demo_hw True (\<lambda>_. []) 0)\<lparr>irqWrite := \<lambda>d fd. False\<rparr>)
            (demo_drv\<lparr>axis_driver.more := (axis_driver.more demo_drv)\<lparr>irqFd_m := 3\<rparr>\<rparr>) [1, 2, 3, 4, 5] [] 4 [] 4 =
          Some (s', [], [], Inl (SysErr ''Unable to write to IRQ descriptor'')))"
  using tmem_xfer_irq_fails [where h = demo_hw and k = 12 and b = 0 and le = True and peer = "\<lambda>_. []"
      and s = "demo_drv\<lparr>axis_driver.more := (axis_driver.more demo_drv)\<lparr>irqFd_m := 3\<rparr>\<rparr>"
      and txb = "[1, 2, 3, 4, 5]" and hdbuf = "[]" and hsize = 4 and rxb = "[]" and sz = 4] demo_hw_ok
  by (simp add: demo_drv_def demo_dev_def JtagDriverAxisToJtag_def)

end
