(* ===== verification/TmemSession.thy ===== *)
theory TmemSession
  imports TmemFifo
begin

text \<open>
  The life of a TMEM driver on the FIFO model: the constructor (reset, the
  magic and version checks, the vector limit), and the sessions it starts,
  as an inductive set of reachable driver states (construction, then any
  sequence of transfers that return). The invariant \<open>tmem_inv\<close> says that
  between transfers the FIFO is empty in both directions and the vector limit
  is the one the FIFO's size field gives.
\<close>

unbundle bit_operations_syntax

text \<open>The invariant of a driver between transfers.\<close>

definition tmem_inv :: "tmem_hw \<Rightarrow> nat \<Rightarrow> fifo_dev tmem_drv \<Rightarrow> bool" where
  "tmem_inv h b s \<longleftrightarrow>
     txq_d (dev_of s) = [] \<and> rxq_d (dev_of s) = [] \<and> toscaBase_m (axis_driver.more s) = b \<and>
     wrdSiz_m (axis_driver.more s) = 4 \<and> maxVec_m (axis_driver.more s) = maxVecOf h (fifo_csr h (dev_of s))"

text \<open>The reachable states: a transfer is a step when its request fits the
  32-bit counters of \<open>xfer()\<close> and the firmware's reply fits the status
  register's word-count field.\<close>

inductive tmem_reach :: "tmem_hw \<Rightarrow> nat \<Rightarrow> bool \<Rightarrow> (32 word list \<Rightarrow> 32 word list) \<Rightarrow> nat \<Rightarrow> fifo_dev tmem_drv \<Rightarrow> bool"
  for h k le peer b where
  created: "JtagDriverTmemFifo (fifo_env h le peer b) dbg xd d sp (Some b) opts openfd = Inr s \<Longrightarrow>
            tmem_reach h k le peer b s"
| transfer: "tmem_reach h k le peer b s \<Longrightarrow> 0 < length txb \<Longrightarrow> length txb + 3 < 2 ^ 32 \<Longrightarrow>
             length (peer (frame le txb)) < 2 ^ k \<Longrightarrow> 4 * length (peer (frame le txb)) < 2 ^ 32 \<Longrightarrow>
             tmem_xfer (fifo_env h le peer b) s txb hdbuf hsize rxb sz = Some (s', hb', rb', r) \<Longrightarrow>
             tmem_reach h k le peer b s'"

subsection \<open>Register writes, reset and construction on the FIFO model\<close>

lemma fifo_ctl_write:
  "toscaBase_m (axis_driver.more s) = b \<Longrightarrow> FIFO_DAT_IDX h \<noteq> FIFO_CSR_IDX h \<Longrightarrow> v AND FIFO_CSR_EOFO h = 0 \<Longrightarrow>
   o32 (fifo_env h le peer b) (FIFO_CSR_IDX h) v s =
     (if v AND FIFO_CSR_RST h \<noteq> 0 then set_dev ((dev_of s)\<lparr>txq_d := [], rxq_d := []\<rparr>) s else s)"
  by (simp add: o32_dev fifo_env_def fifo_write_def)

lemma fifo_magic_read:
  "toscaBase_m (axis_driver.more s) = b \<Longrightarrow> hw_ok h k \<Longrightarrow>
   i32 (fifo_env h le peer b) (FIFO_MAGIC_IDX h) s = (s, MAGIC h)"
  by (simp add: i32_dev fifo_env_def fifo_read_def hw_ok_def)

lemma reset_fifo:
  assumes b: "toscaBase_m (axis_driver.more s) = b" and ok: "hw_ok h k"
  shows "reset (fifo_env h le peer b) s = set_dev ((dev_of s)\<lparr>txq_d := [], rxq_d := []\<rparr>) s"
proof -
  have hw: "FIFO_DAT_IDX h \<noteq> FIFO_CSR_IDX h" "FIFO_CSR_RST h AND FIFO_CSR_EOFO h = 0" "FIFO_CSR_RST h \<noteq> 0"
    "FIFO_CSR_IENI h AND FIFO_CSR_EOFO h = 0" "FIFO_CSR_IENI h AND FIFO_CSR_RST h = 0"
    using ok by (simp_all add: hw_ok_def)
  show ?thesis
    unfolding reset_def Let_def fifo_env_sel
    using b hw by (simp add: fifo_ctl_write)
qed

lemma JtagDriverTmemFifo_fifo:
  assumes ok: "hw_ok h k" and sp: "sp \<noteq> 0" and po: "parse_opts opts None = Inr irqfn"
  shows "JtagDriverTmemFifo (fifo_env h le peer b) dbg xd d sp (Some b) opts openfd =
     (let d1 = d\<lparr>txq_d := [], rxq_d := []\<rparr>; csr = fifo_csr h d1
      in if drop_bit (FIFO_CSR_VERSS h) (csr AND FIFO_CSR_VERSM h) \<noteq> SUPPORTED_VERS h
         then Inl (RuntimeErr ''TMEM Device wrong FW version'')
         else Inr (JtagDriverAxisToJtag dbg xd
                \<lparr>toscaSpace_m = sp, toscaBase_m = b, irqFd_m = (case irqfn of None \<Rightarrow> -1 | Some fn \<Rightarrow> openfd fn),
                 wrdSiz_m = 4, maxVec_m = maxVecOf h csr, dev_m = d1\<rparr>))"
proof -
  define s0 :: "fifo_dev tmem_drv" where "s0 = JtagDriverAxisToJtag dbg xd
      \<lparr>toscaSpace_m = sp, toscaBase_m = b, irqFd_m = -1, wrdSiz_m = 0, maxVec_m = 0, dev_m = d\<rparr>"
  define s1 where "s1 = set_dev (d\<lparr>txq_d := [], rxq_d := []\<rparr>) s0"
  have b0: "toscaBase_m (axis_driver.more s0) = b" by (simp add: s0_def JtagDriverAxisToJtag_def)
  have r: "reset (fifo_env h le peer b) s0 = s1"
    using reset_fifo [OF b0 ok, of le peer] by (simp add: s1_def s0_def JtagDriverAxisToJtag_def)
  have b1: "toscaBase_m (axis_driver.more s1) = b" using b0 by (simp add: s1_def)
  have di: "FIFO_DAT_IDX h \<noteq> FIFO_CSR_IDX h" using ok by (simp add: hw_ok_def)
  have m: "i32 (fifo_env h le peer b) (FIFO_MAGIC_IDX h) s1 = (s1, MAGIC h)" by (rule fifo_magic_read [OF b1 ok])
  have c: "i32 (fifo_env h le peer b) (FIFO_CSR_IDX h) s1 = (s1, fifo_csr h (d\<lparr>txq_d := [], rxq_d := []\<rparr>))"
    using fifo_csr_read [OF b1 di, of le peer] by (simp add: s1_def)
  have e: "s1\<lparr>axis_driver.more := (axis_driver.more s1)
             \<lparr>wrdSiz_m := 4, maxVec_m := v, irqFd_m := fd\<rparr>\<rparr> =
           JtagDriverAxisToJtag dbg xd \<lparr>toscaSpace_m = sp, toscaBase_m = b, irqFd_m = fd,
                 wrdSiz_m = 4, maxVec_m = v, dev_m = d\<lparr>txq_d := [], rxq_d := []\<rparr>\<rparr>" for v fd
    by (simp add: s1_def s0_def set_dev_def JtagDriverAxisToJtag_def)
  have i: "irqFd_m (axis_driver.more s1) = -1" by (simp add: s1_def s0_def JtagDriverAxisToJtag_def)
  show ?thesis
    unfolding JtagDriverTmemFifo_def Let_def fifo_env_sel
    using sp po r [unfolded s0_def] m c e i by (simp split: option.split)
qed

lemma tmem_inv_created:
  assumes ok: "hw_ok h k" and c: "JtagDriverTmemFifo (fifo_env h le peer b) dbg xd d sp (Some b) opts openfd = Inr s"
  shows "tmem_inv h b s"
proof -
  have sp: "sp \<noteq> 0"
  proof
    assume "sp = 0"
    then show False using c by (simp add: JtagDriverTmemFifo_def Let_def)
  qed
  obtain irqfn where po: "parse_opts opts None = Inr irqfn"
    using c sp by (cases "parse_opts opts None") (auto simp: JtagDriverTmemFifo_def Let_def)
  show ?thesis
    using c JtagDriverTmemFifo_fifo [OF ok sp po, of le peer b dbg xd d openfd]
    by (auto simp: tmem_inv_def JtagDriverAxisToJtag_def fifo_csr_def Let_def split: if_splits)
qed

lemma tmem_xfer_fifo_dev:
  assumes ok: "hw_ok h k" and b: "toscaBase_m (axis_driver.more s) = b" and w4: "wrdSiz_m (axis_driver.more s) = 4"
    and q0: "txq_d (dev_of s) = []" "rxq_d (dev_of s) = []"
    and tx: "0 < length txb" "length txb + 3 < 2 ^ 32"
    and rp: "length (peer (frame le txb)) < 2 ^ k" "4 * length (peer (frame le txb)) < 2 ^ 32"
    and x: "tmem_xfer (fifo_env h le peer b) s txb hdbuf hsize rxb sz = Some (s', hb', rb', r)"
  shows "\<exists>d' n. s' = (set_dev d' s)\<lparr>drop_m := n\<rparr> \<and> txq_d d' = [] \<and> rxq_d d' = [] \<and> cfg_d d' = cfg_d (dev_of s)"
proof (cases "hsize mod 4 = 0")
  case False
  then have "s' = (set_dev (dev_of s) s)\<lparr>drop_m := drop_m s\<rparr>" using x by (simp add: tmem_xfer_def)
  then show ?thesis using q0 by blast
next
  case hs: True
  have ne: "peer (frame le txb) \<noteq> []"
    using x tmem_xfer_fifo_hangs [where peer = peer and le = le and sz = sz and hdbuf = hdbuf and rxb = rxb, OF ok b q0 tx hs] by auto
  show ?thesis
  proof (cases "hsize \<le> 4 * length (peer (frame le txb))")
    case True
    then show ?thesis
      using x tmem_xfer_fifo [where peer = peer and le = le and sz = sz and hdbuf = hdbuf and rxb = rxb, OF ok b w4 q0 tx ne rp hs True] q0
      by (auto simp: Let_def split: prod.splits if_splits)
  next
    case False
    define d' where "d' = (dev_of s)\<lparr>rxq_d := [], under_d := Suc (under_d (dev_of s)),
                                  frames_d := frames_d (dev_of s) @ [frame le txb]\<rparr>"
    have "s' = set_dev d' s"
      using False x tmem_xfer_fifo_short [where peer = peer and le = le and sz = sz and hdbuf = hdbuf and rxb = rxb, OF ok b w4 q0 tx ne rp hs]
      by (simp add: d'_def)
    then have "s' = (set_dev d' s)\<lparr>drop_m := drop_m s\<rparr>" by (simp add: set_dev_def)
    then show ?thesis using q0 by (auto simp: d'_def)
  qed
qed

lemma tmem_inv_xfer:
  assumes ok: "hw_ok h k" and inv: "tmem_inv h b s"
    and tx: "0 < length txb" "length txb + 3 < 2 ^ 32"
    and rp: "length (peer (frame le txb)) < 2 ^ k" "4 * length (peer (frame le txb)) < 2 ^ 32"
    and x: "tmem_xfer (fifo_env h le peer b) s txb hdbuf hsize rxb sz = Some (s', hb', rb', r)"
  shows "tmem_inv h b s'"
proof -
  have i: "toscaBase_m (axis_driver.more s) = b" "wrdSiz_m (axis_driver.more s) = 4"
    "txq_d (dev_of s) = []" "rxq_d (dev_of s) = []" using inv by (simp_all add: tmem_inv_def)
  obtain d' n where s': "s' = (set_dev d' s)\<lparr>drop_m := n\<rparr>" and d': "txq_d d' = []" "rxq_d d' = []" "cfg_d d' = cfg_d (dev_of s)"
    using tmem_xfer_fifo_dev [OF ok i tx rp x] by blast
  have "fifo_csr h d' = fifo_csr h (dev_of s)" using d' i by (simp add: fifo_csr_def)
  then show ?thesis using inv d' unfolding s' tmem_inv_def by (simp add: set_dev_def)
qed

text \<open>C13: every driver state reachable from a successful construction through
  transfers keeps the FIFO empty in both directions between transfers, and still
  advertises the vector limit that the FIFO's own size field gives.\<close>

theorem tmem_reach_inv:
  assumes "tmem_reach h k le peer b s" and "hw_ok h k"
  shows "tmem_inv h b s"
  using assms
proof (induction rule: tmem_reach.induct)
  case (created dbg xd d sp opts openfd s)
  then show ?case by (blast intro: tmem_inv_created)
next
  case (transfer s txb hdbuf hsize rxb sz s' hb' rb' r)
  have "tmem_inv h b s" using transfer.IH transfer.prems .
  then show ?case using tmem_inv_xfer [OF transfer.prems _ transfer.hyps(2-6)] by blast
qed

text \<open>C19: on a FIFO at the configured base whose status register shows the
  supported interface version, the constructor succeeds: the FIFO is reset, the
  word size is 4, and the vector limit is computed from the FIFO's size field.\<close>

theorem JtagDriverTmemFifo_succeeds:
  assumes ok: "hw_ok h k" and sp: "sp \<noteq> 0" and po: "parse_opts opts None = Inr irqfn"
    and v: "drop_bit (FIFO_CSR_VERSS h) (fifo_csr h (d\<lparr>txq_d := [], rxq_d := []\<rparr>) AND FIFO_CSR_VERSM h) = SUPPORTED_VERS h"
  shows "\<exists>s. JtagDriverTmemFifo (fifo_env h le peer b) dbg xd d sp (Some b) opts openfd = Inr s \<and>
           tmem_inv h b s \<and> frames_d (dev_of s) = frames_d d \<and> drop_m s = 0 \<and> \<not> drEn_m s \<and>
           irqFd_m (axis_driver.more s) = (case irqfn of None \<Rightarrow> -1 | Some fn \<Rightarrow> openfd fn)"
  using JtagDriverTmemFifo_fifo [OF ok sp po, of le peer b dbg xd d openfd] v
  by (simp add: tmem_inv_def JtagDriverAxisToJtag_def fifo_csr_def)

text \<open>Pointed at a base address where the FIFO does not answer, the
  constructor fails with "TMEM Device not found" (the magic register reads 0).\<close>

theorem JtagDriverTmemFifo_no_device:
  assumes ok: "hw_ok h k" and sp: "sp \<noteq> 0" and po: "parse_opts opts None = Inr irqfn" and mg: "MAGIC h \<noteq> 0"
    and far: "b + 4 * (FIFO_DAT_IDX h + FIFO_CSR_IDX h + FIFO_MAGIC_IDX h) < b'"
  shows "JtagDriverTmemFifo (fifo_env h le peer b) dbg xd d sp (Some b') opts openfd =
           Inl (RuntimeErr ''TMEM Device not found'')"
proof -
  have na: "b' + i * 4 \<noteq> b + FIFO_DAT_IDX h * 4" "b' + i * 4 \<noteq> b + FIFO_CSR_IDX h * 4"
       "b' + i * 4 \<noteq> b + FIFO_MAGIC_IDX h * 4" for i
    using far by (simp_all add: distrib_left)
  have w: "o32 (fifo_env h le peer b) i v s = s" if "toscaBase_m (axis_driver.more s) = b'" for i v and s :: "fifo_dev tmem_drv"
    using that na by (simp add: o32_dev fifo_env_def fifo_write_def)
  have r: "i32 (fifo_env h le peer b) i s = (s, 0)" if "toscaBase_m (axis_driver.more s) = b'" for i and s :: "fifo_dev tmem_drv"
    using that na by (simp add: i32_dev fifo_env_def fifo_read_def)
  show ?thesis
    unfolding JtagDriverTmemFifo_def Let_def reset_def
    using sp po mg by (simp add: w r JtagDriverAxisToJtag_def)
qed


text \<open>C37: the constructor does not reject a FIFO whose size field reads 0: it
  succeeds, and the longest vector the driver then reports
  (\<open>getMaxVectorSize\<close>) is \<open>2^63 - 2\<close> bytes instead of 0, because
  \<open>maxWords - 1\<close> wraps in \<open>unsigned long\<close> arithmetic.\<close>

theorem JtagDriverTmemFifo_zero_size_wraps:
  assumes ok: "hw_ok h k" and sp: "sp \<noteq> 0" and po: "parse_opts opts None = Inr irqfn"
    and v: "drop_bit (FIFO_CSR_VERSS h) (fifo_csr h (d\<lparr>txq_d := [], rxq_d := []\<rparr>) AND FIFO_CSR_VERSM h) = SUPPORTED_VERS h"
    and z: "fifoWords h (fifo_csr h (d\<lparr>txq_d := [], rxq_d := []\<rparr>)) = 0"
  shows "\<exists>s. JtagDriverTmemFifo (fifo_env h le peer b) dbg xd d sp (Some b) opts openfd = Inr s \<and>
           getMaxVectorSize s = 2 ^ 63 - 2"
  using JtagDriverTmemFifo_fifo [OF ok sp po, of le peer b dbg xd d openfd] v maxVecOf_zero_wraps [OF z]
  by (simp add: getMaxVectorSize_def JtagDriverAxisToJtag_def Let_def)

subsection \<open>Examples\<close>

lemma demo_csr: "fifo_csr demo_hw demo_dev = 0x111"
  by (simp add: fifo_csr_def demo_hw_def demo_dev_def mask_eq_exp_minus_1 push_bit_eq_mult)

lemma demo_ctor: "JtagDriverTmemFifo (fifo_env demo_hw True id 0) 0 0 demo_dev 1 (Some 0) [] (\<lambda>_. -1) = Inr demo_drv"
proof -
  have e: "demo_dev\<lparr>txq_d := [], rxq_d := []\<rparr> = demo_dev" by (simp add: demo_dev_def)
  have m: "maxVecOf demo_hw 0x111 = 510" by (simp add: maxVecOf_def fifoWords_def demo_hw_def)
  have v: "drop_bit (FIFO_CSR_VERSS demo_hw) ((0x111 :: 32 word) AND FIFO_CSR_VERSM demo_hw) = SUPPORTED_VERS demo_hw"
    by (simp add: demo_hw_def)
  show ?thesis
    using JtagDriverTmemFifo_fifo [where h = demo_hw and k = 12 and sp = 1 and opts = "[]" and irqfn = None
        and le = True and peer = id and b = 0 and dbg = 0 and xd = 0 and d = demo_dev and openfd = "\<lambda>_. -1"]
      demo_hw_ok e m v
    by (simp add: demo_csr demo_drv_def)
qed

lemma tmem_reach_inv_witness:
  "hw_ok demo_hw 12 \<and> tmem_reach demo_hw 12 True id 0 demo_drv \<and> tmem_inv demo_hw 0 demo_drv"
proof -
  have r: "tmem_reach demo_hw 12 True id 0 demo_drv" by (rule tmem_reach.created [OF demo_ctor])
  show ?thesis using tmem_reach_inv [OF r demo_hw_ok] r demo_hw_ok by simp
qed

lemma JtagDriverTmemFifo_succeeds_witness:
  "hw_ok demo_hw 12 \<and> parse_opts [] None = Inr None \<and>
   (\<exists>s. JtagDriverTmemFifo (fifo_env demo_hw True id 0) 0 0 demo_dev 1 (Some 0) [] (\<lambda>_. -1) = Inr s \<and>
        tmem_inv demo_hw 0 s \<and> maxVec_m (axis_driver.more s) = 510)"
proof -
  have v: "drop_bit (FIFO_CSR_VERSS demo_hw) (fifo_csr demo_hw (demo_dev\<lparr>txq_d := [], rxq_d := []\<rparr>) AND FIFO_CSR_VERSM demo_hw) = SUPPORTED_VERS demo_hw"
    by (simp add: fifo_csr_def demo_hw_def demo_dev_def mask_eq_exp_minus_1 push_bit_eq_mult)
  show ?thesis
    using JtagDriverTmemFifo_succeeds [where h = demo_hw and k = 12 and sp = 1 and opts = "[]" and irqfn = None
        and le = True and peer = id and b = 0 and dbg = 0 and xd = 0 and d = demo_dev and openfd = "\<lambda>_. -1", OF demo_hw_ok _ _ v]
      demo_hw_ok demo_ctor
    by (simp add: demo_drv_def JtagDriverAxisToJtag_def)
qed

lemma JtagDriverTmemFifo_zero_size_wraps_witness:
  "hw_ok demo_hw 12 \<and> parse_opts [] None = Inr None \<and>
   (\<exists>s. JtagDriverTmemFifo (fifo_env demo_hw True id 0) 0 0 (demo_dev\<lparr>cfg_d := 0x10\<rparr>) 1 (Some 0) [] (\<lambda>_. -1) = Inr s \<and>
        getMaxVectorSize s = 2 ^ 63 - 2)"
proof -
  have c: "fifo_csr demo_hw (demo_dev\<lparr>cfg_d := 0x10, txq_d := [], rxq_d := []\<rparr>) = 0x11"
    by (simp add: fifo_csr_def demo_hw_def demo_dev_def mask_eq_exp_minus_1 push_bit_eq_mult)
  have v: "drop_bit (FIFO_CSR_VERSS demo_hw) (fifo_csr demo_hw (demo_dev\<lparr>cfg_d := 0x10, txq_d := [], rxq_d := []\<rparr>)
             AND FIFO_CSR_VERSM demo_hw) = SUPPORTED_VERS demo_hw"
    unfolding c by (simp add: demo_hw_def)
  have z: "fifoWords demo_hw (fifo_csr demo_hw (demo_dev\<lparr>cfg_d := 0x10, txq_d := [], rxq_d := []\<rparr>)) = 0"
    unfolding c by (simp add: fifoWords_def demo_hw_def)
  show ?thesis
    using JtagDriverTmemFifo_zero_size_wraps [where h = demo_hw and k = 12 and sp = 1 and opts = "[]" and irqfn = None
        and le = True and peer = id and b = 0 and dbg = 0 and xd = 0 and d = "demo_dev\<lparr>cfg_d := 0x10\<rparr>"
        and openfd = "\<lambda>_. -1", OF demo_hw_ok _ _ v z] demo_hw_ok
    by simp
qed

lemma JtagDriverTmemFifo_no_device_witness:
  "hw_ok demo_hw 12 \<and> parse_opts [] None = Inr None \<and> MAGIC demo_hw \<noteq> 0 \<and>
   JtagDriverTmemFifo (fifo_env demo_hw True id 0) 0 0 demo_dev 1 (Some 0x100) [] (\<lambda>_. -1) =
     Inl (RuntimeErr ''TMEM Device not found'')"
  using JtagDriverTmemFifo_no_device [where h = demo_hw and k = 12 and sp = 1 and opts = "[]" and irqfn = None
      and le = True and peer = id and b = 0 and b' = "0x100" and dbg = 0 and xd = 0 and d = demo_dev and openfd = "\<lambda>_. -1"]
    demo_hw_ok
  by (simp add: demo_hw_def)

end
