(* ===== verification/TmemInit.thy ===== *)
theory TmemInit
  imports TmemSession Negotiation
begin

text \<open>
  \<open>JtagDriverTmemFifo::init()\<close> (\<open>xvcDrvAxisTmem.cc\<close> 141--150) on the FIFO
  model: the reset, the base class's Query exchange (\<open>query()\<close> through
  \<open>xferRel()\<close>), carried by the transport's own \<open>xfer()\<close>, and the check of
  the negotiated word size against the FIFO's. The virtual call of \<open>xfer()\<close>
  from \<open>xferRel()\<close> is the transfer function \<open>xf\<close> of \<open>tmem_init\<close>;
  \<open>tmem_dispatch\<close> says that it is \<open>tmem_xfer\<close> wherever \<open>tmem_xfer\<close>
  returns.
\<close>

unbundle bit_operations_syntax

definition tmem_dispatch :: "'dev tmem_env \<Rightarrow> 'dev tmem_fifo xfer_fn \<Rightarrow> bool" where
  "tmem_dispatch env xf \<longleftrightarrow>
     (\<forall>s tx hb hs rb n r. tmem_xfer env s tx hb hs rb n = Some r \<longrightarrow> xf s tx hb hs rb n = r)"

subsection \<open>The Query frame on the FIFO\<close>

lemma frame_le32: "frame le (le32 w) = [bswap32 (load32 le (le32 w))]"
  by (simp add: frame_def slice_def pad4_def length_le32)

lemma reply_bytes_frame_le32: "reply_bytes le (frame le (le32 w)) = le32 w"
  using frame_bytes [of le "le32 w"] by (simp add: length_le32)

lemma getXid_mkQuery: "getXid (getHdr (setHdr wsz buf mkQuery)) = XID_ANY"
  by (simp add: getHdr_setHdr getXid_def mkQuery_def PVERS_def PVER0_def CMD_Q_def XID_ANY_def)

text \<open>One transfer of a one-word request that the firmware answers with one
  word \<open>r\<close>: the header buffer receives \<open>r\<close>'s bytes and there is no
  payload.\<close>

lemma tmem_xfer_one_word:
  assumes ok: "hw_ok h k" "0 < k" and b: "toscaBase_m (axis_driver.more s) = b" and w4: "wrdSiz_m (axis_driver.more s) = 4"
    and q0: "txq_d (dev_of s) = []" "rxq_d (dev_of s) = []" and nd: "\<not> drEn_m s"
    and fw: "peer (frame le (le32 q)) = frame le (le32 r)"
  shows "tmem_xfer (fifo_env h le peer b) s (le32 q) hdbuf 4 rxb 0 =
           Some (set_dev ((dev_of s)\<lparr>frames_d := frames_d (dev_of s) @ [frame le (le32 q)]\<rparr>) s,
                 blit hdbuf 0 (le32 r), rxb, Inr 0)"
proof -
  have k: "(1 :: nat) < 2 ^ k" using ok(2) one_less_power [of "2 :: nat" k] by simp
  have rp: "peer (frame le (le32 q)) \<noteq> []" "length (peer (frame le (le32 q))) < 2 ^ k"
    "4 * length (peer (frame le (le32 q))) < 2 ^ 32"
    using fw k by (simp_all add: frame_le32)
  have hs: "4 * length (peer (frame le (le32 q))) = 4" using fw by (simp add: frame_le32)
  show ?thesis
    using tmem_xfer_fifo [where peer = peer and le = le and txb = "le32 q", OF ok(1) b w4 q0 _ _ rp, of 4 hdbuf rxb 0] nd fw
    by (simp add: length_le32 hs reply_bytes_frame_le32 drop_check_def Let_def set_dev_def)
qed

text \<open>The Query exchange of \<open>query()\<close> through \<open>xferRel()\<close>: the request is
  the first four bytes of the buffer, the reply is taken whatever its id.\<close>

lemma xferRel_query_fifo:
  assumes ok: "hw_ok h k" "0 < k" and b: "toscaBase_m (axis_driver.more s) = b" and w4: "wrdSiz_m (axis_driver.more s) = 4"
    and q0: "txq_d (dev_of s) = []" "rxq_d (dev_of s) = []" and nd: "\<not> drEn_m s" and ws: "wordSize_m s = 4"
    and xf: "tmem_dispatch (fifo_env h le peer b) xf"
    and fw: "peer (frame le (le32 mkQuery)) = frame le (le32 r)" and e: "getErr r = 0"
  shows "xferRel xf s (setHdr 4 buf mkQuery) 4 0 [] =
           (let s' = set_dev ((dev_of s)\<lparr>frames_d := frames_d (dev_of s) @ [frame le (le32 mkQuery)]\<rparr>) s
            in (s'\<lparr>hdBuf_m := blit (hdBuf_m s') 0 (le32 r)\<rparr>, [], Inr (0, r)))"
proof -
  have "xf s (le32 mkQuery) (hdBuf_m s) 4 [] 0 =
          (set_dev ((dev_of s)\<lparr>frames_d := frames_d (dev_of s) @ [frame le (le32 mkQuery)]\<rparr>) s,
           blit (hdBuf_m s) 0 (le32 r), [], Inr 0)"
    using xf tmem_xfer_one_word [where peer = peer and le = le and q = mkQuery and r = r, OF ok b w4 q0 nd fw]
    unfolding tmem_dispatch_def by blast
  then show ?thesis
    using ws e by (simp add: xferRel_def take4_setHdr getXid_mkQuery getWordSize_def Let_def set_dev_def)
qed

lemma fifo_csr_cleared:
  "rxq_d d = [] \<Longrightarrow> fifo_csr h (d\<lparr>txq_d := t, rxq_d := [], frames_d := f\<rparr>) = fifo_csr h d"
  by (simp add: fifo_csr_def)

subsection \<open>Initialisation on the FIFO model\<close>

text \<open>The run of \<open>init()\<close> on the FIFO, from a driver between transfers.\<close>

lemma tmem_init_fifo_run:
  assumes ok: "hw_ok h k" "0 < k" and inv: "tmem_inv h b s" and ws: "wordSize_m s = 4" and nd: "\<not> drEn_m s"
    and xf: "tmem_dispatch (fifo_env h le peer b) xf"
    and fw: "peer (frame le (le32 mkQuery)) = frame le (le32 r)" and e: "getErr r = 0"
  shows "snd (tmem_init (fifo_env h le peer b) ref xf s) =
           (if wordSize r < 4 then Inl (ProtoErr ''Received invalid word size'')
            else if wordSize r \<noteq> 4
            then Inl (RuntimeErr ''ERROR: firmware misconfigured -- FIFO word size /= JTAG stream word size'')
            else Inr ()) \<and>
         tmem_inv h b (fst (tmem_init (fifo_env h le peer b) ref xf s)) \<and>
         frames_d (dev_of (fst (tmem_init (fifo_env h le peer b) ref xf s))) = frames_d (dev_of s) @ [frame le (le32 mkQuery)] \<and>
         getMemDepth (fst (tmem_init (fifo_env h le peer b) ref xf s)) = (if wordSize r < 4 then memDepth_m s else memDepth r)"
proof -
  have b: "toscaBase_m (axis_driver.more s) = b" and w4: "wrdSiz_m (axis_driver.more s) = 4"
    and q0: "txq_d (dev_of s) = []" "rxq_d (dev_of s) = []"
    using inv by (simp_all add: tmem_inv_def)
  define s1 where "s1 = set_dev ((dev_of s)\<lparr>txq_d := [], rxq_d := []\<rparr>) s"
  have r: "reset (fifo_env h le peer b) s = s1" using reset_fifo [OF b ok(1)] by (simp add: s1_def)
  define sq where "sq = s1\<lparr>txBuf_m := setHdr 4 (txBuf_m s1) mkQuery\<rparr>"
  define sr where "sr = set_dev ((dev_of sq)\<lparr>frames_d := frames_d (dev_of sq) @ [frame le (le32 mkQuery)]\<rparr>) sq"
  define s2 where "s2 = sr\<lparr>hdBuf_m := blit (hdBuf_m sr) 0 (le32 r)\<rparr>"
  have g1: "getWordSize s1 = 4" using ws by (simp add: s1_def getWordSize_def set_dev_def)
  have x: "xferRel xf (s1\<lparr>txBuf_m := setHdr (getWordSize s1) (txBuf_m s1) mkQuery\<rparr>)
             (setHdr (getWordSize s1) (txBuf_m s1) mkQuery) (getWordSize s1) 0 [] = (s2, [], Inr (0, r))"
    unfolding g1 sq_def [symmetric]
    using xferRel_query_fifo [OF ok, of sq b le peer xf r "txBuf_m s1"] b w4 nd ws xf fw e
    by (simp add: sq_def s1_def sr_def s2_def set_dev_def Let_def)
  have d2: "dev_of s2 = (dev_of s)\<lparr>txq_d := [], rxq_d := [], frames_d := frames_d (dev_of s) @ [frame le (le32 mkQuery)]\<rparr>"
    by (simp add: s2_def sr_def sq_def s1_def set_dev_def)
  have m2: "toscaBase_m (axis_driver.more s2) = b" "wrdSiz_m (axis_driver.more s2) = 4"
    "maxVec_m (axis_driver.more s2) = maxVec_m (axis_driver.more s)" "memDepth_m s2 = memDepth_m s"
    using b w4 by (simp_all add: s2_def sr_def sq_def s1_def set_dev_def)
  show ?thesis
  proof (cases "wordSize r < 4")
    case True
    have "query ref xf s1 = (s2\<lparr>wordSize_m := wordSize r\<rparr>, Inl (ProtoErr ''Received invalid word size''))"
      using x True by (simp add: query_def Let_def)
    then show ?thesis
      using True inv d2 m2 q0
      by (simp add: tmem_init_def init_def r getMemDepth_def tmem_inv_def fifo_csr_cleared)
  next
    case False
    show ?thesis
      using query_success [OF x, of ref] False inv d2 m2 q0
      by (simp add: tmem_init_def init_def r getMemDepth_def getWordSize_def Let_def tmem_inv_def fifo_csr_cleared)
  qed
qed

text \<open>C14: \<open>init()\<close> of the TMEM transport negotiates through the FIFO: from
  a driver between transfers (before test mode is set, so with fault injection
  off), the firmware receives exactly the Query frame, and the outcome is the
  reply's: a word size below 4 is a protocol error, a word size other than the
  FIFO's 4 bytes is "firmware misconfigured", and 4 succeeds with the reply's
  memory depth; the driver stays between transfers either way.\<close>

theorem tmem_init_fifo:
  assumes ok: "hw_ok h k" "0 < k" and inv: "tmem_inv h b s" and ws: "wordSize_m s = 4" and nd: "\<not> drEn_m s"
    and xf: "tmem_dispatch (fifo_env h le peer b) xf"
    and fw: "peer (frame le (le32 mkQuery)) = frame le (le32 r)" and e: "getErr r = 0"
  shows "snd (tmem_init (fifo_env h le peer b) ref xf s) =
           (if wordSize r < 4 then Inl (ProtoErr ''Received invalid word size'')
            else if wordSize r \<noteq> 4
            then Inl (RuntimeErr ''ERROR: firmware misconfigured -- FIFO word size /= JTAG stream word size'')
            else Inr ()) \<and>
         tmem_inv h b (fst (tmem_init (fifo_env h le peer b) ref xf s)) \<and>
         frames_d (dev_of (fst (tmem_init (fifo_env h le peer b) ref xf s))) = frames_d (dev_of s) @ [frame le (le32 mkQuery)] \<and>
         getMemDepth (fst (tmem_init (fifo_env h le peer b) ref xf s)) = (if wordSize r < 4 then memDepth_m s else memDepth r)"
  using assms by (rule tmem_init_fifo_run)

subsection \<open>Witness\<close>

text \<open>The example FIFO at base 0, freshly constructed, whose firmware answers
  the Query as in the specification's scenario (word size 4, depth 512).\<close>

lemma tmem_init_fifo_witness:
  "snd (tmem_init (fifo_env demo_hw True (\<lambda>_. frame True (le32 scenario_reply)) 0) 100000000
          (\<lambda>s tx hb hs rb n. the (tmem_xfer (fifo_env demo_hw True (\<lambda>_. frame True (le32 scenario_reply)) 0) s tx hb hs rb n))
          demo_drv) = Inr () \<and>
   getMemDepth (fst (tmem_init (fifo_env demo_hw True (\<lambda>_. frame True (le32 scenario_reply)) 0) 100000000
          (\<lambda>s tx hb hs rb n. the (tmem_xfer (fifo_env demo_hw True (\<lambda>_. frame True (le32 scenario_reply)) 0) s tx hb hs rb n))
          demo_drv)) = 512"
proof -
  have inv: "tmem_inv demo_hw 0 demo_drv" using tmem_inv_created [OF demo_hw_ok demo_ctor] .
  have ws: "wordSize_m demo_drv = 4" "\<not> drEn_m demo_drv" by (simp_all add: demo_drv_def JtagDriverAxisToJtag_def)
  have xf: "tmem_dispatch (fifo_env demo_hw True (\<lambda>_. frame True (le32 scenario_reply)) 0)
              (\<lambda>s tx hb hs rb n. the (tmem_xfer (fifo_env demo_hw True (\<lambda>_. frame True (le32 scenario_reply)) 0) s tx hb hs rb n))"
    by (simp add: tmem_dispatch_def)
  show ?thesis
    using tmem_init_fifo [OF demo_hw_ok _ inv ws xf, of scenario_reply 100000000] scenario_reply_fields
    by simp
qed

end
