(* ===== verification/Registry.thy ===== *)
theory Registry
  imports Prelude
begin

text \<open>
  The transport registry \<open>DriverRegistry\<close> (\<open>xvcSrv.cc\<close> 599--693) and the
  driver selection of \<open>main\<close> (lines 774--797). The registry is the vector
  \<open>entries_\<close> of \<open>RegEntry\<close>s, appended to by \<open>registerFactory\<close>; \<open>find\<close> (\<open>find_reg\<close>)
  scans it from the back and returns the index of the entry it points to. A C
  string argument that may be \<open>NULL\<close> is a \<open>string option\<close>; \<open>strcmp\<close>
  equality is string equality. A factory is a function of the command-line
  arguments and the target argument that returns the new driver or the
  exception its constructor throws; the usage helper is left abstract, since
  calling it only prints. \<open>getP\<close> is the lazily created singleton: its state is
  the registry pointer \<open>theR\<close>.

  \<open>dlopen\<close> of a driver module runs the module's static constructors, which
  register the module's drivers: it is a parameter of \<open>selectDriver\<close> that
  maps a module name and the registry to the registry after loading, or to the
  text of \<open>dlerror()\<close>.
\<close>

type_synonym 'd factory = "string list \<Rightarrow> string option \<Rightarrow> xvc_error + 'd"

record ('d, 'h) reg_entry =
  name_m :: string
  creator_m :: "'d factory option"
  helper_m :: "'h option"
  needTargetArg_m :: bool

type_synonym ('d, 'h) registry = "('d, 'h) reg_entry list"

definition registerFactory ::
  "string \<Rightarrow> 'd factory option \<Rightarrow> 'h option \<Rightarrow> bool \<Rightarrow> ('d, 'h) registry \<Rightarrow> ('d, 'h) registry" where
  "registerFactory name f h needTargetArg entries =
     entries @ [\<lparr>name_m = name, creator_m = f, helper_m = h, needTargetArg_m = needTargetArg\<rparr>]"

text \<open>The backward scan: \<open>find_loop nm es (Suc i)\<close> looks at entry \<open>i\<close>, so
  that the loop starting at \<open>entries_.size() - 1\<close> is
  \<open>find_loop nm es (length es)\<close>.\<close>

fun find_loop :: "string \<Rightarrow> ('d, 'h) registry \<Rightarrow> nat \<Rightarrow> nat option" where
  "find_loop nm es 0 = None"
| "find_loop nm es (Suc i) = (if name_m (es ! i) = nm then Some i else find_loop nm es i)"

definition find_reg :: "string option \<Rightarrow> ('d, 'h) registry \<Rightarrow> nat option" where
  "find_reg drvnam entries =
     (case drvnam of
        Some nm \<Rightarrow> if nm \<noteq> [] then find_loop nm entries (length entries)
                  else if entries = [] then None else Some (length entries - 1)
      | None \<Rightarrow> if entries = [] then None else Some (length entries - 1))"

definition has :: "string option \<Rightarrow> ('d, 'h) registry \<Rightarrow> bool" where
  "has drvnam entries = (find_reg drvnam entries \<noteq> None)"

definition printRegisteredDrivers :: "('d, 'h) registry \<Rightarrow> string list" where
  "printRegisteredDrivers entries = map name_m entries"

definition usage :: "string option \<Rightarrow> ('d, 'h) registry \<Rightarrow> 'h option" where
  "usage drvnam entries =
     (case find_reg drvnam entries of Some i \<Rightarrow> helper_m (entries ! i) | None \<Rightarrow> None)"

definition getP :: "bool \<Rightarrow> ('d, 'h) registry option \<Rightarrow> ('d, 'h) registry option \<times> ('d, 'h) registry option" where
  "getP creat theR = (let r = (if theR = None \<and> creat then Some [] else theR) in (r, r))"

definition get_registry :: "('d, 'h) registry option \<Rightarrow> ('d, 'h) registry option \<times> ('d, 'h) registry option" where
  "get_registry theR = getP True theR"

definition init_registry :: "('d, 'h) registry option \<Rightarrow> ('d, 'h) registry option \<times> ('d, 'h) registry option" where
  "init_registry theR = getP True theR"

definition create ::
  "string option \<Rightarrow> string list \<Rightarrow> string option \<Rightarrow> ('d, 'h) registry \<Rightarrow> xvc_error + 'd" where
  "create name argv arg entries =
     (case find_reg name entries of
        None \<Rightarrow> Inl (RuntimeErr ''Internal Error: No driver module registered'')
      | Some i \<Rightarrow>
          (case creator_m (entries ! i) of
             None \<Rightarrow> Inl (RuntimeErr ''Internal Error: No driver module registered'')
           | Some f \<Rightarrow>
               if needTargetArg_m (entries ! i) \<and> (arg = None \<or> arg = Some [])
               then Inl (RuntimeErr ''Missing <target>'')
               else f argv arg))"

text \<open>What \<open>main\<close> selects: the built-in UDP loopback or a registered driver;
  a driver module is loaded by a function of the registry (\<open>dlopen\<close> runs the
  module's registrations, or fails with \<open>dlerror\<close>'s text).\<close>

datatype 'd selected = UdpLoopback | Registered 'd

type_synonym ('d, 'h) dlopen_fn = "string \<Rightarrow> ('d, 'h) registry \<Rightarrow> string + ('d, 'h) registry"

text \<open>Loading the requested driver (lines 782--787): a name the registry does
  not have is a module to \<open>dlopen\<close>, after which the name is dropped
  (\<open>drvnam = 0\<close>) so that the last registered driver is used.\<close>

definition loadDriver ::
  "('d, 'h) dlopen_fn \<Rightarrow> string \<Rightarrow> ('d, 'h) registry \<Rightarrow> xvc_error + ('d, 'h) registry \<times> string option" where
  "loadDriver dl drvnam reg =
     (if has (Some drvnam) reg then Inr (reg, Some drvnam)
      else (case dl drvnam reg of
              Inl msg \<Rightarrow> Inl (RuntimeErr (''Unable to load requested driver: '' @ msg))
            | Inr reg' \<Rightarrow> Inr (reg', None)))"

text \<open>The selection of \<open>main\<close> without \<open>-h\<close> (lines 774--797): the UDP
  loopback pseudo-driver, or the loaded driver created from the registry.\<close>

definition selectDriver ::
  "('d, 'h) dlopen_fn \<Rightarrow> string \<Rightarrow> string list \<Rightarrow> string option \<Rightarrow> ('d, 'h) registry
     \<Rightarrow> ('d, 'h) registry \<times> (xvc_error + 'd selected)" where
  "selectDriver dl drvnam argv target reg =
     (if drvnam = ''udpLoopback'' then (reg, Inr UdpLoopback)
      else (case loadDriver dl drvnam reg of
              Inl e \<Rightarrow> (reg, Inl e)
            | Inr (reg', dn) \<Rightarrow> (reg', map_sum id Registered (create dn argv target reg'))))"

text \<open>The reference lookup of the specification: the last entry with that name.\<close>

definition find_spec :: "string \<Rightarrow> ('d, 'h) registry \<Rightarrow> nat option" where
  "find_spec nm es =
     (let is = filter (\<lambda>i. name_m (es ! i) = nm) [0..<length es] in if is = [] then None else Some (last is))"

subsection \<open>Lookup\<close>

lemma length_registerFactory [simp]: "length (registerFactory nm f h nt es) = Suc (length es)"
  by (simp add: registerFactory_def)

lemma registerFactory_nonempty [simp]: "registerFactory nm f h nt es \<noteq> []"
  by (simp add: registerFactory_def)

lemma nth_registerFactory [simp]:
  "registerFactory nm f h nt es ! length es = \<lparr>name_m = nm, creator_m = f, helper_m = h, needTargetArg_m = nt\<rparr>"
  by (simp add: registerFactory_def)

lemma find_loop_last:
  "find_loop nm es i =
     (let is = filter (\<lambda>j. name_m (es ! j) = nm) [0..<i] in if is = [] then None else Some (last is))"
  by (induction i) (simp_all add: Let_def)

lemma find_reg_register: "nm \<noteq> [] \<Longrightarrow> find_reg (Some nm) (registerFactory nm f h nt es) = Some (length es)"
  by (simp add: find_reg_def registerFactory_def)

lemma find_reg_absent:
  "nm \<notin> set (printRegisteredDrivers es) \<Longrightarrow> nm \<noteq> [] \<Longrightarrow> find_reg (Some nm) es = None"
proof -
  assume a: "nm \<notin> set (printRegisteredDrivers es)" "nm \<noteq> []"
  have "\<forall>j \<in> set [0..<length es]. name_m (es ! j) \<noteq> nm"
    using a(1) by (auto simp: printRegisteredDrivers_def dest: nth_mem)
  then show ?thesis using a(2) by (simp add: find_reg_def find_loop_last filter_empty_conv)
qed

text \<open>C27: for a non-empty name, the backward scan of \<open>find\<close> returns exactly
  the last registered entry of that name, and none if there is none.\<close>

theorem find_reg_spec: "nm \<noteq> [] \<Longrightarrow> find_reg (Some nm) es = find_spec nm es"
  by (simp add: find_reg_def find_spec_def find_loop_last)

text \<open>C35: a \<open>NULL\<close> or empty driver name is not looked up at all: \<open>find\<close>
  returns the last registered entry, whatever its name.\<close>

theorem find_reg_null_last:
  "es \<noteq> [] \<Longrightarrow> find_reg None es = Some (length es - 1) \<and> find_reg (Some []) es = Some (length es - 1)"
  by (simp add: find_reg_def)

text \<open>C11: registering a second driver under a name already taken shadows the
  first: \<open>create\<close> with that name uses the second factory, or fails with
  \<open>Missing <target>\<close> when that entry needs a target and none is given.\<close>

theorem create_shadow:
  assumes "nm \<noteq> []"
  shows "create (Some nm) argv t (registerFactory nm (Some f2) h2 n2 (registerFactory nm f1 h1 n1 es)) =
           (if n2 \<and> (t = None \<or> t = Some []) then Inl (RuntimeErr ''Missing <target>'') else f2 argv t)"
  using assms by (simp add: create_def find_reg_register del: length_registerFactory)

text \<open>\<open>create\<close> with a non-empty name no entry carries fails with a runtime
  error.\<close>

theorem create_unregistered:
  "nm \<notin> set (printRegisteredDrivers es) \<Longrightarrow> nm \<noteq> [] \<Longrightarrow>
   create (Some nm) argv t es = Inl (RuntimeErr ''Internal Error: No driver module registered'')"
  by (simp add: create_def find_reg_absent)

text \<open>C30: selecting a driver that is not registered loads the module of that name;
  if the module registers one driver, that driver is created, whatever name it
  registered under.\<close>

theorem selectDriver_loaded:
  assumes "drvnam \<noteq> ''udpLoopback''" "drvnam \<notin> set (printRegisteredDrivers reg)" "drvnam \<noteq> []"
    and "dl drvnam reg = Inr (registerFactory n (Some f) h nt reg)"
    and "\<not> nt \<or> (\<exists>a. target = Some a \<and> a \<noteq> [])"
  shows "selectDriver dl drvnam argv target reg = (registerFactory n (Some f) h nt reg, map_sum id Registered (f argv target))"
proof -
  have "\<not> has (Some drvnam) reg" using assms(2,3) by (simp add: has_def find_reg_absent)
  moreover have "create None argv target (registerFactory n (Some f) h nt reg) = f argv target"
    using assms(5) by (auto simp: create_def find_reg_def)
  ultimately show ?thesis using assms(1,4) by (simp add: selectDriver_def loadDriver_def)
qed

subsection \<open>Witnesses\<close>

lemma find_reg_spec_witness:
  "''axis'' \<noteq> [] \<and>
   find_reg (Some ''axis'') (registerFactory ''axis'' (None :: nat factory option) (None :: unit option) False []) =
     find_spec ''axis'' (registerFactory ''axis'' (None :: nat factory option) (None :: unit option) False [])"
  using find_reg_spec [of "''axis''" "registerFactory ''axis'' (None :: nat factory option) (None :: unit option) False []"]
  by simp

lemma find_reg_null_last_witness:
  "registerFactory ''axis'' (None :: nat factory option) (None :: unit option) False [] \<noteq> [] \<and>
   find_reg None (registerFactory ''axis'' (None :: nat factory option) (None :: unit option) False []) = Some 0 \<and>
   find_reg (Some []) (registerFactory ''axis'' (None :: nat factory option) (None :: unit option) False []) = Some 0"
  using find_reg_null_last [of "registerFactory ''axis'' (None :: nat factory option) (None :: unit option) False []"]
  by simp

lemma create_shadow_witness:
  "''axis'' \<noteq> [] \<and>
   create (Some ''axis'') [] None
     (registerFactory ''axis'' (Some (\<lambda>_ _. Inr (2 :: nat))) (None :: unit option) False
       (registerFactory ''axis'' (Some (\<lambda>_ _. Inr 1)) None False [])) = Inr 2"
  using create_shadow [of "''axis''" "[]" None "\<lambda>_ _. Inr (2 :: nat)" "None :: unit option" False "Some (\<lambda>_ _. Inr 1)" None False "[]"]
  by simp

lemma create_unregistered_witness:
  "''udp'' \<notin> set (printRegisteredDrivers (registerFactory ''axis'' (Some (\<lambda>_ _. Inr (1 :: nat))) (None :: unit option) False [])) \<and>
   ''udp'' \<noteq> [] \<and>
   create (Some ''udp'') [] None (registerFactory ''axis'' (Some (\<lambda>_ _. Inr (1 :: nat))) (None :: unit option) False []) =
     Inl (RuntimeErr ''Internal Error: No driver module registered'')"
  using create_unregistered [of "''udp''" "registerFactory ''axis'' (Some (\<lambda>_ _. Inr (1 :: nat))) (None :: unit option) False []"]
  by (simp add: printRegisteredDrivers_def registerFactory_def)

lemma selectDriver_loaded_witness:
  "''mod.so'' \<noteq> ''udpLoopback'' \<and> ''mod.so'' \<notin> set (printRegisteredDrivers ([] :: (nat, unit) registry)) \<and>
   ''mod.so'' \<noteq> [] \<and>
   (\<lambda>_ r. Inr (registerFactory ''tmem'' (Some (\<lambda>_ _. Inr (7 :: nat))) None False r)) ''mod.so'' ([] :: (nat, unit) registry) =
     Inr (registerFactory ''tmem'' (Some (\<lambda>_ _. Inr (7 :: nat))) None False []) \<and>
   selectDriver (\<lambda>_ r. Inr (registerFactory ''tmem'' (Some (\<lambda>_ _. Inr (7 :: nat))) None False r)) ''mod.so'' [] (Some ''10.0.0.1'') ([] :: (nat, unit) registry) =
     (registerFactory ''tmem'' (Some (\<lambda>_ _. Inr (7 :: nat))) None False [], Inr (Registered 7))"
  using selectDriver_loaded [of "''mod.so''" "[] :: (nat, unit) registry" "\<lambda>_ r. Inr (registerFactory ''tmem'' (Some (\<lambda>_ _. Inr (7 :: nat))) None False r)"
      "''tmem''" "\<lambda>_ _. Inr (7 :: nat)" None False "Some ''10.0.0.1''" "[]"]
  by (simp add: printRegisteredDrivers_def)

end
