(* ===== verification/MainProg.thy ===== *)
theory MainProg
  imports Registry Driver
begin

text \<open>
  The program around the driver (\<open>xvcSrv.cc\<close>): \<open>main\<close>'s command line
  (lines 716--768), its start-up sequence (lines 773--836), and the TCP server
  \<open>XvcServer\<close> (lines 519--565). The numeric option arguments are read with
  \<open>sscanf("%i")\<close>, modelled from the C standard (\<open>sscanf_i\<close>). The socket
  system calls are an outcome parameter; a connection (\<open>XvcConn\<close>, whose
  source is not in the repository) is an outcome per connection index.
\<close>

unbundle bit_operations_syntax

subsection \<open>Reading a number: \<open>sscanf(optarg, "%i", p)\<close>\<close>

text \<open>The \<open>%i\<close> conversion skips white space, takes an optional sign, and
  reads a hexadecimal (\<open>0x\<close>), octal (leading \<open>0\<close>) or decimal number; the
  input item is the longest prefix of a possible number, and the conversion
  fails when that item is not a number (\<open>0x\<close> with no hex digit, or no digit
  at all). The result is stored through an \<open>unsigned *\<close>: modulo \<open>2^32\<close>.\<close>

definition is_space :: "char \<Rightarrow> bool" where
  "is_space c \<longleftrightarrow> (of_char c :: nat) = 32 \<or> (9 \<le> (of_char c :: nat) \<and> (of_char c :: nat) \<le> 13)"

definition digit_val :: "nat \<Rightarrow> char \<Rightarrow> nat option" where
  "digit_val base c =
     (let n = (of_char c :: nat)
      in if 48 \<le> n \<and> n \<le> 57 \<and> n - 48 < base then Some (n - 48)
         else if base = 16 \<and> 97 \<le> n \<and> n \<le> 102 then Some (n - 87)
         else if base = 16 \<and> 65 \<le> n \<and> n \<le> 70 then Some (n - 55)
         else None)"

fun digits_prefix :: "nat \<Rightarrow> string \<Rightarrow> nat list" where
  "digits_prefix base [] = []"
| "digits_prefix base (c # cs) = (case digit_val base c of None \<Rightarrow> [] | Some d \<Rightarrow> d # digits_prefix base cs)"

definition digits_value :: "nat \<Rightarrow> nat list \<Rightarrow> nat" where
  "digits_value base ds = foldl (\<lambda>a d. a * base + d) 0 ds"

definition sscanf_i :: "string \<Rightarrow> int option" where
  "sscanf_i s =
     (let s1 = dropWhile is_space s;
          neg = (take 1 s1 = ''-'');
          s2 = (if take 1 s1 = ''-'' \<or> take 1 s1 = ''+'' then drop 1 s1 else s1);
          sg = (\<lambda>v :: nat. if neg then - int v else int v)
      in if take 1 s2 = ''0'' \<and> (take 2 s2 = ''0x'' \<or> take 2 s2 = ''0X'')
         then (let ds = digits_prefix 16 (drop 2 s2) in if ds = [] then None else Some (sg (digits_value 16 ds)))
         else if take 1 s2 = ''0'' then Some (sg (digits_value 8 (digits_prefix 8 s2)))
         else (let ds = digits_prefix 10 s2 in if ds = [] then None else Some (sg (digits_value 10 ds))))"

definition scan_u32 :: "string \<Rightarrow> 32 word option" where
  "scan_u32 s = map_option word_of_int (sscanf_i s)"

subsection \<open>The command line\<close>

text \<open>\<open>main\<close>'s locals that the options set, and their initial values;
  \<open>DEFAULTDRVNAME\<close> (a macro of the header) is the parameter \<open>dflt\<close>.\<close>

record main_cfg =
  debug_c :: "32 word"
  target_c :: "string option"
  drvnam_c :: string
  port_c :: "32 word"
  maxMsg_c :: "32 word"
  testMode_c :: "32 word"
  setTest_c :: bool
  once_c :: bool
  help_c :: bool

definition main_defaults :: "string \<Rightarrow> main_cfg" where
  "main_defaults dflt =
     \<lparr>debug_c = 0, target_c = None, drvnam_c = dflt, port_c = 2542, maxMsg_c = 32768,
      testMode_c = 0, setTest_c = False, once_c = False, help_c = False\<rparr>"

text \<open>The option loop over what \<open>getopt(argc, argv, "hvVost:D:p:M:T:")\<close>
  returns: each option character with its argument (\<open>''\<close> for flags; an
  unknown option or a missing argument comes back as \<open>?\<close>). \<open>Inl\<close> is
  \<open>main\<close>'s return value when the loop returns early.\<close>

fun main_opts :: "(char \<times> string) list \<Rightarrow> main_cfg \<Rightarrow> int + main_cfg" where
  "main_opts [] c = Inr c"
| "main_opts ((opt, arg) # os) c =
     (if opt = CHR ''h'' then main_opts os (c\<lparr>help_c := True\<rparr>)
      else if opt = CHR ''v'' then main_opts os (c\<lparr>debug_c := debug_c c + 1\<rparr>)
      else if opt = CHR ''V'' then Inl 0
      else if opt = CHR ''t'' then main_opts os (c\<lparr>target_c := Some arg\<rparr>)
      else if opt = CHR ''s'' then main_opts os (c\<lparr>debug_c := debug_c c OR 0x100\<rparr>)
      else if opt = CHR ''D'' then main_opts os (c\<lparr>drvnam_c := arg\<rparr>)
      else if opt = CHR ''M'' then
        (case scan_u32 arg of None \<Rightarrow> Inl 1 | Some v \<Rightarrow> main_opts os (c\<lparr>maxMsg_c := v\<rparr>))
      else if opt = CHR ''p'' then
        (case scan_u32 arg of None \<Rightarrow> Inl 1 | Some v \<Rightarrow> main_opts os (c\<lparr>port_c := v\<rparr>))
      else if opt = CHR ''T'' then
        (case scan_u32 arg of None \<Rightarrow> Inl 1 | Some v \<Rightarrow> main_opts os (c\<lparr>testMode_c := v, setTest_c := True\<rparr>))
      else if opt = CHR ''o'' then main_opts os (c\<lparr>once_c := True\<rparr>)
      else Inl 1)"

text \<open>\<open>usage()\<close> of \<open>main\<close> (lines 567--585): the lines it prints for the
  program name \<open>nm\<close>, one per driver of the registry and the default
  driver's name \<open>dflt\<close>.\<close>

definition main_usage :: "string \<Rightarrow> string \<Rightarrow> ('d, 'h) registry \<Rightarrow> string list" where
  "main_usage nm dflt reg =
     (let nl = [CHR 0x0A]; q = [CHR 0x27]
      in [''Usage: '' @ nm @ '' [-v{v}] [-Vh] [-D <driver>] [-p <port>] -t <target> [ -- <driver_options>]'' @ nl,
          ''  -t <target> : contact target (depends on driver; e.g., <ip[:port]>)'' @ nl,
          ''  -h          : this message'' @ nl,
          ''  -D <driver> : use transport driver '' @ q @ ''driver'' @ q @ nl,
          ''                   built-in drivers:'' @ nl] @
         map (\<lambda>n. ''                   '' @ q @ n @ q @ nl) (printRegisteredDrivers reg) @
         [''                   '' @ q @ ''udpLoopback'' @ q @ nl,
          ''                the default driver is: '' @ q @ dflt @ q @ nl,
          ''  -p <port>   : bind to TCP port <port> (default: 2542)'' @ nl,
          ''  -M          : max XVC vector size (default 32768)'' @ nl,
          ''  -v          : verbose (more '' @ q @ ''v'' @ q @ ''s increase verbosity)'' @ nl,
          ''  -V          : print version information'' @ nl,
          ''  -T <mode>   : set test mode/flags'' @ nl])"

subsection \<open>Start-up\<close>

text \<open>After the options: with \<open>-h\<close>, the usage of the selected driver and exit
  0 (exit 1 when the driver cannot be loaded); otherwise the driver is selected
  and created (a \<open>runtime_error\<close> is caught and gives exit 1), its debug level
  set, the virtual \<open>init()\<close> (the parameter \<open>drvInit\<close>; an exception from it
  is not caught) run, and only then the test mode applied. The UDP loopback
  pseudo-driver's classes are not in the sources.\<close>

datatype 'd main_start_result = StartExit int | StartAbort xvc_error | StartUdp | StartServe 'd

definition main_start ::
  "('z jtag_driver_scheme, 'h) dlopen_fn \<Rightarrow> ('z jtag_driver_scheme \<Rightarrow> 'z jtag_driver_scheme \<times> (xvc_error + unit))
     \<Rightarrow> string list \<Rightarrow> ('z jtag_driver_scheme, 'h) registry \<Rightarrow> main_cfg \<Rightarrow> 'z jtag_driver_scheme main_start_result" where
  "main_start dl drvInit argv reg cfg =
     (if help_c cfg then
        (if drvnam_c cfg = ''udpLoopback'' then StartExit 0
         else (case loadDriver dl (drvnam_c cfg) reg of Inl e \<Rightarrow> StartExit 1 | Inr _ \<Rightarrow> StartExit 0))
      else
        (case snd (selectDriver dl (drvnam_c cfg) argv (target_c cfg) reg) of
           Inl e \<Rightarrow> StartExit 1
         | Inr UdpLoopback \<Rightarrow> StartUdp
         | Inr (Registered drv) \<Rightarrow>
             (case drvInit (setDebug (debug_c cfg) drv) of
                (d, Inl e) \<Rightarrow> StartAbort e
              | (d, Inr _) \<Rightarrow> StartServe (if setTest_c cfg then setTestMode (testMode_c cfg) d else d))))"

subsection \<open>The server\<close>

text \<open>\<open>XvcServer\<close>'s constructor: a stream socket, \<open>SO_REUSEADDR\<close>, \<open>bind\<close>
  to the port and \<open>listen\<close>; the port parameter is a \<open>uint16_t\<close>. \<open>sys\<close>
  tells which system calls succeed.\<close>

datatype sock_call = SockCreate | SockReuse | SockBind "16 word" | SockListen

record 'd xvc_server =
  drv_s :: 'd
  debug_s :: "32 word"
  maxMsgSize_s :: "32 word"
  once_s :: bool

definition XvcServer ::
  "(sock_call \<Rightarrow> bool) \<Rightarrow> 16 word \<Rightarrow> 'd \<Rightarrow> 32 word \<Rightarrow> 32 word \<Rightarrow> bool \<Rightarrow> xvc_error + 'd xvc_server" where
  "XvcServer sys port drv debug maxMsgSize once =
     (if \<not> sys SockCreate then Inl (SysErr ''Unable to create Socket'')
      else if \<not> sys SockReuse then Inl (SysErr ''setsockopt(SO_REUSEADDR) failed'')
      else if \<not> sys (SockBind port) then Inl (SysErr ''Unable to bind Stream socket to local address'')
      else if \<not> sys SockListen then Inl (SysErr ''Unable to listen on socket'')
      else Inr \<lparr>drv_s = drv, debug_s = debug, maxMsgSize_s = maxMsgSize, once_s = once\<rparr>)"

text \<open>\<open>run()\<close>: connection \<open>i\<close> is accepted (\<open>acc i\<close>: the constructor of
  \<open>XvcConn\<close> may throw, outside the \<open>try\<close>) and served (\<open>srv i\<close>); a
  \<open>SysErr\<close> from serving closes the connection and the loop goes on unless
  \<open>once_\<close>; any other exception leaves \<open>run()\<close>. The result is the number of
  connections begun and the exception that ended the loop, if any; a server
  that is never stopped is \<open>None\<close>.\<close>

definition is_SysErr :: "xvc_error \<Rightarrow> bool" where
  "is_SysErr e \<longleftrightarrow> (case e of SysErr _ \<Rightarrow> True | _ \<Rightarrow> False)"

partial_function (option) xvc_run ::
  "(nat \<Rightarrow> xvc_error option) \<Rightarrow> (nat \<Rightarrow> xvc_error + unit) \<Rightarrow> bool \<Rightarrow> nat \<Rightarrow> (nat \<times> xvc_error option) option" where
  "xvc_run acc srv once i =
     (case acc i of
        Some e \<Rightarrow> Some (i, Some e)
      | None \<Rightarrow>
          (case srv i of
             Inl e \<Rightarrow> if is_SysErr e then (if once then Some (Suc i, None) else xvc_run acc srv once (Suc i))
                       else Some (Suc i, Some e)
           | Inr _ \<Rightarrow> if once then Some (Suc i, None) else xvc_run acc srv once (Suc i)))"

text \<open>A connection that ends \<open>run()\<close>: its accept throws, or serving it throws
  something other than a \<open>SysErr\<close>.\<close>

definition fatal_conn :: "(nat \<Rightarrow> xvc_error option) \<Rightarrow> (nat \<Rightarrow> xvc_error + unit) \<Rightarrow> nat \<Rightarrow> bool" where
  "fatal_conn acc srv j =
     (case acc j of Some _ \<Rightarrow> True | None \<Rightarrow> (case srv j of Inl e \<Rightarrow> \<not> is_SysErr e | Inr _ \<Rightarrow> False))"

text \<open>Examples: a registry with one driver, \<open>tmem\<close>, whose factory builds a
  plain \<open>JtagDriver\<close>; a system where binding port 2542 fails; a server whose
  third connection times out.\<close>

definition demo_main_reg :: "(jtag_driver, unit) registry" where
  "demo_main_reg = registerFactory ''tmem'' (Some (\<lambda>argv tgt. Inr \<lparr>debug_m = 0, drop_m = 0, drEn_m = False\<rparr>)) None False []"

definition demo_sys :: "sock_call \<Rightarrow> bool" where
  "demo_sys c = (c \<noteq> SockBind 2542)"

subsection \<open>The whole program\<close>

text \<open>\<open>main\<close> from the options to the end of \<open>run()\<close>: its return value, an
  exception that ends the process, or the UDP loopback mode (whose classes are
  not in the sources). Falling off the end of \<open>main\<close> returns 0.\<close>

datatype main_result = ExitCode int | Terminated xvc_error | UdpMode

definition xvc_main ::
  "string \<Rightarrow> (char \<times> string) list \<Rightarrow> ('z jtag_driver_scheme, 'h) dlopen_fn
     \<Rightarrow> ('z jtag_driver_scheme \<Rightarrow> 'z jtag_driver_scheme \<times> (xvc_error + unit)) \<Rightarrow> string list
     \<Rightarrow> ('z jtag_driver_scheme, 'h) registry \<Rightarrow> (sock_call \<Rightarrow> bool)
     \<Rightarrow> (nat \<Rightarrow> xvc_error option) \<Rightarrow> (nat \<Rightarrow> xvc_error + unit) \<Rightarrow> main_result option" where
  "xvc_main dflt opts dl drvInit argv reg sys acc srv =
     (case main_opts opts (main_defaults dflt) of
        Inl code \<Rightarrow> Some (ExitCode code)
      | Inr cfg \<Rightarrow>
          (case main_start dl drvInit argv reg cfg of
             StartExit code \<Rightarrow> Some (ExitCode code)
           | StartAbort e \<Rightarrow> Some (Terminated e)
           | StartUdp \<Rightarrow> Some UdpMode
           | StartServe drv \<Rightarrow>
               (case XvcServer sys (ucast (port_c cfg)) drv (debug_c cfg) (maxMsg_c cfg) (once_c cfg) of
                  Inl e \<Rightarrow> Some (Terminated e)
                | Inr sv \<Rightarrow>
                    (case xvc_run acc srv (once_s sv) 0 of
                       None \<Rightarrow> None
                     | Some (n, Some e) \<Rightarrow> Some (Terminated e)
                     | Some (n, None) \<Rightarrow> Some (ExitCode 0)))))"

subsection \<open>Reading numbers back\<close>

lemma of_char_digit: "d < 10 \<Longrightarrow> (of_char (char_of (48 + d)) :: nat) = 48 + d"
  by (simp add: of_char_of)

lemma digit_val_dec: "d < 10 \<Longrightarrow> digit_val 10 (char_of (48 + d)) = Some d"
  by (simp add: digit_val_def of_char_digit)

lemma dec_digits_digits: "c \<in> set (dec_digits n) \<Longrightarrow> \<exists>d :: nat. d < 10 \<and> c = char_of (48 + d)"
proof (induction n rule: dec_digits.induct)
  case (1 n)
  then show ?case
    by (subst (asm) dec_digits.simps) (auto split: if_splits intro: exI [of _ "n mod 10"])
qed

lemma digits_prefix_append:
  "(\<forall>c \<in> set xs. digit_val b c \<noteq> None) \<Longrightarrow> digits_prefix b (xs @ ys) = digits_prefix b xs @ digits_prefix b ys"
  by (induction xs) auto

lemma digits_value_snoc: "digits_value b (ds @ [d]) = digits_value b ds * b + d"
  by (simp add: digits_value_def)

lemma digits_prefix_dec_digits: "digits_value 10 (digits_prefix 10 (dec_digits n)) = n \<and> digits_prefix 10 (dec_digits n) \<noteq> []"
proof (induction n rule: dec_digits.induct)
  case (1 n)
  show ?case
  proof (cases "n < 10")
    case True
    then have "dec_digits n = [char_of (48 + n)]" by (subst dec_digits.simps) simp
    then show ?thesis using True by (simp add: digit_val_dec digits_value_def)
  next
    case False
    have all: "\<forall>c \<in> set (dec_digits (n div 10)). digit_val 10 c \<noteq> None"
      using dec_digits_digits digit_val_dec by fastforce
    have "dec_digits n = dec_digits (n div 10) @ [char_of (48 + n mod 10)]"
      using False by (subst dec_digits.simps) simp
    then show ?thesis
      using "1.IH" [OF False] all by (simp add: digits_prefix_append digit_val_dec digits_value_snoc)
  qed
qed

lemma dec_digits_lead:
  "0 < n \<Longrightarrow> \<exists>(d :: nat) cs. 0 < d \<and> d < 10 \<and> dec_digits n = char_of (48 + d) # cs"
proof (induction n rule: dec_digits.induct)
  case (1 n)
  show ?case
  proof (cases "n < 10")
    case True
    then have "dec_digits n = [char_of (48 + n)]" by (subst dec_digits.simps) simp
    then show ?thesis using "1.prems" True by blast
  next
    case False
    then obtain d :: nat and cs where "0 < d" "d < 10" "dec_digits (n div 10) = char_of (48 + d) # cs"
      using "1.IH" by fastforce
    moreover have "dec_digits n = dec_digits (n div 10) @ [char_of (48 + n mod 10)]"
      using False by (subst dec_digits.simps) simp
    ultimately show ?thesis by auto
  qed
qed

lemma lead_digit_chars:
  fixes d :: nat
  assumes "0 < d" "d < 10"
  shows "char_of (48 + d) \<noteq> CHR ''0''" "char_of (48 + d) \<noteq> CHR ''-''" "char_of (48 + d) \<noteq> CHR ''+''"
    "\<not> is_space (char_of (48 + d))"
proof -
  have o: "(of_char (char_of (48 + d)) :: nat) = 48 + d" using assms(2) by (rule of_char_digit)
  have ne: "(of_char c :: nat) \<noteq> 48 + d \<Longrightarrow> char_of (48 + d) \<noteq> c" for c using o by auto
  show "char_of (48 + d) \<noteq> CHR ''0''" "char_of (48 + d) \<noteq> CHR ''-''" "char_of (48 + d) \<noteq> CHR ''+''"
    by (rule ne, use assms in simp)+
  show "\<not> is_space (char_of (48 + d))" using o by (simp add: is_space_def)
qed

text \<open>\<open>sscanf("%i")\<close> of the decimal digits of \<open>n\<close> gives \<open>n\<close>.\<close>

lemma sscanf_i_dec_digits: "sscanf_i (dec_digits n) = Some (int n)"
proof (cases "n = 0")
  case True
  have z: "char_of (48 :: nat) = CHR ''0''" using char_of_char [of "CHR ''0''"] by simp
  then have "dec_digits n = ''0''" using True by (subst dec_digits.simps) simp
  then show ?thesis using True by (simp add: sscanf_i_def is_space_def digit_val_def digits_value_def)
next
  case False
  then obtain d :: nat and cs where d: "0 < d" "d < 10" and e: "dec_digits n = char_of (48 + d) # cs"
    using dec_digits_lead by blast
  have p: "digits_prefix 10 (dec_digits n) \<noteq> []" "digits_value 10 (digits_prefix 10 (dec_digits n)) = n"
    using digits_prefix_dec_digits by auto
  show ?thesis
    using lead_digit_chars [OF d] p unfolding sscanf_i_def Let_def e by simp
qed

subsection \<open>The port\<close>

lemma scan_u32_dec_digits: "scan_u32 (dec_digits n) = Some (word_of_nat n)"
  by (simp add: scan_u32_def sscanf_i_dec_digits)

lemma main_opts_port: "main_opts [(CHR ''p'', dec_digits n)] c = Inr (c\<lparr>port_c := word_of_nat n\<rparr>)"
  by (simp add: scan_u32_dec_digits)

text \<open>The numeric options read their decimal arguments back: \<open>-M m -T t
  -p p\<close> sets \<open>maxMsg\<close>, \<open>testMode\<close> (and \<open>setTest\<close>) and \<open>port\<close> to the
  numbers written, modulo \<open>2^32\<close> as the \<open>unsigned\<close> locals hold them.\<close>

theorem main_opts_numeric:
  "main_opts [(CHR ''M'', dec_digits m), (CHR ''T'', dec_digits t), (CHR ''p'', dec_digits p)] c =
     Inr (c\<lparr>maxMsg_c := word_of_nat m, testMode_c := word_of_nat t, setTest_c := True, port_c := word_of_nat p\<rparr>)"
  by (simp add: scan_u32_dec_digits)

lemma unat_ucast_port: "unat (ucast (word_of_nat n :: 32 word) :: 16 word) = n mod 65536"
proof -
  have "unat (ucast (word_of_nat n :: 32 word) :: 16 word) = take_bit 16 (take_bit 32 n)"
    by (simp add: unsigned_ucast_eq unsigned_of_nat)
  also have "\<dots> = n mod 65536" by (simp add: take_bit_eq_mod mod_mod_cancel)
  finally show ?thesis .
qed

text \<open>C26: the port given with \<open>-p\<close> is not range-checked: \<open>main\<close> hands the
  \<open>unsigned\<close> value to \<open>XvcServer\<close>, whose parameter is a \<open>uint16_t\<close>, so
  \<open>-p n\<close> binds port \<open>n mod 65536\<close>.\<close>

theorem xvc_main_port_wraps:
  assumes st: "main_start dl drvInit argv reg ((main_defaults dflt)\<lparr>port_c := word_of_nat n\<rparr>) = StartServe drv"
    and sys: "sys SockCreate" "sys SockReuse" "\<not> sys (SockBind (word_of_nat (n mod 65536)))"
  shows "xvc_main dflt [(CHR ''p'', dec_digits n)] dl drvInit argv reg sys acc srv =
           Some (Terminated (SysErr ''Unable to bind Stream socket to local address''))"
proof -
  have "(ucast (word_of_nat n :: 32 word) :: 16 word) = word_of_nat (n mod 65536)"
    by (rule word_unat_eq_iff [THEN iffD2]) (simp add: unat_ucast_port unat_of_nat)
  then show ?thesis using st sys unfolding xvc_main_def main_opts_port by (simp add: XvcServer_def)
qed

subsection \<open>The server loop\<close>

lemma xvc_run_step:
  "\<not> fatal_conn acc srv i \<Longrightarrow> xvc_run acc srv False i = xvc_run acc srv False (Suc i)"
  by (subst xvc_run.simps) (auto simp: fatal_conn_def split: option.split sum.split)

lemma xvc_run_fatal:
  "fatal_conn acc srv i \<Longrightarrow> xvc_run acc srv once i \<noteq> None"
  by (subst xvc_run.simps) (auto simp: fatal_conn_def split: option.split sum.split)

lemma xvc_run_reaches: "fatal_conn acc srv j \<Longrightarrow> i \<le> j \<Longrightarrow> xvc_run acc srv False i \<noteq> None"
proof (induction "j - i" arbitrary: i)
  case 0
  then show ?case using xvc_run_fatal by (metis diff_is_0_eq le_antisym)
next
  case (Suc m)
  show ?case
  proof (cases "fatal_conn acc srv i")
    case True
    then show ?thesis by (rule xvc_run_fatal)
  next
    case False
    then show ?thesis using Suc xvc_run_step [OF False] by (metis Suc_diff_Suc diff_Suc_1 not_less_eq_eq Suc_leI le_neq_implies_less)
  qed
qed

lemma xvc_run_returns:
  assumes "xvc_run acc srv once i = Some r" "\<not> once"
  shows "\<exists>j \<ge> i. fatal_conn acc srv j"
proof -
  have "\<not> once' \<longrightarrow> (\<exists>j \<ge> i'. fatal_conn acc' srv' j)" if "xvc_run acc' srv' once' i' = Some r'" for acc' srv' once' i' r'
  proof (rule xvc_run.raw_induct [where P = "\<lambda>acc srv once i r. \<not> once \<longrightarrow> (\<exists>j \<ge> i. fatal_conn acc srv j)", OF _ that])
    fix f acc srv once i r
    assume IH: "\<And>acc srv once i r. f acc srv once i = Some r \<Longrightarrow> \<not> once \<longrightarrow> (\<exists>j \<ge> i. fatal_conn acc srv j)"
      and eq: "(case acc i of
                 Some e \<Rightarrow> Some (i, Some e)
               | None \<Rightarrow>
                   (case srv i of
                      Inl e \<Rightarrow> if is_SysErr e then (if once then Some (Suc i, None) else f acc srv once (Suc i))
                                else Some (Suc i, Some e)
                    | Inr _ \<Rightarrow> if once then Some (Suc i, None) else f acc srv once (Suc i))) = Some r"
    show "\<not> once \<longrightarrow> (\<exists>j \<ge> i. fatal_conn acc srv j)"
    proof
      assume no: "\<not> once"
      show "\<exists>j \<ge> i. fatal_conn acc srv j"
      proof (cases "fatal_conn acc srv i")
        case True
        then show ?thesis by blast
      next
        case False
        then have "f acc srv once (Suc i) = Some r" using eq no
          by (auto simp: fatal_conn_def split: option.splits sum.splits if_splits)
        then obtain j where "j \<ge> Suc i" "fatal_conn acc srv j" using IH no by blast
        then show ?thesis by (intro exI [of _ j]) simp
      qed
    qed
  qed
  then show ?thesis using assms by blast
qed

text \<open>C25: without \<open>-o\<close> the server loop runs until a connection fails fatally:
  \<open>run()\<close> returns exactly when some later connection's accept throws or its
  service throws an exception other than \<open>SysErr\<close>; socket errors only close
  the connection.\<close>

theorem xvc_run_stops_iff:
  "xvc_run acc srv False i \<noteq> None \<longleftrightarrow> (\<exists>j \<ge> i. fatal_conn acc srv j)"
  using xvc_run_reaches xvc_run_returns by blast


subsection \<open>Witnesses\<close>

lemma xvc_main_port_wraps_witness:
  "main_start (\<lambda>_ _. Inl ''no module'') (\<lambda>d. (d, Inr ())) [] demo_main_reg
     ((main_defaults ''tmem'')\<lparr>port_c := word_of_nat 68078\<rparr>) = StartServe \<lparr>debug_m = 0, drop_m = 0, drEn_m = False\<rparr> \<and>
   demo_sys SockCreate \<and> demo_sys SockReuse \<and> \<not> demo_sys (SockBind (word_of_nat (68078 mod 65536))) \<and>
   xvc_main ''tmem'' [(CHR ''p'', dec_digits 68078)] (\<lambda>_ _. Inl ''no module'') (\<lambda>d. (d, Inr ())) [] demo_main_reg
     demo_sys (\<lambda>_. None) (\<lambda>_. Inr ()) = Some (Terminated (SysErr ''Unable to bind Stream socket to local address''))"
proof -
  have st: "main_start (\<lambda>_ _. Inl ''no module'') (\<lambda>d. (d, Inr ())) [] demo_main_reg
     ((main_defaults ''tmem'')\<lparr>port_c := word_of_nat 68078\<rparr>) = StartServe \<lparr>debug_m = 0, drop_m = 0, drEn_m = False\<rparr>"
    by (simp add: main_start_def main_defaults_def selectDriver_def loadDriver_def has_def create_def find_reg_def
        demo_main_reg_def registerFactory_def setDebug_def)
  have sy: "demo_sys SockCreate" "demo_sys SockReuse" "\<not> demo_sys (SockBind (word_of_nat (68078 mod 65536)))"
    by (simp_all add: demo_sys_def)
  show ?thesis using xvc_main_port_wraps [OF st sy, of "\<lambda>_. None" "\<lambda>_. Inr ()"] st sy by simp
qed

lemma xvc_run_stops_iff_witness:
  "fatal_conn (\<lambda>_. None) (\<lambda>i. if i < 2 then Inl (SysErr ''reset'') else Inl TimeoutErr) 2 \<and>
   xvc_run (\<lambda>_. None) (\<lambda>i. if i < 2 then Inl (SysErr ''reset'') else Inl TimeoutErr) False 0 \<noteq> None"
proof -
  have f: "fatal_conn (\<lambda>_. None) (\<lambda>i. if i < 2 then Inl (SysErr ''reset'') else Inl TimeoutErr) 2"
    by (simp add: fatal_conn_def is_SysErr_def)
  then show ?thesis using xvc_run_stops_iff [of "\<lambda>_. None" "\<lambda>i. if i < 2 then Inl (SysErr ''reset'') else Inl TimeoutErr" 0]
    by auto
qed

end
