(* ===== verification/TmemMain.thy ===== *)
theory TmemMain
  imports TmemInit MainProg
begin

text \<open>
  The TMEM transport inside the program: its registration under the name
  \<open>tmem\<close> (\<open>xvcDrvAxisTmem.cc\<close> line 250, a static \<open>DriverRegistrar\<close>
  whose template is in the missing header: it registers a factory that
  constructs the driver, the driver's usage helper, and a needs-target flag,
  here the parameter \<open>nt\<close>), and the parsing of the target string at the top
  of the constructor (lines 43--48): \<open>toscaStrToAddrSpace\<close> of the TOSCA
  library (the parameter \<open>tosca\<close>: the address space and the rest of the
  string) and \<open>strtoul(basp, &endp, 0)\<close>. The driver options after \<open>--\<close> are
  what \<open>getopt\<close> returns for the arguments (the parameter \<open>getopt\<close>). On the
  FIFO model, \<open>main\<close> then runs from the command line to the end of the
  server loop.
\<close>

unbundle bit_operations_syntax

subsection \<open>Registration and construction from the command line\<close>

text \<open>\<open>strtoul\<close> with base 0: \<open>None\<close> when no conversion is performed
  (\<open>endp == basp\<close>); a value beyond \<open>unsigned long\<close> saturates, a negative
  one wraps.\<close>

definition strtoul0 :: "string \<Rightarrow> nat option" where
  "strtoul0 s =
     (let s1 = dropWhile is_space s;
          neg = (take 1 s1 = ''-'');
          s2 = (if take 1 s1 = ''-'' \<or> take 1 s1 = ''+'' then drop 1 s1 else s1);
          val = (\<lambda>v :: nat. if 2 ^ 64 \<le> v then 2 ^ 64 - 1 else if neg then (2 ^ 64 - v) mod 2 ^ 64 else v)
      in if take 2 s2 = ''0x'' \<or> take 2 s2 = ''0X''
         then Some (val (digits_value 16 (digits_prefix 16 (drop 2 s2))))
         else if take 1 s2 = ''0'' then Some (val (digits_value 8 (digits_prefix 8 s2)))
         else (let ds = digits_prefix 10 s2 in if ds = [] then None else Some (val (digits_value 10 ds))))"

definition tmem_factory ::
  "'dev tmem_env \<Rightarrow> (string option \<Rightarrow> nat \<times> string) \<Rightarrow> (string list \<Rightarrow> (char \<times> string) list) \<Rightarrow> (string \<Rightarrow> int)
     \<Rightarrow> xid \<Rightarrow> 'dev \<Rightarrow> 'dev tmem_drv factory" where
  "tmem_factory env tosca getopt openfd x0 d argv tgt =
     (let (sp, basp) = tosca tgt
      in JtagDriverTmemFifo env 0 x0 d sp (strtoul0 basp) (getopt argv) openfd)"

definition tmem_registrar ::
  "bool \<Rightarrow> 'h \<Rightarrow> 'dev tmem_env \<Rightarrow> (string option \<Rightarrow> nat \<times> string) \<Rightarrow> (string list \<Rightarrow> (char \<times> string) list)
     \<Rightarrow> (string \<Rightarrow> int) \<Rightarrow> xid \<Rightarrow> 'dev \<Rightarrow> ('dev tmem_drv, 'h) registry \<Rightarrow> ('dev tmem_drv, 'h) registry" where
  "tmem_registrar nt hlp env tosca getopt openfd x0 d reg =
     registerFactory ''tmem'' (Some (tmem_factory env tosca getopt openfd x0 d)) (Some hlp) nt reg"

subsection \<open>Destruction and usage\<close>

text \<open>The destructor (lines 87--92) closes the interrupt descriptor when it is
  valid; the result is the list of descriptors closed. \<open>usage()\<close> (lines
  242--248) prints the driver's options.\<close>

definition tmem_destroy :: "'dev tmem_drv \<Rightarrow> int list" where
  "tmem_destroy s = (if 0 \<le> irqFd_m (axis_driver.more s) then [irqFd_m (axis_driver.more s)] else [])"

definition tmem_usage :: "string list" where
  "tmem_usage =
     [''  Axi Stream <-> TMEM Fifo Driver options: [-i]'' @ [CHR 0x0A],
      ''  -t <aspace>:<base_address>, e.g., -t USER2:0x200000'' @ [CHR 0x0A],
      ''  -i <irq_file_name>        , e.g., -i /dev/toscauserevent1.13 (defaults to polled mode)'' @ [CHR 0x0A]]"

subsection \<open>\<open>main\<close> with the TMEM transport on the FIFO model\<close>

lemma selectDriver_tmem:
  assumes "\<not> nt \<or> tgt \<noteq> []"
  shows "selectDriver dl ''tmem'' argv (Some tgt) (tmem_registrar nt hlp env tosca getopt openfd x0 d []) =
           (tmem_registrar nt hlp env tosca getopt openfd x0 d [],
            map_sum id Registered (tmem_factory env tosca getopt openfd x0 d argv (Some tgt)))"
  using assms by (auto simp: selectDriver_def loadDriver_def has_def find_reg_def create_def tmem_registrar_def registerFactory_def)

text \<open>The driver the factory builds for a target naming the FIFO's base.\<close>

lemma tmem_factory_fifo:
  assumes ok: "hw_ok h k" and tg: "tosca (Some tgt) = (sp, basp)" "sp \<noteq> 0" "strtoul0 basp = Some b"
    and go: "getopt argv = []"
    and v: "drop_bit (FIFO_CSR_VERSS h) (fifo_csr h (d\<lparr>txq_d := [], rxq_d := []\<rparr>) AND FIFO_CSR_VERSM h) = SUPPORTED_VERS h"
  shows "tmem_factory (fifo_env h le peer b) tosca getopt openfd x0 d argv (Some tgt) =
           Inr (JtagDriverAxisToJtag 0 x0
                  \<lparr>toscaSpace_m = sp, toscaBase_m = b, irqFd_m = -1, wrdSiz_m = 4,
                   maxVec_m = maxVecOf h (fifo_csr h (d\<lparr>txq_d := [], rxq_d := []\<rparr>)), dev_m = d\<lparr>txq_d := [], rxq_d := []\<rparr>\<rparr>)"
  using JtagDriverTmemFifo_fifo [OF ok tg(2), of "[]" None le peer b 0 x0 d openfd] v tg(1,3) go
  by (simp add: tmem_factory_def Let_def)

lemma xvc_run_once: "acc 0 = None \<Longrightarrow> srv 0 = Inr () \<Longrightarrow> xvc_run acc srv True 0 = Some (Suc 0, None)"
  by (subst xvc_run.simps) simp

text \<open>C15: \<open>main -D tmem -t <target> -o\<close> on the FIFO model: the driver is
  looked up in the registry, constructed at the base address the target
  names, initialised through the FIFO, and the server runs; the exit is
  decided by the firmware's answer to the Query: a valid word size of 4
  serves the connection and exits 0, any other word size ends the process with
  the exception \<open>init()\<close> throws.\<close>

theorem xvc_main_tmem:
  assumes ok: "hw_ok h k" "0 < k"
    and tg: "tosca (Some tgt) = (sp, basp)" "sp \<noteq> 0" "strtoul0 basp = Some b" "tgt \<noteq> []"
    and go: "getopt argv = []"
    and v: "drop_bit (FIFO_CSR_VERSS h) (fifo_csr h (d\<lparr>txq_d := [], rxq_d := []\<rparr>) AND FIFO_CSR_VERSM h) = SUPPORTED_VERS h"
    and xf: "tmem_dispatch (fifo_env h le peer b) xf"
    and fw: "peer (frame le (le32 mkQuery)) = frame le (le32 r)" "getErr r = 0"
    and sys: "\<And>c. sys c" and conn: "acc 0 = None" "srv 0 = Inr ()"
  shows "xvc_main dflt [(CHR ''D'', ''tmem''), (CHR ''t'', tgt), (CHR ''o'', [])] dl
            (tmem_init (fifo_env h le peer b) ref xf) argv
            (tmem_registrar nt hlp (fifo_env h le peer b) tosca getopt openfd x0 d []) sys acc srv =
         Some (if wordSize r < 4 then Terminated (ProtoErr ''Received invalid word size'')
               else if wordSize r \<noteq> 4
               then Terminated (RuntimeErr ''ERROR: firmware misconfigured -- FIFO word size /= JTAG stream word size'')
               else ExitCode 0)"
proof -
  define s0 where "s0 = JtagDriverAxisToJtag 0 x0
      \<lparr>toscaSpace_m = sp, toscaBase_m = b, irqFd_m = -1, wrdSiz_m = 4,
       maxVec_m = maxVecOf h (fifo_csr h (d\<lparr>txq_d := [], rxq_d := []\<rparr>)), dev_m = d\<lparr>txq_d := [], rxq_d := []\<rparr>\<rparr>"
  have sel: "selectDriver dl ''tmem'' argv (Some tgt) (tmem_registrar nt hlp (fifo_env h le peer b) tosca getopt openfd x0 d []) =
               (tmem_registrar nt hlp (fifo_env h le peer b) tosca getopt openfd x0 d [], Inr (Registered s0))"
    using selectDriver_tmem [of nt tgt dl argv hlp "fifo_env h le peer b" tosca getopt openfd x0 d]
      tmem_factory_fifo [where tosca = tosca and getopt = getopt and tgt = tgt and argv = argv and d = d and h = h
        and le = le and peer = peer and openfd = openfd, OF ok(1) tg(1-3) go v] tg(4)
    by (simp add: s0_def)
  have s0: "tmem_inv h b s0" "wordSize_m s0 = 4" "\<not> drEn_m s0" "setDebug 0 s0 = s0"
    by (simp_all add: s0_def tmem_inv_def JtagDriverAxisToJtag_def setDebug_def)
  obtain s' res where ti: "tmem_init (fifo_env h le peer b) ref xf s0 = (s', res)" by fastforce
  have res: "res = (if wordSize r < 4 then Inl (ProtoErr ''Received invalid word size'')
            else if wordSize r \<noteq> 4
            then Inl (RuntimeErr ''ERROR: firmware misconfigured -- FIFO word size /= JTAG stream word size'')
            else Inr ())"
    using tmem_init_fifo_run [OF ok s0(1-3) xf fw, of ref] ti by simp
  show ?thesis
    using sel s0(4) ti res sys xvc_run_once [where acc = acc and srv = srv, OF conn]
    by (simp add: xvc_main_def main_start_def main_defaults_def XvcServer_def)
qed

subsection \<open>The interrupt descriptor over the driver's lifetime\<close>

lemma reset_irqFd [simp]: "irqFd_m (axis_driver.more (reset env s)) = irqFd_m (axis_driver.more s)"
  by (simp add: reset_def Let_def o32_dev)

lemma i32_irqFd: "i32 env i s = (s', v) \<Longrightarrow> irqFd_m (axis_driver.more s') = irqFd_m (axis_driver.more s)"
  by (auto simp: i32_dev)

lemma JtagDriverTmemFifo_irqFd:
  assumes "JtagDriverTmemFifo env dbg x0 d sp base opts openfd = Inr s"
  shows "\<exists>irqfn. parse_opts opts None = Inr irqfn \<and>
           irqFd_m (axis_driver.more s) = (case irqfn of None \<Rightarrow> -1 | Some fn \<Rightarrow> openfd fn)"
  using assms
  by (auto simp: JtagDriverTmemFifo_def Let_def JtagDriverAxisToJtag_def
           split: if_splits sum.splits prod.splits option.splits dest!: i32_irqFd)

text \<open>C24: the driver neither leaks nor misuses its interrupt descriptor: the
  destructor of a driver the constructor built closes exactly the descriptor
  that \<open>open()\<close> returned for the \<open>-i\<close> file, when that succeeded, and
  closes nothing in polled mode or when \<open>open()\<close> failed.\<close>

theorem tmem_destroy_closes_opened:
  assumes "JtagDriverTmemFifo env dbg x0 d sp base opts openfd = Inr s"
  shows "tmem_destroy s =
           (case parse_opts opts None of
              Inr (Some fn) \<Rightarrow> if 0 \<le> openfd fn then [openfd fn] else []
            | _ \<Rightarrow> [])"
  using JtagDriverTmemFifo_irqFd [OF assms] by (auto simp: tmem_destroy_def split: option.splits)

subsection \<open>Witness\<close>

text \<open>The example FIFO at base 0, named by the target \<open>USER2:0\<close> (the TOSCA
  library reads address space 1 and leaves \<open>0\<close>), answering the Query as in
  the specification's scenario; the socket calls succeed and the one
  connection is served.\<close>

lemma strtoul0_zero: "strtoul0 ''0'' = Some 0"
  by (simp add: strtoul0_def is_space_def digit_val_def digits_value_def)

lemma xvc_main_tmem_witness:
  "xvc_main ''udp'' [(CHR ''D'', ''tmem''), (CHR ''t'', ''USER2:0''), (CHR ''o'', [])] (\<lambda>_ _. Inl ''no module'')
      (tmem_init (fifo_env demo_hw True (\<lambda>_. frame True (le32 scenario_reply)) 0) 100000000
         (\<lambda>s tx hb hs rb n. the (tmem_xfer (fifo_env demo_hw True (\<lambda>_. frame True (le32 scenario_reply)) 0) s tx hb hs rb n))) []
      (tmem_registrar False () (fifo_env demo_hw True (\<lambda>_. frame True (le32 scenario_reply)) 0)
         (\<lambda>_. (1, ''0'')) (\<lambda>_. []) (\<lambda>_. -1) 0 demo_dev [])
      (\<lambda>_. True) (\<lambda>_. None) (\<lambda>_. Inr ()) = Some (ExitCode 0)"
proof -
  have v: "drop_bit (FIFO_CSR_VERSS demo_hw) (fifo_csr demo_hw (demo_dev\<lparr>txq_d := [], rxq_d := []\<rparr>) AND FIFO_CSR_VERSM demo_hw) = SUPPORTED_VERS demo_hw"
    by (simp add: fifo_csr_def demo_hw_def demo_dev_def mask_eq_exp_minus_1 push_bit_eq_mult)
  have xf: "tmem_dispatch (fifo_env demo_hw True (\<lambda>_. frame True (le32 scenario_reply)) 0)
              (\<lambda>s tx hb hs rb n. the (tmem_xfer (fifo_env demo_hw True (\<lambda>_. frame True (le32 scenario_reply)) 0) s tx hb hs rb n))"
    by (simp add: tmem_dispatch_def)
  show ?thesis
    using xvc_main_tmem [OF demo_hw_ok _ _ _ strtoul0_zero _ _ v xf _ _ _, of "\<lambda>_. (1, ''0'')" "''USER2:0''" 1
        "\<lambda>_. []" "[]" scenario_reply "\<lambda>_. True" "\<lambda>_. None" "\<lambda>_. Inr ()" "''udp''" "\<lambda>_ _. Inl ''no module''"
        100000000 False "()" "\<lambda>_. -1" 0]
      scenario_reply_fields
    by simp
qed

lemma tmem_destroy_closes_opened_witness:
  "\<exists>s. JtagDriverTmemFifo (fifo_env demo_hw True id 0) 0 0 demo_dev 1 (Some 0)
          [(CHR ''i'', ''/dev/toscauserevent1.13'')] (\<lambda>_. 7) = Inr s \<and> tmem_destroy s = [7]"
proof -
  have v: "drop_bit (FIFO_CSR_VERSS demo_hw) (fifo_csr demo_hw (demo_dev\<lparr>txq_d := [], rxq_d := []\<rparr>) AND FIFO_CSR_VERSM demo_hw) = SUPPORTED_VERS demo_hw"
    by (simp add: fifo_csr_def demo_hw_def demo_dev_def mask_eq_exp_minus_1 push_bit_eq_mult)
  obtain s where c: "JtagDriverTmemFifo (fifo_env demo_hw True id 0) 0 0 demo_dev 1 (Some 0)
          [(CHR ''i'', ''/dev/toscauserevent1.13'')] (\<lambda>_. 7) = Inr s"
    using JtagDriverTmemFifo_fifo [where h = demo_hw and k = 12 and sp = 1 and opts = "[(CHR ''i'', ''/dev/toscauserevent1.13'')]"
        and irqfn = "Some ''/dev/toscauserevent1.13''" and le = True and peer = id and b = 0 and dbg = 0 and xd = 0
        and d = demo_dev and openfd = "\<lambda>_. 7"] demo_hw_ok v
    by (simp add: Let_def)
  then show ?thesis using tmem_destroy_closes_opened [OF c] by simp
qed

end
