(* ===== verification/Vectors.thy ===== *)
theory Vectors
  imports Reliable
begin

text \<open>
  The vector reformatter \<open>JtagDriverAxisToJtag::sendVectors\<close>
  (\<open>xvcSrv.cc\<close> 423--485). The size computations are kept as in the source;
  the word-by-word copy loop is \<open>packWords\<close>, one call per iteration of the
  \<open>for\<close> loop (the loop runs \<open>wholeWords\<close> times, \<open>idx\<close> advancing by
  \<open>wsz\<close> and the write pointer \<open>wp\<close> by \<open>2 * wsz\<close>); the partial last word
  is copied after it. \<open>packRequest\<close> is the part of \<open>sendVectors\<close> that
  builds the request in \<open>txBuf_\<close> (lines 426--460); \<open>sendVectors\<close> then hands
  it to \<open>xferRel\<close> with the TDO buffer for \<open>bytesCeil\<close> reply bytes. The
  \<open>unsigned long\<close> bit count is converted to \<open>unsigned\<close> for \<open>mkShift\<close>.
  The debug printing and the sniffer call, which do not change the driver,
  are modelled in \<open>Trace\<close> (\<open>sendVectors_trace\<close>).

  \<open>interleave\<close> is the reference layout of the request body (spec 4.4, step 7):
  per word, \<open>wsz\<close> TMS bytes then \<open>wsz\<close> TDI bytes. \<open>tms_pos\<close> and
  \<open>tdi_pos\<close> say where the receiver finds byte \<open>j\<close> of each vector.
\<close>

fun packWords ::
  "nat \<Rightarrow> byte list \<Rightarrow> byte list \<Rightarrow> nat \<Rightarrow> nat \<Rightarrow> nat \<Rightarrow> byte list \<Rightarrow> byte list \<times> nat \<times> nat" where
  "packWords wsz tms tdi 0 idx wp buf = (buf, idx, wp)"
| "packWords wsz tms tdi (Suc n) idx wp buf =
     packWords wsz tms tdi n (idx + wsz) (wp + wsz + wsz)
       (blit (blit buf wp (slice tms idx wsz)) (wp + wsz) (slice tdi idx wsz))"

definition packRequest ::
  "'z axis_driver_scheme \<Rightarrow> nat \<Rightarrow> byte list \<Rightarrow> byte list \<Rightarrow> 'z axis_driver_scheme \<times> nat \<times> nat" where
  "packRequest s bits tms tdi =
     (let wsz = getWordSize s;
          bytesCeil = (bits + 8 - 1) div 8;
          wholeWords = bytesCeil div wsz;
          wholeWordBytes = wholeWords * wsz;
          wordCeilBytes = ((bytesCeil + wsz - 1) div wsz) * wsz;
          bytesLeft = bytesCeil - wholeWordBytes;
          bytesTot = wsz + 2 * wordCeilBytes;
          (x', hdr) = mkShift (xid_m s) (word_of_nat bits);
          buf1 = setHdr wsz (txBuf_m s) hdr;
          (buf2, idx, wp) = packWords wsz tms tdi wholeWords 0 wsz buf1;
          buf3 = (if bytesLeft \<noteq> 0
                  then blit (blit buf2 wp (slice tms idx bytesLeft)) (wp + wsz) (slice tdi idx bytesLeft)
                  else buf2)
      in (s\<lparr>xid_m := x', txBuf_m := buf3\<rparr>, bytesTot, bytesCeil))"

definition sendVectors ::
  "'z xfer_fn \<Rightarrow> 'z axis_driver_scheme \<Rightarrow> nat \<Rightarrow> byte list \<Rightarrow> byte list \<Rightarrow> byte list
     \<Rightarrow> 'z axis_driver_scheme \<times> byte list \<times> (xvc_error + unit)" where
  "sendVectors xf s bits tms tdi tdo =
     (let (s1, bytesTot, bytesCeil) = packRequest s bits tms tdi;
          (s2, tdo', r) = xferRel xf s1 (txBuf_m s1) bytesTot bytesCeil tdo
      in (s2, tdo', case r of Inl e \<Rightarrow> Inl e | Inr _ \<Rightarrow> Inr ()))"

fun interleave :: "nat \<Rightarrow> byte list \<Rightarrow> byte list \<Rightarrow> nat \<Rightarrow> nat \<Rightarrow> byte list" where
  "interleave wsz tms tdi idx 0 = []"
| "interleave wsz tms tdi idx (Suc n) =
     slice tms idx wsz @ slice tdi idx wsz @ interleave wsz tms tdi (idx + wsz) n"

definition tms_pos :: "nat \<Rightarrow> nat \<Rightarrow> nat" where
  "tms_pos wsz j = wsz + 2 * wsz * (j div wsz) + j mod wsz"

definition tdi_pos :: "nat \<Rightarrow> nat \<Rightarrow> nat" where
  "tdi_pos wsz j = tms_pos wsz j + wsz"

definition unpackVec :: "(nat \<Rightarrow> nat \<Rightarrow> nat) \<Rightarrow> nat \<Rightarrow> nat \<Rightarrow> byte list \<Rightarrow> byte list" where
  "unpackVec pos wsz n req = map (\<lambda>j. req ! pos wsz j) [0..<n]"

subsection \<open>The packing loop and the request layout\<close>

lemma blit_append:
  "blit (blit buf a xs) (a + length xs) ys = blit buf a (xs @ ys)"
proof -
  have l: "a + length xs \<le> length (blit buf a xs)" by (simp add: length_blit)
  have t: "take (a + length xs) (blit buf a xs) = take a buf @ replicate (a - length buf) 0 @ xs"
    by (simp add: blit_def)
  have d: "drop (a + length xs + length ys) (blit buf a xs) = drop (a + (length xs + length ys)) buf"
  proof (cases "a \<le> length buf")
    case True then show ?thesis by (simp add: blit_def algebra_simps)
  next
    case False then show ?thesis by (simp add: blit_def)
  qed
  show ?thesis
    using l by (simp add: blit_def [of "blit buf a xs"] t d) (simp add: blit_def add.assoc)
qed

lemma length_interleave:
  "idx + n * wsz \<le> length tms \<Longrightarrow> idx + n * wsz \<le> length tdi \<Longrightarrow>
   length (interleave wsz tms tdi idx n) = 2 * wsz * n"
  by (induction n arbitrary: idx) (simp_all add: length_slice algebra_simps)

lemma packWords_interleave:
  assumes "idx + n * wsz \<le> length tms" "idx + n * wsz \<le> length tdi" "wp \<le> length buf"
  shows "packWords wsz tms tdi n idx wp buf =
           (blit buf wp (interleave wsz tms tdi idx n), idx + n * wsz, wp + 2 * n * wsz)"
  using assms
proof (induction n arbitrary: idx wp buf)
  case 0
  then show ?case by (simp add: blit_def)
next
  case (Suc n)
  have l0: "wp + wsz + wsz \<le> length (blit (blit buf wp (slice tms idx wsz)) (wp + wsz) (slice tdi idx wsz))"
    using Suc.prems by (simp add: length_blit length_slice)
  have l1: "length (slice tms idx wsz) = wsz" "length (slice tdi idx wsz) = wsz"
    using Suc.prems by (simp_all add: length_slice)
  have "packWords wsz tms tdi (Suc n) idx wp buf =
          packWords wsz tms tdi n (idx + wsz) (wp + wsz + wsz)
            (blit buf wp (slice tms idx wsz @ slice tdi idx wsz))"
    using blit_append [of buf wp "slice tms idx wsz" "slice tdi idx wsz"] l1 by simp
  also have "\<dots> = (blit (blit buf wp (slice tms idx wsz @ slice tdi idx wsz)) (wp + wsz + wsz)
                     (interleave wsz tms tdi (idx + wsz) n), idx + wsz + n * wsz, wp + wsz + wsz + 2 * n * wsz)"
    using Suc.prems l0 l1 blit_append [of buf wp "slice tms idx wsz" "slice tdi idx wsz"]
    by (intro Suc.IH) (simp_all add: algebra_simps)
  also have "\<dots> = (blit buf wp (interleave wsz tms tdi idx (Suc n)), idx + Suc n * wsz, wp + 2 * Suc n * wsz)"
    using blit_append [of buf wp "slice tms idx wsz @ slice tdi idx wsz" "interleave wsz tms tdi (idx + wsz) n"] l1
    by (simp add: algebra_simps)
  finally show ?case .
qed

lemma nth_interleave:
  assumes "idx + n * wsz \<le> length tms" "idx + n * wsz \<le> length tdi" "i < n" "k < 2 * wsz"
  shows "interleave wsz tms tdi idx n ! (2 * wsz * i + k) =
           (if k < wsz then tms ! (idx + wsz * i + k) else tdi ! (idx + wsz * i + (k - wsz)))"
  using assms
proof (induction n arbitrary: idx i)
  case 0
  then show ?case by simp
next
  case (Suc n)
  have L: "length (slice tms idx wsz @ slice tdi idx wsz) = 2 * wsz"
    using Suc.prems by (simp add: length_slice)
  have I: "interleave wsz tms tdi idx (Suc n) =
             (slice tms idx wsz @ slice tdi idx wsz) @ interleave wsz tms tdi (idx + wsz) n"
    by simp
  show ?case
  proof (cases i)
    case 0
    then show ?thesis
      using Suc.prems by (auto simp: I nth_append length_slice nth_slice)
  next
    case (Suc i')
    have e: "2 * wsz * i + k = length (slice tms idx wsz @ slice tdi idx wsz) + (2 * wsz * i' + k)"
      using Suc L by simp
    have ih: "interleave wsz tms tdi (idx + wsz) n ! (2 * wsz * i' + k) =
           (if k < wsz then tms ! (idx + wsz + wsz * i' + k) else tdi ! (idx + wsz + wsz * i' + (k - wsz)))"
      using Suc.prems Suc by (intro Suc.IH) (simp_all add: algebra_simps)
    show ?thesis
      unfolding I e nth_append_length_plus using ih Suc by (simp add: algebra_simps)
  qed
qed

lemma packRequest_eq:
  fixes s :: "'z axis_driver_scheme" and bits :: nat and tms tdi :: "byte list"
  defines "wsz \<equiv> getWordSize s"
  defines "bc \<equiv> (bits + 8 - 1) div 8"
  defines "wwb \<equiv> bc div wsz * wsz"
  defines "bl \<equiv> bc - wwb"
  defines "hdr \<equiv> snd (mkShift (xid_m s) (word_of_nat bits))"
  defines "buf2 \<equiv> blit (setHdr wsz (txBuf_m s) hdr) wsz (interleave wsz tms tdi 0 (bc div wsz))"
  assumes "4 \<le> wsz" "wsz < 2 ^ 32" "bc \<le> length tms" "bc \<le> length tdi"
  shows "packRequest s bits tms tdi =
           (s\<lparr>xid_m := fst (mkShift (xid_m s) (word_of_nat bits)),
              txBuf_m := (if bl \<noteq> 0
                          then blit (blit buf2 (wsz + 2 * wwb) (slice tms wwb bl)) (wsz + 2 * wwb + wsz) (slice tdi wwb bl)
                          else buf2)\<rparr>,
            wsz + 2 * ((bc + wsz - 1) div wsz * wsz), bc)"
proof -
  obtain x' where mk: "mkShift (xid_m s) (word_of_nat bits) = (x', hdr)"
    by (metis hdr_def prod.collapse)
  have l: "wsz \<le> length (setHdr wsz (txBuf_m s) hdr)"
    using assms by (simp add: length_setHdr)
  have t1: "0 + bc div wsz * wsz \<le> length tms" "0 + bc div wsz * wsz \<le> length tdi"
    using order_trans [OF div_times_less_eq_dividend [of bc wsz]] assms by simp_all
  have p0: "packWords wsz tms tdi (bc div wsz) 0 wsz (setHdr wsz (txBuf_m s) hdr) =
           (buf2, 0 + bc div wsz * wsz, wsz + 2 * (bc div wsz) * wsz)"
    unfolding buf2_def by (rule packWords_interleave [OF t1 l])
  have p: "packWords wsz tms tdi (bc div wsz) 0 wsz (setHdr wsz (txBuf_m s) hdr) =
           (buf2, wwb, wsz + wwb + wwb)"
    using p0 by (simp add: wwb_def)
  show ?thesis
    unfolding packRequest_def Let_def mk
    by (simp only: wsz_def [symmetric] bc_def [symmetric] wwb_def [symmetric] bl_def [symmetric]
        prod.case p mk fst_conv) (simp add: mult_2 add.assoc)
qed

lemma req_positions:
  assumes "0 < wsz" "j < bc"
  shows "j < bc div wsz * wsz \<Longrightarrow> j div wsz < bc div wsz"
    and "bc div wsz * wsz \<le> j \<Longrightarrow> j div wsz = bc div wsz \<and> j mod wsz = j - bc div wsz * wsz"
    and "tms_pos wsz j = wsz + 2 * wsz * (j div wsz) + j mod wsz"
proof -
  show "j < bc div wsz * wsz \<Longrightarrow> j div wsz < bc div wsz"
    using assms by (simp add: less_mult_imp_div_less)
  show "bc div wsz * wsz \<le> j \<Longrightarrow> j div wsz = bc div wsz \<and> j mod wsz = j - bc div wsz * wsz"
  proof
    assume a: "bc div wsz * wsz \<le> j"
    have "bc div wsz \<le> j div wsz"
      using a assms(1) by (metis div_le_mono div_mult_self_is_m)
    moreover have "j div wsz \<le> bc div wsz"
      using assms by (simp add: div_le_mono)
    ultimately show q: "j div wsz = bc div wsz" by simp
    show "j mod wsz = j - bc div wsz * wsz"
      using q by (simp add: minus_div_mult_eq_mod [symmetric])
  qed
  show "tms_pos wsz j = wsz + 2 * wsz * (j div wsz) + j mod wsz"
    by (simp add: tms_pos_def)
qed

lemma remainder_nth:
  fixes buf tms tdi :: "byte list" and w bl wsz :: nat
  defines "tl2 \<equiv> \<lambda>ofs. blit (blit buf ofs (slice tms w bl)) (ofs + wsz) (slice tdi w bl)"
  assumes "ofs \<le> length buf" "bl \<le> wsz" "w + bl \<le> length tms" "w + bl \<le> length tdi"
  shows "r < bl \<Longrightarrow> tl2 ofs ! (ofs + r) = tms ! (w + r)"
    and "r < bl \<Longrightarrow> tl2 ofs ! (ofs + wsz + r) = tdi ! (w + r)"
    and "p < ofs \<Longrightarrow> tl2 ofs ! p = buf ! p"
proof -
  have ls: "length (slice tms w bl) = bl" "length (slice tdi w bl) = bl"
    using assms by (simp_all add: length_slice)
  have li: "ofs + bl \<le> length (blit buf ofs (slice tms w bl))"
    using ls by (simp add: length_blit)
  show "r < bl \<Longrightarrow> tl2 ofs ! (ofs + r) = tms ! (w + r)"
  proof -
    assume r: "r < bl"
    have "tl2 ofs ! (ofs + r) = blit buf ofs (slice tms w bl) ! (ofs + r)"
      unfolding tl2_def using r li assms(3) by (intro nth_blit_before) simp_all
    also have "\<dots> = tms ! (w + r)"
      using r ls assms by (simp add: nth_blit_inside nth_slice)
    finally show ?thesis .
  qed
  show "r < bl \<Longrightarrow> tl2 ofs ! (ofs + wsz + r) = tdi ! (w + r)"
    unfolding tl2_def using ls assms by (simp add: nth_blit_inside nth_slice)
  show "p < ofs \<Longrightarrow> tl2 ofs ! p = buf ! p"
  proof -
    assume p: "p < ofs"
    have "tl2 ofs ! p = blit buf ofs (slice tms w bl) ! p"
      unfolding tl2_def using p li by (intro nth_blit_before) simp_all
    also have "\<dots> = buf ! p"
      using p assms(2) by (intro nth_blit_before) simp_all
    finally show ?thesis .
  qed
qed

theorem packRequest_places_vectors:
  assumes ws: "4 \<le> getWordSize s" "getWordSize s < 2 ^ 32"
    and len: "(bits + 8 - 1) div 8 \<le> length tms" "(bits + 8 - 1) div 8 \<le> length tdi"
    and pr: "packRequest s bits tms tdi = (s1, bytesTot, bc)" and j: "j < bc"
  shows "txBuf_m s1 ! tms_pos (getWordSize s) j = tms ! j \<and> txBuf_m s1 ! tdi_pos (getWordSize s) j = tdi ! j"
proof -
  define wsz where "wsz = getWordSize s"
  define wwb where "wwb = bc div wsz * wsz"
  define bl where "bl = bc - wwb"
  define hdr where "hdr = snd (mkShift (xid_m s) (word_of_nat bits))"
  define blk where "blk = interleave wsz tms tdi 0 (bc div wsz)"
  define buf2 where "buf2 = blit (setHdr wsz (txBuf_m s) hdr) wsz blk"
  have w0: "0 < wsz" using ws by (simp add: wsz_def)
  have eq: "packRequest s bits tms tdi =
           (s\<lparr>xid_m := fst (mkShift (xid_m s) (word_of_nat bits)),
              txBuf_m := (if bl \<noteq> 0
                          then blit (blit buf2 (wsz + 2 * wwb) (slice tms wwb bl)) (wsz + 2 * wwb + wsz) (slice tdi wwb bl)
                          else buf2)\<rparr>,
            wsz + 2 * ((bc + wsz - 1) div wsz * wsz), (bits + 8 - 1) div 8)"
    using packRequest_eq [of s bits tms tdi] ws len pr
    by (simp add: wsz_def wwb_def bl_def hdr_def buf2_def blk_def)
  have bc: "bc = (bits + 8 - 1) div 8" using eq pr by simp
  have tb: "txBuf_m s1 = (if bl \<noteq> 0
                          then blit (blit buf2 (wsz + 2 * wwb) (slice tms wwb bl)) (wsz + 2 * wwb + wsz) (slice tdi wwb bl)
                          else buf2)"
  proof -
    have "fst (packRequest s bits tms tdi) = s1" using pr by simp
    then show ?thesis using eq by auto
  qed
  have lt: "bc \<le> length tms" "bc \<le> length tdi" using len bc by simp_all
  have wwb_bc: "wwb \<le> bc" by (simp add: wwb_def)
  have t1: "0 + bc div wsz * wsz \<le> length tms" "0 + bc div wsz * wsz \<le> length tdi"
    using order_trans [OF div_times_less_eq_dividend [of bc wsz]] lt by simp_all
  have lblk: "length blk = 2 * wwb"
    using length_interleave [OF t1] by (simp add: blk_def wwb_def algebra_simps)
  have lb2: "wsz + 2 * wwb \<le> length buf2"
    using lblk by (simp add: buf2_def length_blit)
  have blm: "bl = bc mod wsz"
    by (simp add: bl_def wwb_def minus_div_mult_eq_mod)
  have blw: "bl \<le> wsz"
    using w0 blm by simp
  have wbl: "wwb + bl \<le> length tms" "wwb + bl \<le> length tdi"
    using lt wwb_bc by (simp_all add: bl_def)
  show ?thesis
  proof (cases "j < wwb")
    case True
    define q where "q = j div wsz"
    define r where "r = j mod wsz"
    have q: "q < bc div wsz" using req_positions(1) [OF w0 j] True by (simp add: q_def wwb_def)
    have r: "r < wsz" using w0 by (simp add: r_def)
    have jqr: "j = wsz * q + r" by (simp add: q_def r_def)
    have qw: "2 * wsz * q + 2 * wsz \<le> 2 * wwb"
    proof -
      have "Suc q \<le> bc div wsz" using q by simp
      then have "Suc q * wsz \<le> bc div wsz * wsz" by (rule mult_le_mono1)
      then have "wsz * Suc q \<le> wwb" by (simp only: wwb_def mult.commute)
      then show ?thesis by simp
    qed
    have tp: "tms_pos wsz j = wsz + (2 * wsz * q + r)" and dp: "tdi_pos wsz j = wsz + (2 * wsz * q + (wsz + r))"
      by (simp_all add: tms_pos_def tdi_pos_def q_def r_def)
    have c2: "buf2 ! tms_pos wsz j = tms ! j" "buf2 ! tdi_pos wsz j = tdi ! j"
    proof -
      have "buf2 ! tms_pos wsz j = blk ! (2 * wsz * q + r)"
        unfolding tp buf2_def using lblk qw r by (intro nth_blit_inside) simp
      also have "\<dots> = tms ! j"
        using nth_interleave [OF t1 q, of r] r jqr by (simp add: blk_def)
      finally show "buf2 ! tms_pos wsz j = tms ! j" .
      have "buf2 ! tdi_pos wsz j = blk ! (2 * wsz * q + (wsz + r))"
        unfolding dp buf2_def using lblk qw r by (intro nth_blit_inside) simp
      also have "\<dots> = tdi ! j"
        using nth_interleave [OF t1 q, of "wsz + r"] r jqr by (simp add: blk_def)
      finally show "buf2 ! tdi_pos wsz j = tdi ! j" .
    qed
    have below: "tms_pos wsz j < wsz + 2 * wwb" "tdi_pos wsz j < wsz + 2 * wwb"
      using tp dp qw r by simp_all
    show ?thesis
    proof (cases "bl \<noteq> 0")
      case True
      then show ?thesis
        using c2 below tb remainder_nth(3) [OF lb2 blw wbl] by (simp add: wsz_def)
    next
      case False
      then show ?thesis using c2 tb by (simp add: wsz_def)
    qed
  next
    case False
    then have jw: "wwb \<le> j" by simp
    have qr: "j div wsz = bc div wsz" "j mod wsz = j - wwb"
      using req_positions(2) [OF w0 j] jw by (simp_all add: wwb_def)
    have bl0: "bl \<noteq> 0" using jw j by (simp add: bl_def)
    have r: "j - wwb < bl" using j jw by (simp add: bl_def)
    have tp: "tms_pos wsz j = wsz + 2 * wwb + (j - wwb)" and dp: "tdi_pos wsz j = wsz + 2 * wwb + wsz + (j - wwb)"
      using qr by (simp_all add: tms_pos_def tdi_pos_def wwb_def algebra_simps)
    show ?thesis
      using remainder_nth(1,2) [OF lb2 blw wbl r] bl0 tb tp dp jw by (simp add: wsz_def)
  qed
qed

subsection \<open>The request as the receiver sees it\<close>

lemma getHdr_take4: "4 \<le> length b \<Longrightarrow> getHdr b = of_le32 (take 4 b)"
  using of_le32_prefix [of b "[]"] by (simp add: getHdr_def getw32_def)

lemma getHdr_blit_above:
  assumes "4 \<le> off" "4 \<le> length dst"
  shows "getHdr (blit dst off src) = getHdr dst"
proof -
  have "4 \<le> length (blit dst off src)" using assms by (simp add: length_blit)
  then show ?thesis using assms by (simp add: getHdr_take4 take_blit_prefix)
qed

lemma getHdr_take: "4 \<le> n \<Longrightarrow> 4 \<le> length b \<Longrightarrow> getHdr (take n b) = getHdr b"
  by (simp add: getHdr_take4 min_def)

lemma ceil_words:
  fixes bc wsz :: nat
  assumes "0 < wsz"
  shows "(bc + wsz - 1) div wsz * wsz = bc div wsz * wsz + (if bc mod wsz = 0 then 0 else wsz)"
proof -
  define q r where "q = bc div wsz" and "r = bc mod wsz"
  have bc: "bc = q * wsz + r" and r: "r < wsz" using assms by (simp_all add: q_def r_def)
  show ?thesis
  proof (cases "r = 0")
    case True
    then have e: "bc + wsz - 1 = (wsz - 1) + q * wsz" using assms bc by simp
    have "((wsz - 1) + q * wsz) div wsz = q + (wsz - 1) div wsz"
      using assms by (intro div_mult_self1) simp
    then have "(bc + wsz - 1) div wsz = q" using assms by (simp only: e) simp
    then show ?thesis using True by (simp add: q_def r_def)
  next
    case False
    then have e: "bc + wsz - 1 = (r - 1) + (q + 1) * wsz" using bc by (simp add: algebra_simps)
    have "((r - 1) + (q + 1) * wsz) div wsz = (q + 1) + (r - 1) div wsz"
      using assms by (intro div_mult_self1) simp
    then have "(bc + wsz - 1) div wsz = q + 1" using r by (simp only: e) simp
    then show ?thesis using False by (simp add: q_def r_def algebra_simps)
  qed
qed


lemma packRequest_fields:
  fixes s :: "'z axis_driver_scheme"
  assumes ws: "4 \<le> getWordSize s" "getWordSize s < 2 ^ 32"
    and len: "(bits + 8 - 1) div 8 \<le> length tms" "(bits + 8 - 1) div 8 \<le> length tdi"
  shows "xid_m (fst (packRequest s bits tms tdi)) = fst (mkShift (xid_m s) (word_of_nat bits))"
    and "getHdr (txBuf_m (fst (packRequest s bits tms tdi))) = snd (mkShift (xid_m s) (word_of_nat bits))"
    and "retry_m (fst (packRequest s bits tms tdi)) = retry_m s"
    and "axis_driver.more (fst (packRequest s bits tms tdi)) = axis_driver.more s"
    and "getWordSize (fst (packRequest s bits tms tdi)) = getWordSize s"
    and "fst (snd (packRequest s bits tms tdi)) =
           getWordSize s + 2 * (((bits + 8 - 1) div 8 + getWordSize s - 1) div getWordSize s * getWordSize s)"
    and "snd (snd (packRequest s bits tms tdi)) = (bits + 8 - 1) div 8"
    and "getWordSize s \<le> length (txBuf_m (fst (packRequest s bits tms tdi)))"
    and "length (txBuf_m (fst (packRequest s bits tms tdi))) =
           max (length (txBuf_m s))
               (getWordSize s + 2 * ((bits + 8 - 1) div 8 div getWordSize s * getWordSize s) +
                (if (bits + 8 - 1) div 8 mod getWordSize s = 0 then 0
                 else getWordSize s + (bits + 8 - 1) div 8 mod getWordSize s))"
proof -
  define wsz where "wsz = getWordSize s"
  define bc where "bc = (bits + 8 - 1) div 8"
  define wwb where "wwb = bc div wsz * wsz"
  define bl where "bl = bc - wwb"
  define hdr where "hdr = snd (mkShift (xid_m s) (word_of_nat bits))"
  define buf2 where "buf2 = blit (setHdr wsz (txBuf_m s) hdr) wsz (interleave wsz tms tdi 0 (bc div wsz))"
  define tb where "tb = (if bl \<noteq> 0
                          then blit (blit buf2 (wsz + 2 * wwb) (slice tms wwb bl)) (wsz + 2 * wwb + wsz) (slice tdi wwb bl)
                          else buf2)"
  have eq: "packRequest s bits tms tdi =
           (s\<lparr>xid_m := fst (mkShift (xid_m s) (word_of_nat bits)), txBuf_m := tb\<rparr>,
            wsz + 2 * ((bc + wsz - 1) div wsz * wsz), bc)"
    using packRequest_eq [of s bits tms tdi] ws len
    by (simp add: wsz_def bc_def wwb_def bl_def hdr_def buf2_def tb_def)
  have lh: "wsz \<le> length (setHdr wsz (txBuf_m s) hdr)"
    using ws by (simp add: wsz_def length_setHdr)
  have l2: "wsz \<le> length buf2" using lh by (simp add: buf2_def length_blit)
  have h2: "getHdr buf2 = hdr"
    using lh ws by (simp add: buf2_def wsz_def getHdr_blit_above getHdr_setHdr)
  have "getHdr tb = hdr \<and> wsz \<le> length tb"
  proof (cases "bl \<noteq> 0")
    case True
    have "4 \<le> length (blit buf2 (wsz + 2 * wwb) (slice tms wwb bl))"
      using l2 ws by (simp add: wsz_def length_blit)
    then show ?thesis
      using True h2 l2 ws by (simp add: tb_def wsz_def getHdr_blit_above length_blit)
  next
    case False
    then show ?thesis using h2 l2 by (simp add: tb_def)
  qed
  moreover have "length tb = max (length (txBuf_m s)) (wsz + 2 * wwb + (if bc mod wsz = 0 then 0 else wsz + bc mod wsz))"
  proof -
    have t1: "0 + bc div wsz * wsz \<le> length tms" "0 + bc div wsz * wsz \<le> length tdi"
      using order_trans [OF div_times_less_eq_dividend [of bc wsz]] len by (simp_all add: bc_def)
    have bl: "bl = bc mod wsz" by (simp add: bl_def wwb_def minus_div_mult_eq_mod)
    have "length buf2 = max (length (txBuf_m s)) (wsz + 2 * wwb)"
      using length_interleave [OF t1] ws by (simp add: buf2_def length_blit length_setHdr wsz_def wwb_def algebra_simps)
    moreover have "length (slice tms wwb bl) = bl" "length (slice tdi wwb bl) = bl"
      using len by (simp_all add: length_slice bl_def bc_def wwb_def)
    ultimately show ?thesis
      by (simp add: tb_def bl length_blit max_def)
  qed
  ultimately show "xid_m (fst (packRequest s bits tms tdi)) = fst (mkShift (xid_m s) (word_of_nat bits))"
    and "getHdr (txBuf_m (fst (packRequest s bits tms tdi))) = snd (mkShift (xid_m s) (word_of_nat bits))"
    and "retry_m (fst (packRequest s bits tms tdi)) = retry_m s"
    and "axis_driver.more (fst (packRequest s bits tms tdi)) = axis_driver.more s"
    and "getWordSize (fst (packRequest s bits tms tdi)) = getWordSize s"
    and "fst (snd (packRequest s bits tms tdi)) =
           getWordSize s + 2 * (((bits + 8 - 1) div 8 + getWordSize s - 1) div getWordSize s * getWordSize s)"
    and "snd (snd (packRequest s bits tms tdi)) = (bits + 8 - 1) div 8"
    and "getWordSize s \<le> length (txBuf_m (fst (packRequest s bits tms tdi)))"
    and "length (txBuf_m (fst (packRequest s bits tms tdi))) =
           max (length (txBuf_m s))
               (getWordSize s + 2 * ((bits + 8 - 1) div 8 div getWordSize s * getWordSize s) +
                (if (bits + 8 - 1) div 8 mod getWordSize s = 0 then 0
                 else getWordSize s + (bits + 8 - 1) div 8 mod getWordSize s))"
    by (simp_all add: eq hdr_def wsz_def bc_def wwb_def getWordSize_def)
qed


lemma vec_pos_bound:
  assumes "0 < wsz" "j < bc"
  shows "tms_pos wsz j < tdi_pos wsz j" and "tdi_pos wsz j < wsz + 2 * ((bc + wsz - 1) div wsz * wsz)"
proof -
  show "tms_pos wsz j < tdi_pos wsz j" using assms by (simp add: tdi_pos_def)
  have "(j + wsz) div wsz \<le> (bc + wsz - 1) div wsz" using assms by (intro div_le_mono) simp
  then have "Suc (j div wsz) * wsz \<le> (bc + wsz - 1) div wsz * wsz"
    using assms by (intro mult_le_mono1) simp
  moreover have "j mod wsz < wsz" using assms by simp
  ultimately show "tdi_pos wsz j < wsz + 2 * ((bc + wsz - 1) div wsz * wsz)"
    by (simp add: tdi_pos_def tms_pos_def algebra_simps)
qed

lemma take_as_map: "n \<le> length xs \<Longrightarrow> take n xs = map ((!) xs) [0..<n]"
  by (rule nth_equalityI) simp_all

text \<open>C1: the receiver recovers both vectors from the request: reading byte
  \<open>j\<close> of TMS at \<open>tms_pos\<close> and of TDI at \<open>tdi_pos\<close>, within the
  \<open>bytesTot\<close> bytes sent, gives back the first \<open>bytesCeil\<close> bytes of each.\<close>

theorem packRequest_roundtrip:
  assumes ws: "4 \<le> getWordSize s" "getWordSize s < 2 ^ 32"
    and len: "(bits + 8 - 1) div 8 \<le> length tms" "(bits + 8 - 1) div 8 \<le> length tdi"
  shows "case packRequest s bits tms tdi of (s1, bytesTot, bytesCeil) \<Rightarrow>
           unpackVec tms_pos (getWordSize s) bytesCeil (take bytesTot (txBuf_m s1)) = take bytesCeil tms \<and>
           unpackVec tdi_pos (getWordSize s) bytesCeil (take bytesTot (txBuf_m s1)) = take bytesCeil tdi"
proof -
  obtain s1 bt bc where pr: "packRequest s bits tms tdi = (s1, bt, bc)" by (metis prod_cases3)
  have bc: "bc = (bits + 8 - 1) div 8" and bt: "bt = getWordSize s + 2 * ((bc + getWordSize s - 1) div getWordSize s * getWordSize s)"
    using packRequest_fields(6,7) [OF ws len] pr by simp_all
  have w0: "0 < getWordSize s" using ws by simp
  have pv: "txBuf_m s1 ! tms_pos (getWordSize s) j = tms ! j \<and> txBuf_m s1 ! tdi_pos (getWordSize s) j = tdi ! j"
    if "j < bc" for j
    using packRequest_places_vectors [OF ws len pr that] .
  have pb: "tms_pos (getWordSize s) j < bt \<and> tdi_pos (getWordSize s) j < bt" if "j < bc" for j
    using vec_pos_bound [OF w0 that] bt by simp
  have "unpackVec tms_pos (getWordSize s) bc (take bt (txBuf_m s1)) = take bc tms"
    using pv pb len bc by (simp add: unpackVec_def take_as_map)
  moreover have "unpackVec tdi_pos (getWordSize s) bc (take bt (txBuf_m s1)) = take bc tdi"
    using pv pb len bc by (simp add: unpackVec_def take_as_map)
  ultimately show ?thesis using pr by simp
qed


lemma unat_bits: "bits \<le> 2 ^ 20 \<Longrightarrow> unat (word_of_nat bits :: 32 word) = bits"
  by (simp add: unat_of_nat)

text \<open>C8: the request header announces the bit count and carries a fresh,
  non-wildcard transaction id, which the driver records as its current id.\<close>

theorem packRequest_header:
  assumes ws: "4 \<le> getWordSize s" "getWordSize s < 2 ^ 32"
    and len: "(bits + 8 - 1) div 8 \<le> length tms" "(bits + 8 - 1) div 8 \<le> length tdi"
    and b: "1 \<le> bits" "bits \<le> 2 ^ 20"
  shows "case packRequest s bits tms tdi of (s1, bytesTot, bytesCeil) \<Rightarrow>
           getLen (getHdr (take bytesTot (txBuf_m s1))) = Inr bits \<and>
           getXid (getHdr (take bytesTot (txBuf_m s1))) = xid_m s1 \<and> xid_m s1 \<noteq> XID_ANY"
proof -
  obtain s1 bt bc where pr: "packRequest s bits tms tdi = (s1, bt, bc)" by (metis prod_cases3)
  let ?len = "word_of_nat bits :: 32 word"
  have u: "1 \<le> unat ?len" "unat ?len \<le> 2 ^ 20" using b unat_bits by simp_all
  have f: "xid_m s1 = fst (mkShift (xid_m s) ?len)" "getHdr (txBuf_m s1) = snd (mkShift (xid_m s) ?len)"
    "getWordSize s \<le> bt" "getWordSize s \<le> length (txBuf_m s1)"
    using packRequest_fields(1,2,6,8) [OF ws len] pr by simp_all
  have h: "getHdr (take bt (txBuf_m s1)) = snd (mkShift (xid_m s) ?len)"
    using f ws by (simp add: getHdr_take)
  have "getLen (snd (mkShift (xid_m s) ?len)) = Inr bits"
    using getLen_mkShift_wrap [of ?len] u b unat_bits by simp
  moreover have "getXid (snd (mkShift (xid_m s) ?len)) = fst (mkShift (xid_m s) ?len)"
    using u by (intro getXid_mkShift_bits word_bit_bound[of "?len - 1" 20]) (simp_all add: unat_sub_if_size)
  moreover have "fst (mkShift (xid_m s) ?len) \<noteq> XID_ANY"
    by (simp add: fst_mkShift newXid_not_any)
  ultimately show ?thesis using pr f h by simp
qed

text \<open>C9: with the vector within the negotiated target memory
  (\<open>memDepth_ * wordSize_\<close> bytes) and the transmit buffer sized as
  \<open>query()\<close> sizes it, the request fits: \<open>bytesTot\<close> is at most
  \<open>(2 * memDepth_ + 1) * wordSize_\<close> and no byte is written past the buffer.\<close>

theorem packRequest_in_bounds:
  assumes ws: "4 \<le> getWordSize s" "getWordSize s < 2 ^ 32"
    and len: "(bits + 8 - 1) div 8 \<le> length tms" "(bits + 8 - 1) div 8 \<le> length tdi"
    and md: "(bits + 8 - 1) div 8 \<le> memDepth_m s * getWordSize s"
    and buf: "(2 * memDepth_m s + 1) * getWordSize s \<le> length (txBuf_m s)"
  shows "case packRequest s bits tms tdi of (s1, bytesTot, bytesCeil) \<Rightarrow>
           bytesTot \<le> (2 * memDepth_m s + 1) * getWordSize s \<and> length (txBuf_m s1) = length (txBuf_m s)"
proof -
  obtain s1 bt bc where pr: "packRequest s bits tms tdi = (s1, bt, bc)" by (metis prod_cases3)
  define wsz where "wsz = getWordSize s"
  define m where "m = memDepth_m s"
  have w0: "0 < wsz" using ws by (simp add: wsz_def)
  have bc: "bc = (bits + 8 - 1) div 8"
    using packRequest_fields(7) [OF ws len] unfolding pr by simp
  have bt: "bt = wsz + 2 * ((bc + wsz - 1) div wsz * wsz)"
    using packRequest_fields(6) [OF ws len] unfolding pr bc [symmetric] wsz_def [symmetric] by simp
  have l1: "length (txBuf_m s1) = max (length (txBuf_m s))
               (wsz + 2 * (bc div wsz * wsz) + (if bc mod wsz = 0 then 0 else wsz + bc mod wsz))"
    using packRequest_fields(9) [OF ws len] unfolding pr bc [symmetric] wsz_def [symmetric] by simp
  have "(bc + wsz - 1) div wsz \<le> ((wsz - 1) + m * wsz) div wsz"
    using md bc by (intro div_le_mono) (simp add: wsz_def m_def)
  also have "\<dots> = m + (wsz - 1) div wsz" using w0 by (intro div_mult_self1) simp
  finally have "(bc + wsz - 1) div wsz \<le> m" using w0 by simp
  then have "(bc + wsz - 1) div wsz * wsz \<le> m * wsz" by (rule mult_le_mono1)
  then have btm: "bt \<le> (2 * m + 1) * wsz" using bt by (simp add: algebra_simps)
  have "wsz + 2 * (bc div wsz * wsz) + (if bc mod wsz = 0 then 0 else wsz + bc mod wsz) \<le> bt"
    using ceil_words [OF w0, of bc] bt w0 by simp
  then have "length (txBuf_m s1) = length (txBuf_m s)"
    using l1 btm buf by (simp add: wsz_def m_def)
  then show ?thesis using pr btm by (simp add: wsz_def m_def)
qed

text \<open>C5: \<open>sendVectors\<close> delivers the target's TDO bits: when the reply
  echoing the request id arrives after at most \<open>retry_\<close> timeouts, the
  call succeeds and the TDO buffer holds the reply payload.\<close>

theorem sendVectors_delivers_tdo:
  assumes ws: "4 \<le> getWordSize s" "getWordSize s < 2 ^ 32"
    and len: "(bits + 8 - 1) div 8 \<le> length tms" "(bits + 8 - 1) div 8 \<le> length tdi"
    and b: "1 \<le> bits" "bits \<le> 2 ^ 20"
    and sc: "axis_driver.more s = replicate k (Inl TimeoutErr) @ Inr (peer_reply h d) # rs" "k \<le> retry_m s"
    and h: "getErr h = 0" "getXid h = fst (mkShift (xid_m s) (word_of_nat bits))"
  shows "\<exists>s'. sendVectors script_xfer s bits tms tdi tdo = (s', blit tdo 0 d, Inr ()) \<and> axis_driver.more s' = rs"
proof -
  obtain s1 bt bc where pr: "packRequest s bits tms tdi = (s1, bt, bc)" by (metis prod_cases3)
  let ?len = "word_of_nat bits :: 32 word"
  have u: "1 \<le> unat ?len" "unat ?len \<le> 2 ^ 20" using b unat_bits by simp_all
  have f: "getHdr (txBuf_m s1) = snd (mkShift (xid_m s) ?len)" "retry_m s1 = retry_m s"
    "axis_driver.more s1 = axis_driver.more s"
    using packRequest_fields(2,3,4) [OF ws len] pr by simp_all
  have x: "getXid (getHdr (txBuf_m s1)) = fst (mkShift (xid_m s) ?len)"
    using u f by (simp, intro getXid_mkShift_bits word_bit_bound[of "?len - 1" 20]) (simp_all add: unat_sub_if_size)
  have "xferRel_loop script_xfer (getXid (getHdr (txBuf_m s1))) (take bt (txBuf_m s1)) (getWordSize s1) bc
          (Suc (retry_m s1)) s1 tdo =
        (s1\<lparr>axis_driver.more := rs, hdBuf_m := blit (hdBuf_m s1) 0 (le32 h)\<rparr>, blit tdo 0 d, Inr (int (length d), h))"
    using sc f h x by (intro xferRel_loop_recovers [where k = k]) simp_all
  then show ?thesis
    by (simp add: sendVectors_def xferRel_def pr)
qed


subsection \<open>Witnesses\<close>

lemma packRequest_roundtrip_witness:
  "4 \<le> getWordSize (JtagDriverAxisToJtag 0 5 ()) \<and> getWordSize (JtagDriverAxisToJtag 0 5 ()) < 2 ^ 32 \<and>
   (9 + 8 - 1) div 8 \<le> length [1, 2 :: byte] \<and> (9 + 8 - 1) div 8 \<le> length [3, 4 :: byte] \<and>
   (case packRequest (JtagDriverAxisToJtag 0 5 ()) 9 [1, 2] [3, 4] of (s1, bytesTot, bytesCeil) \<Rightarrow>
      unpackVec tms_pos (getWordSize (JtagDriverAxisToJtag 0 5 ())) bytesCeil (take bytesTot (txBuf_m s1)) = take bytesCeil [1, 2] \<and>
      unpackVec tdi_pos (getWordSize (JtagDriverAxisToJtag 0 5 ())) bytesCeil (take bytesTot (txBuf_m s1)) = take bytesCeil [3, 4])"
  using packRequest_roundtrip [of "JtagDriverAxisToJtag 0 5 ()" 9 "[1, 2]" "[3, 4]"]
  by (simp add: getWordSize_def JtagDriverAxisToJtag_def)

lemma packRequest_header_witness:
  "4 \<le> getWordSize (JtagDriverAxisToJtag 0 5 ()) \<and> getWordSize (JtagDriverAxisToJtag 0 5 ()) < 2 ^ 32 \<and>
   (9 + 8 - 1) div 8 \<le> length [1, 2 :: byte] \<and> (9 + 8 - 1) div 8 \<le> length [3, 4 :: byte] \<and>
   1 \<le> (9::nat) \<and> (9::nat) \<le> 2 ^ 20 \<and>
   (case packRequest (JtagDriverAxisToJtag 0 5 ()) 9 [1, 2] [3, 4] of (s1, bytesTot, bytesCeil) \<Rightarrow>
      getLen (getHdr (take bytesTot (txBuf_m s1))) = Inr 9 \<and>
      getXid (getHdr (take bytesTot (txBuf_m s1))) = xid_m s1 \<and> xid_m s1 \<noteq> XID_ANY)"
  using packRequest_header [of "JtagDriverAxisToJtag 0 5 ()" 9 "[1, 2]" "[3, 4]"]
  by (simp add: getWordSize_def JtagDriverAxisToJtag_def)

lemma packRequest_in_bounds_witness:
  "4 \<le> getWordSize (JtagDriverAxisToJtag 0 5 ()) \<and> getWordSize (JtagDriverAxisToJtag 0 5 ()) < 2 ^ 32 \<and>
   (9 + 8 - 1) div 8 \<le> length [1, 2 :: byte] \<and> (9 + 8 - 1) div 8 \<le> length [3, 4 :: byte] \<and>
   (9 + 8 - 1) div 8 \<le> memDepth_m (JtagDriverAxisToJtag 0 5 ()) * getWordSize (JtagDriverAxisToJtag 0 5 ()) \<and>
   (2 * memDepth_m (JtagDriverAxisToJtag 0 5 ()) + 1) * getWordSize (JtagDriverAxisToJtag 0 5 ())
      \<le> length (txBuf_m (JtagDriverAxisToJtag 0 5 ())) \<and>
   (case packRequest (JtagDriverAxisToJtag 0 5 ()) 9 [1, 2] [3, 4] of (s1, bytesTot, bytesCeil) \<Rightarrow>
      bytesTot \<le> (2 * memDepth_m (JtagDriverAxisToJtag 0 5 ()) + 1) * getWordSize (JtagDriverAxisToJtag 0 5 ()) \<and>
      length (txBuf_m s1) = length (txBuf_m (JtagDriverAxisToJtag 0 5 ())))"
  using packRequest_in_bounds [of "JtagDriverAxisToJtag 0 5 ()" 9 "[1, 2]" "[3, 4]"]
  by (simp add: getWordSize_def JtagDriverAxisToJtag_def)

lemma sendVectors_delivers_tdo_witness:
  "4 \<le> getWordSize (JtagDriverAxisToJtag 0 5 [Inr (peer_reply 0x10600000 [7, 8])]) \<and>
   getWordSize (JtagDriverAxisToJtag 0 5 [Inr (peer_reply 0x10600000 [7, 8])]) < 2 ^ 32 \<and>
   (9 + 8 - 1) div 8 \<le> length [1, 2 :: byte] \<and> (9 + 8 - 1) div 8 \<le> length [3, 4 :: byte] \<and>
   1 \<le> (9::nat) \<and> (9::nat) \<le> 2 ^ 20 \<and>
   axis_driver.more (JtagDriverAxisToJtag 0 5 [Inr (peer_reply 0x10600000 [7, 8])]) =
     replicate 0 (Inl TimeoutErr) @ Inr (peer_reply 0x10600000 [7, 8]) # [] \<and>
   0 \<le> retry_m (JtagDriverAxisToJtag 0 5 [Inr (peer_reply 0x10600000 [7, 8])]) \<and>
   getErr 0x10600000 = 0 \<and>
   getXid 0x10600000 = fst (mkShift (xid_m (JtagDriverAxisToJtag 0 5 [Inr (peer_reply 0x10600000 [7, 8])])) (word_of_nat 9)) \<and>
   (\<exists>s'. sendVectors script_xfer (JtagDriverAxisToJtag 0 5 [Inr (peer_reply 0x10600000 [7, 8])]) 9 [1, 2] [3, 4] [0, 0] =
          (s', blit [0, 0] 0 [7, 8], Inr ()) \<and> axis_driver.more s' = [])"
proof -
  have e: "getErr 0x10600000 = 0" by (simp add: getErr_def getCmd_def CMD_MASK_def CMD_E_def)
  have x: "getXid 0x10600000 = 6" by (simp add: getXid_def)
  have m: "fst (mkShift 5 (word_of_nat 9)) = 6"
    by (simp add: mkShift_def newXid_def Let_def XID_ANY_def)
  show ?thesis
    using sendVectors_delivers_tdo [of "JtagDriverAxisToJtag 0 5 [Inr (peer_reply 0x10600000 [7, 8])]" 9 "[1, 2]" "[3, 4]"
        0 "0x10600000" "[7, 8]" "[]" "[0, 0]"] e x m
    by (simp add: getWordSize_def JtagDriverAxisToJtag_def)
qed

end
