(* ===== verification/TmemShift.thy ===== *)
theory TmemShift
  imports TmemInit Vectors
begin

text \<open>
  A shift (\<open>sendVectors()\<close>, \<open>xvcSrv.cc\<close> 423--485) carried by the TMEM
  transport on the FIFO model: the request \<open>sendVectors()\<close> builds goes
  through \<open>xferRel()\<close> and the transport's \<open>xfer()\<close> to the firmware, whose
  reply is the request's header word followed by the TDO words \<open>T\<close>. The
  composition shows that the TDO bytes of the firmware arrive in the caller's
  buffer, that the firmware sees exactly the request, and that the driver is
  left between transfers.
\<close>

unbundle bit_operations_syntax

subsection \<open>One shift exchange on the FIFO\<close>

lemma reply_bytes_first_word:
  "4 \<le> length txb \<Longrightarrow> reply_bytes le (take 1 (frame le txb)) = take 4 txb"
proof -
  assume l: "4 \<le> length txb"
  have "reply_bytes le (take 1 (frame le txb)) = take 4 (reply_bytes le (frame le txb))"
    using take_reply_bytes [of 1 le "frame le txb"] by simp
  then show ?thesis using l by (simp add: frame_bytes)
qed

lemma length_take1_frame: "4 \<le> length txb \<Longrightarrow> length (take 1 (frame le txb)) = 1"
proof -
  assume "4 \<le> length txb"
  then have "1 \<le> (length txb + 3) div 4" by simp
  then show ?thesis by (simp add: min_def)
qed

text \<open>A transfer of a request of at least one word that the firmware answers
  with the request's first word and the words \<open>T\<close>.\<close>

lemma tmem_xfer_echo_hdr:
  assumes ok: "hw_ok h k" and b: "toscaBase_m (axis_driver.more s) = b" and w4: "wrdSiz_m (axis_driver.more s) = 4"
    and q0: "txq_d (dev_of s) = []" "rxq_d (dev_of s) = []" and nd: "\<not> drEn_m s"
    and tx: "4 \<le> length txb" "length txb + 3 < 2 ^ 32"
    and fw: "peer (frame le txb) = take 1 (frame le txb) @ T"
    and T: "Suc (length T) < 2 ^ k" "4 * Suc (length T) < 2 ^ 32" and sz: "sz \<le> 4 * length T"
  shows "tmem_xfer (fifo_env h le peer b) s txb hdbuf 4 rxb sz =
           Some (set_dev ((dev_of s)\<lparr>frames_d := frames_d (dev_of s) @ [frame le txb]\<rparr>) s,
                 blit hdbuf 0 (take 4 txb), blit rxb 0 (take sz (reply_bytes le T)),
                 Inr (sint (word_of_nat sz :: 32 word)))"
proof -
  have l1: "length (peer (frame le txb)) = Suc (length T)" using fw tx(1) by (simp add: length_take1_frame)
  have rp: "peer (frame le txb) \<noteq> []" "length (peer (frame le txb)) < 2 ^ k" "4 * length (peer (frame le txb)) < 2 ^ 32"
    using l1 T by (auto simp del: length_greater_0_conv)
  have rb: "reply_bytes le (peer (frame le txb)) = take 4 txb @ reply_bytes le T"
    using fw reply_bytes_first_word [OF tx(1), of le] by simp
  have t4: "length (take 4 txb) = 4" "0 < length txb" using tx(1) by (simp, linarith)
  have m: "min (4 * length (peer (frame le txb)) - 4) sz = sz" using l1 sz by simp
  show ?thesis
    using tmem_xfer_fifo [where peer = peer and le = le and txb = txb, OF ok b w4 q0 t4(2) tx(2) rp, of 4 hdbuf rxb sz] nd rb t4 m l1
    by (simp add: drop_check_def Let_def set_dev_def)
qed

subsection \<open>\<open>sendVectors\<close> through the TMEM transport\<close>

text \<open>C16: a shift carried by the TMEM transport delivers the firmware's TDO:
  when the firmware answers the request \<open>sendVectors()\<close> builds with its
  header word followed by TDO words \<open>T\<close> (at least \<open>bytesCeil\<close> bytes), the
  call succeeds, the caller's TDO buffer receives the first \<open>bytesCeil\<close>
  bytes of \<open>T\<close>, the firmware has received exactly the request, and the driver
  is left between transfers.\<close>

theorem sendVectors_tmem:
  assumes ok: "hw_ok h k" and inv: "tmem_inv h b s" and ws: "wordSize_m s = 4" and nd: "\<not> drEn_m s"
    and xf: "tmem_dispatch (fifo_env h le peer b) xf"
    and len: "(bits + 8 - 1) div 8 \<le> length tms" "(bits + 8 - 1) div 8 \<le> length tdi"
    and bi: "1 \<le> bits" "bits \<le> 2 ^ 20"
    and pr: "packRequest s bits tms tdi = (s1, bt, bc)"
    and fw: "peer (frame le (take bt (txBuf_m s1))) = take 1 (frame le (take bt (txBuf_m s1))) @ T"
    and T: "Suc (length T) < 2 ^ k" "4 * Suc (length T) < 2 ^ 32" "bc \<le> 4 * length T" and bt: "bt + 3 < 2 ^ 32"
  shows "\<exists>s'. sendVectors xf s bits tms tdi tdo = (s', blit tdo 0 (take bc (reply_bytes le T)), Inr ()) \<and>
           tmem_inv h b s' \<and> frames_d (dev_of s') = frames_d (dev_of s) @ [frame le (take bt (txBuf_m s1))]"
proof -
  have ws4: "4 \<le> getWordSize s" "getWordSize s < 2 ^ 32" using ws by (simp_all add: getWordSize_def)
  note f = packRequest_fields [OF ws4 len, unfolded pr fst_conv snd_conv]
  let ?len = "word_of_nat bits :: 32 word"
  define txb where "txb = take bt (txBuf_m s1)"
  have i: "toscaBase_m (axis_driver.more s1) = b" "wrdSiz_m (axis_driver.more s1) = 4"
    "txq_d (dev_of s1) = []" "rxq_d (dev_of s1) = []"
    using inv f(4) by (simp_all add: tmem_inv_def)
  have nd1: "\<not> drEn_m s1" using pr nd by (auto simp: packRequest_def Let_def split: prod.splits)
  have g1: "getWordSize s1 = 4" using f(5) ws by (simp add: getWordSize_def)
  have lt: "4 \<le> length txb" "length txb + 3 < 2 ^ 32"
    using f(6,8) ws4 bt by (simp_all add: txb_def getWordSize_def ws)
  have hdr: "getHdr txb = snd (mkShift (xid_m s) ?len)"
    using f(2,8) lt(1) ws4 by (simp add: txb_def getHdr_take)
  have hdr2: "getHdr (txBuf_m s1) = getHdr txb" using hdr f(2) by simp
  have u: "1 \<le> unat ?len" "unat ?len \<le> 2 ^ 28" using bi unat_bits by simp_all
  have e: "getErr (getHdr txb) = 0" using hdr getErr_mkShift [OF u] by simp
  have h4: "getHdr (blit hb 0 (take 4 txb)) = getHdr txb" for hb
    using lt(1) by (simp add: getHdr_blit_reply getHdr_take4)
  have x: "xf s1 txb (hdBuf_m s1) 4 tdo bc =
             (set_dev ((dev_of s1)\<lparr>frames_d := frames_d (dev_of s1) @ [frame le txb]\<rparr>) s1,
              blit (hdBuf_m s1) 0 (take 4 txb), blit tdo 0 (take bc (reply_bytes le T)),
              Inr (sint (word_of_nat bc :: 32 word)))"
    using xf tmem_xfer_echo_hdr [where peer = peer and le = le and T = T, OF ok i nd1 lt fw [folded txb_def] T]
    unfolding tmem_dispatch_def by blast
  define s2 where "s2 = (set_dev ((dev_of s1)\<lparr>frames_d := frames_d (dev_of s1) @ [frame le txb]\<rparr>) s1)
      \<lparr>hdBuf_m := blit (hdBuf_m s1) 0 (take 4 txb)\<rparr>"
  have "sendVectors xf s bits tms tdi tdo = (s2, blit tdo 0 (take bc (reply_bytes le T)), Inr ())"
    using x e h4 g1 hdr2
    by (simp add: sendVectors_def pr xferRel_def txb_def [symmetric] s2_def Let_def set_dev_def)
  moreover have "tmem_inv h b s2 \<and> frames_d (dev_of s2) = frames_d (dev_of s) @ [frame le txb]"
    using inv f(4) i by (simp add: s2_def tmem_inv_def fifo_csr_def set_dev_def)
  ultimately show ?thesis by (auto simp: txb_def)
qed

subsection \<open>Witness\<close>

text \<open>The example driver shifts 8 bits; the firmware answers with the header
  and one TDO word.\<close>

lemma sendVectors_tmem_witness:
  "\<exists>s' s1. packRequest demo_drv 8 [0xA5] [0x3C] = (s1, 12, 1) \<and>
     sendVectors (\<lambda>s tx hb hs rb n. the (tmem_xfer (fifo_env demo_hw True (\<lambda>f. take 1 f @ [0x11223344]) 0) s tx hb hs rb n))
       demo_drv 8 [0xA5] [0x3C] [] = (s', take 1 (reply_bytes True [0x11223344]), Inr ()) \<and>
     tmem_inv demo_hw 0 s'"
proof -
  have inv: "tmem_inv demo_hw 0 demo_drv" using tmem_inv_created [OF demo_hw_ok demo_ctor] .
  have ws: "wordSize_m demo_drv = 4" "\<not> drEn_m demo_drv" by (simp_all add: demo_drv_def JtagDriverAxisToJtag_def)
  have g: "4 \<le> getWordSize demo_drv" "getWordSize demo_drv < 2 ^ 32" using ws by (simp_all add: getWordSize_def)
  have len: "(8 + 8 - 1) div 8 \<le> length [0xA5 :: byte]" "(8 + 8 - 1) div 8 \<le> length [0x3C :: byte]" by simp_all
  obtain s1 bt bc where pr: "packRequest demo_drv 8 [0xA5] [0x3C] = (s1, bt, bc)" by (metis prod_cases3)
  have bb: "bt = 12" "bc = 1"
    using packRequest_fields(6,7) [OF g len] pr ws by (simp_all add: getWordSize_def)
  have xf: "tmem_dispatch (fifo_env demo_hw True (\<lambda>f. take 1 f @ [0x11223344]) 0)
              (\<lambda>s tx hb hs rb n. the (tmem_xfer (fifo_env demo_hw True (\<lambda>f. take 1 f @ [0x11223344]) 0) s tx hb hs rb n))"
    by (simp add: tmem_dispatch_def)
  have "blit [] 0 (take 1 (reply_bytes True [0x11223344])) = take 1 (reply_bytes True [0x11223344])"
    by (simp add: blit_def)
  then show ?thesis
    using sendVectors_tmem [OF demo_hw_ok inv ws(1) ws(2) xf len _ _ pr, of "[0x11223344]" "[]"] pr bb
    by auto
qed

end
