(* ===== verification/Trace.thy ===== *)
theory Trace
  imports MainProg Negotiation Vectors
begin

text \<open>
  The debug output of \<open>xvcSrv.cc\<close> that formats driver data: \<open>prwrds\<close>
  (lines 398--421), which \<open>sendVectors()\<close> calls at debug level 2 for every
  word of the TMS/TDI vectors and of the TDO reply, and
  \<open>JtagDriverAxisToJtag::dumpInfo\<close> (lines 487--494), which \<open>main\<close> calls
  once the driver is initialised. Output is a list of writes, each a stream
  and the text written to it; \<open>err\<close> is \<open>stderr\<close>, \<open>f\<close> the stream argument.
\<close>

unbundle bit_operations_syntax

subsection \<open>Formatting\<close>

text \<open>\<open>%02x\<close> of a byte: two lower-case hexadecimal digits.\<close>

definition hex_digit :: "nat \<Rightarrow> char" where
  "hex_digit d = (if d < 10 then char_of (48 + d) else char_of (87 + d))"

definition hex2 :: "byte \<Rightarrow> string" where
  "hex2 v = [hex_digit (unat v div 16), hex_digit (unat v mod 16)]"

text \<open>\<open>%d\<close> of an \<open>int\<close>, and of an \<open>unsigned\<close> passed where \<open>%d\<close> expects
  an \<open>int\<close> (the value is read back as a signed 32-bit number).\<close>

definition int_dec :: "int \<Rightarrow> string" where
  "int_dec i = (if i < 0 then ''-'' @ dec_digits (nat (- i)) else dec_digits (nat i))"

definition u32_as_d :: "nat \<Rightarrow> string" where
  "u32_as_d n = int_dec (sint (word_of_nat n :: 32 word))"

subsection \<open>\<open>prwrds\<close>\<close>

text \<open>One vector word (lines 405--410, and 413--418 for TDI): \<open>00\<close> for every
  byte of the word beyond the \<open>nbytes\<close> that carry bits, then the bytes from
  the last one down to the first. \<open>i\<close> starts at \<open>wsz\<close> and stops at
  \<open>nbytes\<close>, so at most \<open>wsz\<close> bytes are printed.\<close>

definition hexwrd :: "'f \<Rightarrow> byte list \<Rightarrow> nat \<Rightarrow> nat \<Rightarrow> ('f \<times> string) list" where
  "hexwrd f bs wsz nbytes =
     replicate (wsz - nbytes) (f, ''00'') @ map (\<lambda>j. (f, hex2 (bs ! j))) (rev [0..<min wsz nbytes])"

text \<open>The whole line; a \<open>NULL\<close> \<open>tdi\<close> is \<open>None\<close> (the TDO dump). Two of the
  writes go to \<open>stderr\<close> whatever \<open>f\<close> is. \<open>nbits\<close> is not negative at
  the call sites, so \<open>(nbits + 7)/8\<close> is \<open>nat\<close> division.\<close>

definition prwrds :: "'f \<Rightarrow> 'f \<Rightarrow> byte list \<Rightarrow> byte list option \<Rightarrow> nat \<Rightarrow> nat \<Rightarrow> ('f \<times> string) list" where
  "prwrds err f tms tdi wsz nbits =
     (let nbytes = (nbits + 7) div 8;
          pre = (case tdi of Some _ \<Rightarrow> ''TMS'' | None \<Rightarrow> ''TDO'')
      in [(f, ''( '' @ pre @ '' => x'' @ [CHR 0x22])] @ hexwrd f tms wsz nbytes @
         (case tdi of
            Some t \<Rightarrow> [(err, [CHR 0x22] @ '', TDI => x'' @ [CHR 0x22])] @ hexwrd f t wsz nbytes
          | None \<Rightarrow> []) @
         [(err, [CHR 0x22] @ '', nbits => '' @ dec_digits nbits @ ''),'' @ [CHR 0x0A])])"

subsection \<open>\<open>dumpInfo\<close>\<close>

text \<open>The four lines of \<open>dumpInfo\<close>; the vector limit is the transport's
  virtual \<open>getMaxVectorSize()\<close>, a parameter.\<close>

definition dumpInfo :: "'z axis_driver_scheme \<Rightarrow> 64 word \<Rightarrow> string list" where
  "dumpInfo s maxVec =
     [''Word size:                  '' @ u32_as_d (getWordSize s) @ [CHR 0x0A],
      ''Target Memory Depth (bytes) '' @ u32_as_d (getWordSize s * getMemDepth s) @ [CHR 0x0A],
      ''Max. Vector Length  (bytes) '' @ int_dec (sint maxVec) @ [CHR 0x0A],
      ''TCK Period             (ns) '' @ int_dec (int (unat (periodNs_m s))) @ [CHR 0x0A]]"

subsection \<open>The trace of a shift\<close>

text \<open>What \<open>sendVectors()\<close> writes at debug level 2 and above (lines 440--442,
  462--469 before the exchange, 473--480 after it when it succeeded), with
  one \<open>prwrds\<close> line per word of the vectors (the last one with the
  \<open>lastbits\<close> bits left), and what it hands the sniffer when \<open>getSniff()\<close>
  (lines 482--484): the bit count, the vectors and the TDO received. \<open>tdo\<close>
  is the TDO buffer after the exchange, \<open>r\<close> the exchange's outcome.\<close>

definition sendVectors_trace ::
  "'f \<Rightarrow> 'z axis_driver_scheme \<Rightarrow> nat \<Rightarrow> byte list \<Rightarrow> byte list \<Rightarrow> byte list \<Rightarrow> xvc_error + unit
     \<Rightarrow> ('f \<times> string) list \<times> (nat \<times> byte list \<times> byte list \<times> byte list) option" where
  "sendVectors_trace err s bits tms tdi tdo r =
     (let wsz = getWordSize s;
          bytesCeil = (bits + 8 - 1) div 8;
          wholeWords = bytesCeil div wsz;
          wholeWordBytes = wholeWords * wsz;
          wordCeilBytes = ((bytesCeil + wsz - 1) div wsz) * wsz;
          bytesLeft = bytesCeil - wholeWordBytes;
          bytesTot = wsz + 2 * wordCeilBytes;
          lastbits = bits - 8 * wholeWordBytes;
          dbg = (1 < getDebug s);
          words = (\<lambda>v w. concat (map (\<lambda>i. prwrds err err (drop (i * wsz) v) (map_option (drop (i * wsz)) w) wsz (8 * wsz))
                                      [0..<wholeWords]) @
                        (if bytesLeft \<noteq> 0
                         then prwrds err err (drop wholeWordBytes v) (map_option (drop wholeWordBytes) w) wsz lastbits
                         else []));
          pre = (if dbg
                 then [(err, ''sendVec -- bits '' @ dec_digits bits @ '', bytes '' @ dec_digits bytesCeil @
                             '', bytesTot '' @ u32_as_d bytesTot @ [CHR 0x0A])] @ words tms (Some tdi)
                 else []);
          post = (if dbg \<and> r = Inr () then words tdo None else [])
      in (pre @ post, if r = Inr () \<and> getSniff s then Some (bits, tms, tdi, tdo) else None))"

text \<open>The number of per-word dump lines in a trace: those that open with
  \<open>( \<close>.\<close>

definition dump_heads :: "('f \<times> string) list \<Rightarrow> nat" where
  "dump_heads ws = length (filter (\<lambda>w. take 2 (snd w) = ''( '') ws)"

text \<open>The value a sequence of bytes stands for, least significant first.\<close>

definition le_val :: "byte list \<Rightarrow> nat" where
  "le_val bs = foldr (\<lambda>b a. unat b + 256 * a) bs 0"

subsection \<open>Reading the dump back\<close>

lemma digit_val_hex: "d < 16 \<Longrightarrow> digit_val 16 (hex_digit d) = Some d"
  by (auto simp: hex_digit_def digit_val_def of_char_of)

lemma hex2_digits: "digits_prefix 16 (hex2 v @ ys) = [unat v div 16, unat v mod 16] @ digits_prefix 16 ys"
proof -
  have "unat v < 256" using unsigned_less [of v] by simp
  then have "unat v div 16 < 16" by simp
  then show ?thesis by (simp add: hex2_def digit_val_hex)
qed

lemma digits_value_append: "digits_value b (xs @ ys) = digits_value b xs * b ^ length ys + digits_value b ys"
proof (induction ys rule: rev_induct)
  case Nil
  then show ?case by (simp add: digits_value_def)
next
  case (snoc y ys)
  then show ?case by (simp add: append_assoc [symmetric] digits_value_snoc del: append_assoc) (simp add: algebra_simps)
qed

lemma le_val_snoc: "le_val (xs @ [x]) = le_val xs + unat x * 256 ^ length xs"
  by (induction xs) (simp_all add: le_val_def algebra_simps)

lemma hex_bytes_digits:
  "digits_prefix 16 (concat (map (\<lambda>j. hex2 (bs ! j)) (rev [0..<n])) @ ys) =
     concat (map (\<lambda>j. [unat (bs ! j) div 16, unat (bs ! j) mod 16]) (rev [0..<n])) @ digits_prefix 16 ys"
  by (induction n) (simp_all add: hex2_digits)

lemma hex_bytes_value:
  "n \<le> length bs \<Longrightarrow>
   digits_value 16 (concat (map (\<lambda>j. [unat (bs ! j) div 16, unat (bs ! j) mod 16]) (rev [0..<n]))) = le_val (take n bs)"
proof (induction n)
  case 0
  then show ?case by (simp add: digits_value_def le_val_def)
next
  case (Suc n)
  have t: "take (Suc n) bs = take n bs @ [bs ! n]" using Suc.prems by (simp add: take_Suc_conv_app_nth)
  have l: "length (concat (map (\<lambda>j. [unat (bs ! j) div 16, unat (bs ! j) mod 16 :: nat]) (rev [0..<n]))) = 2 * n"
    by (induction n) simp_all
  have p: "(16 :: nat) ^ (2 * n) = 256 ^ n" by (simp add: power_mult)
  have c: "concat (map (\<lambda>j. [unat (bs ! j) div 16, unat (bs ! j) mod 16]) (rev [0..<Suc n])) =
      [unat (bs ! n) div 16, unat (bs ! n) mod 16] @ concat (map (\<lambda>j. [unat (bs ! j) div 16, unat (bs ! j) mod 16]) (rev [0..<n]))"
    by simp
  have d: "digits_value 16 [unat (bs ! n) div 16, unat (bs ! n) mod 16] = unat (bs ! n)"
    by (simp add: digits_value_def)
  have "length (take n bs) = n" using Suc.prems by simp
  then show ?case
    unfolding c digits_value_append d l p Suc.IH [OF Suc_leD [OF Suc.prems]] t le_val_snoc by simp
qed

lemma zeros_digits: "digits_prefix 16 (concat (replicate m ''00'') @ ys) = replicate (2 * m) 0 @ digits_prefix 16 ys"
proof -
  have z: "digit_val 16 (CHR ''0'') = Some 0" by (simp add: digit_val_def)
  show ?thesis by (induction m) (simp_all add: z)
qed

lemma digits_value_zeros: "digits_value b (replicate k 0 @ ds) = digits_value b ds"
proof -
  have "digits_value b (replicate k 0) = 0" by (induction k) (simp_all add: digits_value_def)
  then show ?thesis by (simp add: digits_value_append)
qed

lemma hexwrd_text:
  "concat (map snd (hexwrd f bs wsz nbytes)) =
     concat (replicate (wsz - nbytes) ''00'') @ concat (map (\<lambda>j. hex2 (bs ! j)) (rev [0..<min wsz nbytes]))"
  by (simp add: hexwrd_def comp_def map_replicate_const)

text \<open>C38: the hexadecimal number \<open>prwrds\<close> prints for a vector word is the
  word: when the bits fit the word, the digits are exactly two per byte of the
  word, and read as a hexadecimal number they give the word's bytes as a
  little-endian value.\<close>

theorem hexwrd_roundtrip:
  assumes "nbytes \<le> wsz" "nbytes \<le> length bs"
  shows "length (concat (map snd (hexwrd f bs wsz nbytes))) = 2 * wsz \<and>
         digits_value 16 (digits_prefix 16 (concat (map snd (hexwrd f bs wsz nbytes)))) = le_val (take nbytes bs)"
proof -
  have m: "min wsz nbytes = nbytes" using assms(1) by simp
  have l: "length (concat (map (\<lambda>j. hex2 (bs ! j)) (rev [0..<n]))) = 2 * n" for n
    by (induction n) (simp_all add: hex2_def)
  have lz: "length (concat (replicate m ''00'')) = 2 * m" for m by (induction m) simp_all
  show ?thesis
    using hex_bytes_digits [of bs nbytes "[]"] hex_bytes_value [OF assms(2)] assms(1)
    unfolding hexwrd_text m
    by (simp add: zeros_digits digits_value_zeros l lz)
qed

subsection \<open>The memory-depth line of \<open>dumpInfo\<close>\<close>

lemma wordSize_le: "wordSize h \<le> 16"
proof -
  have "unat (h AND 0x0000000f) \<le> unat (0x0000000f :: header)" by (rule word_and_le1 [THEN word_le_nat_alt [THEN iffD1]])
  then show ?thesis by (simp add: wordSize_def)
qed

lemma memDepth_less: "memDepth h < 65536"
proof -
  have "unat (drop_bit 4 h AND 0xffff) \<le> unat (0xffff :: header)" by (rule word_and_le1 [THEN word_le_nat_alt [THEN iffD1]])
  then show ?thesis by (simp add: memDepth_def)
qed

lemma sint_small: "n < 2 ^ 31 \<Longrightarrow> sint (word_of_nat n :: 32 word) = int n"
  by (simp add: sint_uint unsigned_of_nat signed_take_bit_int_eq_self take_bit_nat_eq_self)

lemma u32_as_d_small: "n < 2 ^ 31 \<Longrightarrow> u32_as_d n = dec_digits n"
  by (simp add: u32_as_d_def int_dec_def sint_small)

lemma query_result:
  "query ref xf s = (s', Inr m) \<Longrightarrow>
   \<exists>hdr. wordSize_m s' = wordSize hdr \<and> memDepth_m s' = memDepth hdr \<and> m = memDepth hdr * wordSize hdr"
  by (auto simp: query_def Let_def split: prod.splits sum.splits if_splits)

text \<open>After a successful negotiation the memory-depth line of
  \<open>dumpInfo\<close> shows exactly the target memory \<open>query()\<close> returned: the
  product of word size and depth is printed with \<open>%d\<close>, and it always fits a
  signed \<open>int\<close> (at most 16 times 65535).\<close>

theorem dumpInfo_depth_line:
  assumes "query ref xf s = (s', Inr m)"
  shows "dumpInfo s' mv ! 1 = ''Target Memory Depth (bytes) '' @ dec_digits m @ [CHR 0x0A]"
proof -
  obtain hdr where h: "wordSize_m s' = wordSize hdr" "memDepth_m s' = memDepth hdr" "m = memDepth hdr * wordSize hdr"
    using query_result [OF assms] by blast
  have "memDepth hdr * wordSize hdr \<le> 65535 * 16"
    using memDepth_less [of hdr] wordSize_le [of hdr] by (intro mult_le_mono) simp_all
  then have "wordSize hdr * memDepth hdr < 2 ^ 31" by (simp add: mult.commute)
  then show ?thesis
    using h by (simp add: dumpInfo_def getWordSize_def getMemDepth_def u32_as_d_small mult.commute del: of_nat_mult)
qed

subsection \<open>The dump lines of a shift\<close>

lemma hex_digit_not_paren: "d < 16 \<Longrightarrow> hex_digit d \<noteq> CHR ''(''"
proof
  assume d: "d < 16" and e: "hex_digit d = CHR ''(''"
  have "(of_char (hex_digit d) :: nat) = 40" using e by simp
  then show False using d by (simp add: hex_digit_def of_char_of split: if_splits)
qed

lemma dump_heads_append [simp]: "dump_heads (xs @ ys) = dump_heads xs + dump_heads ys"
  by (simp add: dump_heads_def)

lemma dump_heads_simps [simp]:
  "dump_heads [] = 0" "dump_heads ((f, t) # ws) = (if take 2 t = ''( '' then 1 else 0) + dump_heads ws"
  by (simp_all add: dump_heads_def)

lemma dump_heads_concat: "dump_heads (concat xss) = sum_list (map dump_heads xss)"
  by (induction xss) (simp_all add: dump_heads_def)

lemma dump_heads_hexwrd [simp]: "dump_heads (hexwrd f bs wsz n) = 0"
proof -
  have u: "unat v < 256" for v :: byte using unsigned_less [of v] by simp
  have "unat v div 16 < 16" "unat v mod 16 < 16" for v :: byte
    using u [of v] by simp_all
  then have "take 2 (hex2 v) \<noteq> ''( ''" for v :: byte
    by (simp add: hex2_def hex_digit_not_paren)
  then show ?thesis by (simp add: dump_heads_def hexwrd_def filter_empty_conv)
qed

lemma dump_heads_prwrds [simp]: "dump_heads (prwrds err f tms tdi wsz nbits) = 1"
  by (simp add: prwrds_def Let_def split: option.splits)

lemma ceil_div: "0 < (wsz :: nat) \<Longrightarrow> (bc + wsz - 1) div wsz = bc div wsz + (if bc mod wsz = 0 then 0 else 1)"
proof -
  assume w: "0 < wsz"
  have "(bc + wsz - 1) div wsz * wsz = (bc div wsz + (if bc mod wsz = 0 then 0 else 1)) * wsz"
    using ceil_words [OF w, of bc] by (simp add: algebra_simps)
  then show ?thesis using w by simp
qed

text \<open>C39: at debug level 2 the trace of a shift dumps every word of the
  request exactly once, and, when the exchange succeeded, every word of the
  reply once more: as many dump lines as the vectors have words, twice on
  success and once on failure, the partial last word included.\<close>

theorem sendVectors_trace_words:
  assumes "0 < getWordSize s" "1 < getDebug s"
  shows "dump_heads (fst (sendVectors_trace err s bits tms tdi tdo r)) =
           (if r = Inr () then 2 else 1) * (((bits + 8 - 1) div 8 + getWordSize s - 1) div getWordSize s)"
proof -
  have dm: "(7 + bits) div 8 div getWordSize s * getWordSize s + (7 + bits) div 8 mod getWordSize s = (7 + bits) div 8"
    by simp
  have c: "((7 + bits) div 8 + getWordSize s - Suc 0) div getWordSize s =
           (7 + bits) div 8 div getWordSize s +
           (if (7 + bits) div 8 div getWordSize s * getWordSize s < (7 + bits) div 8 then 1 else 0)"
    using ceil_div [OF assms(1), of "(7 + bits) div 8"] dm by (auto, linarith)
  show ?thesis
    using assms c by (simp add: sendVectors_trace_def Let_def dump_heads_concat comp_def sum_list_triv)
qed

subsection \<open>Witnesses\<close>

lemma hexwrd_roundtrip_witness:
  "length (concat (map snd (hexwrd () [0x34, 0x12] 4 2))) = 8 \<and>
   digits_value 16 (digits_prefix 16 (concat (map snd (hexwrd () [0x34, 0x12] 4 2)))) = 4660"
  using hexwrd_roundtrip [of 2 4 "[0x34, 0x12]" "()"] by (simp add: le_val_def)

lemma dumpInfo_depth_line_witness:
  "\<exists>s'. query 1 script_xfer (peer_drv 0 scenario_reply) = (s', Inr 2048) \<and>
        dumpInfo s' 0 ! 1 = ''Target Memory Depth (bytes) '' @ dec_digits 2048 @ [CHR 0x0A]"
proof -
  obtain s2 where e: "xferRel script_xfer
          ((peer_drv 0 scenario_reply)\<lparr>txBuf_m := setHdr (getWordSize (peer_drv 0 scenario_reply))
              (txBuf_m (peer_drv 0 scenario_reply)) mkQuery\<rparr>)
          (setHdr (getWordSize (peer_drv 0 scenario_reply)) (txBuf_m (peer_drv 0 scenario_reply)) mkQuery)
          (getWordSize (peer_drv 0 scenario_reply)) 0 [] = (s2, blit [] 0 [], Inr (0, scenario_reply))"
    using query_exchange_peer [of scenario_reply 0] scenario_reply_fields by blast
  obtain s' where q: "query 1 script_xfer (peer_drv 0 scenario_reply) = (s', Inr 2048)"
    using query_success [OF e, of 1] scenario_reply_fields by (simp add: Let_def)
  show ?thesis
    using dumpInfo_depth_line [OF q, of 0] q by blast
qed

lemma sendVectors_trace_words_witness:
  "0 < getWordSize (JtagDriverAxisToJtag 2 0 () :: unit axis_driver_scheme) \<and>
   1 < getDebug (JtagDriverAxisToJtag 2 0 () :: unit axis_driver_scheme) \<and>
   dump_heads (fst (sendVectors_trace () (JtagDriverAxisToJtag 2 0 () :: unit axis_driver_scheme) 40
     [1, 2, 3, 4, 5] [6, 7, 8, 9, 10] [0, 0, 0, 0, 0] (Inr ()))) = 4"
proof -
  have g: "getWordSize (JtagDriverAxisToJtag 2 0 () :: unit axis_driver_scheme) = 4"
    "getDebug (JtagDriverAxisToJtag 2 0 () :: unit axis_driver_scheme) = 2"
    by (simp_all add: getWordSize_def getDebug_def JtagDriverAxisToJtag_def)
  show ?thesis
    using sendVectors_trace_words [of "JtagDriverAxisToJtag 2 0 () :: unit axis_driver_scheme" "()" 40
        "[1, 2, 3, 4, 5]" "[6, 7, 8, 9, 10]" "[0, 0, 0, 0, 0]" "Inr ()"] g
    by simp
qed

end
