(* ===== verification/Spec2Isabelle.thy ===== *)
theory Spec2Isabelle
  imports TmemMain TmemShift Trace
begin

text \<open>
  \<^bold>\<open>The XVC server of the SLAC JTAG support package, verified in Isabelle/HOL.\<close>

  \<^bold>\<open>The program.\<close> \<open>src/xvcSrv/src/xvcSrv.cc\<close> implements a server that lets a
  Xilinx Virtual Cable client drive a JTAG chain behind a word-oriented transport.
  Its core is the class \<open>JtagDriverAxisToJtag\<close>: a 32-bit control word (header)
  frames every request and reply; \<open>query()\<close> negotiates word size, memory depth
  and clock period with the target; \<open>sendVectors()\<close> re-packs a TMS/TDI bit-vector
  pair into word-interleaved form behind a \<open>mkShift\<close> header; \<open>xferRel()\<close>
  wraps each exchange with transaction-id matching and bounded retry on
  timeouts, calling the transport's one-shot virtual \<open>xfer()\<close>. A
  \<open>DriverRegistry\<close> maps transport names to factories.
  \<open>src/xvcSrv/src/xvcDrvAxisTmem.cc\<close> is one transport, a memory-mapped FIFO.
  \<open>main\<close> reads the command line, selects and initialises a driver, and runs
  an \<open>XvcServer\<close> that serves one TCP connection after the other.

  \<^bold>\<open>The library.\<close>
  \<^item> \<open>Prelude\<close>: machine types (\<open>byte\<close>, \<open>header\<close>, \<open>xid\<close>), the
    exception classes as the datatype \<open>xvc_error\<close>, byte buffers (\<open>blit\<close> is
    \<open>memcpy\<close>), the little-endian word codec of \<open>getw32\<close>/\<open>setw32\<close>, and
    the shared bit and list lemmas (collections \<open>field_bits\<close>, \<open>buf_simps\<close>).
  \<^item> \<open>Codec\<close>: the control-word codec (\<open>xvcSrv.cc\<close> 111--294). Header
    constants are not in the sources (\<open>xvcSrv.h\<close>); they follow the layout the
    specification fixes. Lemmas: length and transaction-id round trips of
    \<open>mkShift\<close>, the 255-cycle of \<open>newXid\<close>, the query-reply round trip, the
    header byte round trip, and the out-of-range behaviours.
  \<^item> \<open>Driver\<close>: the objects as extensible records (\<open>jtag_driver\<close> for
    \<open>JtagDriver\<close>, \<open>axis_driver\<close> for \<open>JtagDriverAxisToJtag\<close>, a transport's
    own state in the extension slot) and the transport interface \<open>xfer_fn\<close>:
    the arguments of \<open>xfer(txb, txBytes, hdbuf, hsize, rxb, size)\<close>, and as
    results the object, both buffers as the transport left them (written also
    when it throws after reading the reply) and the exception or \<open>got\<close>.
  \<^item> \<open>Reliable\<close>: \<open>xferRel\<close> and its retry loop, proved against a scripted
    channel: exhaustion after exactly \<open>retry_ + 1\<close> timeouts, error replies
    never retried, stale replies discarded, delivery within the budget. The
    loop passes \<open>hdBuf_\<close> as the transport's header buffer and the caller's
    buffer as \<open>rxb\<close>, so a stale reply's payload stays in the caller's
    buffer when the transfer then fails with a timeout.
  \<^item> \<open>Negotiation\<close>: \<open>query()\<close> and \<open>init()\<close> (lines 296--378): the
    fields adopted from the Query reply, the retry budget, the buffer growth, the
    failure on a word size below 4 (after it has been stored), and the
    specification's end-to-end scenario against a scripted peer.
  \<^item> \<open>Vectors\<close>: \<open>sendVectors()\<close> (lines 423--485) as \<open>packRequest\<close> (the
    request built in \<open>txBuf_\<close>, with \<open>packWords\<close> for the copy loop) and the
    hand-off to \<open>xferRel\<close>. \<open>packWords\<close> is shown equal to the reference
    layout \<open>interleave\<close>; from it follow the round trip (the receiver's
    positions \<open>tms_pos\<close>/\<open>tdi_pos\<close> give back both vectors within the
    \<open>bytesTot\<close> bytes sent), the header (bit count and fresh id), the bound
    \<open>bytesTot \<le> (2 * memDepth_ + 1) * wordSize_\<close> with no write past the
    buffer, and delivery of the TDO payload.

  \<^item> \<open>Registry\<close>: \<open>DriverRegistry\<close> (lines 599--693) as the list of
    entries, and the driver selection of \<open>main\<close> (lines 774--797) with
    \<open>dlopen\<close> as a parameter. Lemmas: \<open>find\<close> returns the last entry of the
    name (shadowing), a \<open>NULL\<close> or empty name selects the last entry, the
    errors of \<open>create\<close>, and selection of a dynamically loaded driver. A
    factory returns the driver or the exception its constructor throws, which
    \<open>main\<close> catches.
  \<^item> \<open>MainProg\<close>: the program around the core (\<open>xvcSrv.cc\<close> 519--565 and
    695--839): \<open>main\<close>'s getopt loop \<open>main_opts\<close> over the locals
    \<open>main_cfg\<close>, with the \<open>sscanf("%i")\<close> conversion \<open>sscanf_i\<close>
    (modelled from the C standard) stored into an \<open>unsigned\<close>
    (\<open>scan_u32\<close>); the start-up \<open>main_start\<close> (\<open>-h\<close> path, selection
    and creation, \<open>setDebug\<close>, the virtual \<open>init()\<close> as a parameter, then
    \<open>setTestMode\<close>); \<open>XvcServer\<close>'s constructor with the socket calls'
    success as a parameter \<open>sys\<close>; and \<open>run()\<close> as \<open>xvc_run\<close>, a
    \<open>partial_function (option)\<close> over connection indices whose outcomes
    (\<open>acc\<close>, \<open>srv\<close>) stand for \<open>XvcConn\<close>. \<open>xvc_main\<close> composes
    them; \<open>main_usage\<close> is the text of \<open>usage()\<close> (lines 567--585).
    Lemmas: \<open>%i\<close> reads decimal text back; the port is narrowed to 16
    bits without a check; \<open>run()\<close> returns exactly when a connection fails
    with something other than a \<open>SysErr\<close>.
  \<^item> \<open>AxisTmem\<close>: the transport \<open>JtagDriverTmemFifo\<close>
    (\<open>xvcDrvAxisTmem.cc\<close>). Its members extend \<open>axis_driver\<close> through the
    extension slot (\<open>tmem_fifo\<close>, with the device state \<open>dev_m\<close>); the
    register bus \<open>toscaRead\<close>/\<open>toscaWrite\<close> and the host byte order are the
    parameter \<open>tmem_env\<close>, and the register map of \<open>xvcDrvAxisTmem.h\<close>
    (not in the repository) the parameter record \<open>tmem_hw\<close>. Operations:
    the constructor (target check, options, reset, magic and version checks,
    the vector limit \<open>maxVecOf\<close>), \<open>o32\<close>/\<open>i32\<close>, \<open>reset\<close>, \<open>init\<close>,
    \<open>getMaxVectorSize\<close> and \<open>xfer()\<close> as \<open>tmem_send\<close> (request and
    end of frame), \<open>tmem_recv\<close> (polling and header) and
    \<open>tmem_payload\<close> (payload, excess, fault injection); the bytes the two
    reading parts copy are written to the buffers \<open>hdbuf\<close> and \<open>rxb\<close>
    on every path that has read them, the injected timeout included. Lemmas:
    on any bus a transfer changes only the device state and \<open>drop_\<close> of the
    driver, so the transport meets the engine's contract \<open>xfer_frame\<close>; the
    vector limit leaves room for exactly two vectors and a header word, and
    wraps for a FIFO size of 0.
  \<^item> \<open>TmemFifo\<close>: a FIFO device behind the registers (\<open>fifo_dev\<close>:
    outgoing and reply queues, delivered frames, underflow reads, static status
    bits), with the firmware's answer to a frame as a function \<open>peer\<close>. On
    it: the frame a request becomes, loopback of the request bytes into the two
    buffers in either byte order, a transfer returns exactly when the firmware
    answers, the short reply, fault injection every 256th transfer (after the
    reply has been copied to the buffers), and the zero-length request.
  \<^item> \<open>TmemSession\<close>: the constructor on the FIFO model, and the driver
    states reachable by construction and transfers (\<open>tmem_reach\<close>, an
    inductive set) with the invariant \<open>tmem_inv\<close> (FIFO empty between
    transfers, configured base, word size 4, vector limit from the size field),
    proved by rule induction. A FIFO whose size field reads 0 is accepted,
    with a vector limit that has wrapped to \<open>2^63 - 2\<close>.
  \<^item> \<open>TmemInit\<close>: \<open>init()\<close> of the TMEM transport (lines 141--150) on the
    FIFO model, with the base class's \<open>query()\<close> and \<open>xferRel()\<close> calling
    the transport's own \<open>xfer()\<close> (\<open>tmem_dispatch\<close>: the virtual call is
    \<open>tmem_xfer\<close> wherever that returns). The firmware receives exactly the
    Query frame, and the outcome follows the reply's word size (protocol
    error, "firmware misconfigured", or success with the reply's depth).
  \<^item> \<open>TmemMain\<close>: the TMEM transport inside the program: its registration
    under \<open>tmem\<close> (line 250; the registrar's needs-target flag is a
    parameter) with a factory that parses the target as the constructor does
    (lines 43--48: \<open>toscaStrToAddrSpace\<close> of the TOSCA library is a
    parameter, \<open>strtoul\<close> is modelled from the C standard), and \<open>main -D
    tmem -t <target> -o\<close> from the command line through registry lookup,
    construction, \<open>init()\<close> over the FIFO and one served connection to its
    exit. Also the destructor (\<open>tmem_destroy\<close>: the descriptors it closes,
    shown to be exactly the one the constructor opened) and \<open>usage()\<close>.
  \<^item> \<open>TmemShift\<close>: a shift through the TMEM transport on the FIFO model:
    \<open>sendVectors()\<close>, \<open>xferRel()\<close> and the transport's \<open>xfer()\<close>
    composed; the firmware receives exactly the request, the caller's TDO
    buffer receives the firmware's TDO bytes, and the driver stays between
    transfers.
  \<^item> \<open>Trace\<close>: the debug output that formats driver data, \<open>prwrds\<close>
    (lines 398--421), \<open>dumpInfo\<close> (lines 487--494) and the whole debug
    trace of \<open>sendVectors()\<close> with its call of the sniffer
    (\<open>sendVectors_trace\<close>, lines 440--484), as lists of writes (stream,
    text) with the \<open>printf\<close> conversions they use. The digits printed for a
    vector word read back as the word's little-endian value; the
    memory-depth line shows what \<open>query()\<close> returned; a shift's trace
    dumps each word of the request once and, on success, each word of the
    reply once.

  \<^bold>\<open>Modelling choices.\<close> Control words and ids are \<open>32 word\<close>/\<open>8 word\<close>;
  C's unsigned wrap-around is kept where the code relies on it (\<open>newXid\<close>,
  \<open>setHdr\<close>). Buffer sizes are \<open>nat\<close>; a write past a buffer's end extends it,
  so that overflow shows as growth of the buffer. A \<open>memcpy\<close> sequence into a
  buffer from offset 0 is one \<open>blit\<close> of the concatenated bytes. The retry loop is recursion on
  the number of attempts left, \<open>retry_ + 1\<close> at the start. The clock-period
  codec's \<open>double\<close> arithmetic is exact real arithmetic. In the TMEM transport
  the \<open>unsigned\<close> counters of \<open>xfer()\<close> are \<open>32 word\<close> and \<open>unsigned
  long\<close> is 64 bits; the polling loop \<open>while (csr & FIFO_CSR_EMPI)\<close> ends
  only when the firmware answers, so it is a \<open>partial_function (option)\<close>
  and a transfer that polls forever is \<open>None\<close>; the other loops are bounded
  by their counts (\<open>fun\<close>, and \<open>function\<close> with a measure for the discard
  loop). In interrupt mode \<open>wait()\<close>'s blocking \<open>write\<close> and \<open>read\<close> on
  the interrupt descriptor are outcomes of the bus (\<open>irqWrite\<close>,
  \<open>irqRead\<close>); the server loop \<open>run()\<close> is likewise a
  \<open>partial_function (option)\<close>, \<open>None\<close> for a server never stopped. The FIFO model's reply must fit
  the status register's word-count field (\<open>2^k\<close> words) and the 32-bit byte count; \<open>hw_ok\<close> states what
  the proofs need of the register map (distinct indices and flag bits).

  \<^bold>\<open>Not modelled.\<close> The XVC protocol on a connection (\<open>XvcConn\<close>,
  whose source is not in the repository) is an outcome per connection; the UDP
  loopback mode (\<open>JtagDriverUdp\<close>, \<open>UdpLoopBack\<close> and its thread) is only
  selected; \<open>SockSd\<close>'s destructor (a \<open>close\<close>) is left out;
  \<open>-V\<close>'s version text, the fixed one-line traces (of \<open>query()\<close>,
  \<open>o32\<close>/\<open>i32\<close>, fault injection, registration, closing a connection) and
  \<open>main\<close>'s error messages are output only and not modelled. The JTAG
  sniffer's class \<open>JtagDumpCtx\<close> is not in the repository: only the call
  \<open>sendVectors()\<close> makes to it is modelled. The UDP and
  loopback transports are not part of the sources.
\<close>

end
